theory Spec2Isabelle
  imports Main
begin

section \<open>Values, model objects and operators\<close>

text \<open>
  JavaScript strings are modelled as \<^typ>\<open>string\<close>. The compiler never indexes into a
  string or counts its characters; it only concatenates strings, compares them and tests
  them for emptiness, so the encoding of a character does not matter. The code point
  U+10FFFF, which one function appends to a prefix, is written as its four UTF-8 bytes.
  The numbers of the query tree (limits, offsets, days) are integers.
\<close>

datatype JsonValue =
    JString string
  | JNumber int
  | JBool bool
  | JNull
  | JArray "JsonValue list"

datatype Field = Field (field_name: string)

datatype RootEntityType = RootEntityType (type_name: string)

datatype Relation = Relation (fromType: RootEntityType) (fromField: Field) (toType: RootEntityType)

datatype RelationSide = RelationSide (relation: Relation) (isFromSide: bool)

text \<open>
  A \<^verbatim>\<open>VariableQueryNode\<close> is used as a map key by object identity. The identity is the
  number \<open>var_id\<close>; the label is only a naming hint and may be absent.
  The enumerations of operators, basic types and quantifiers have the members that the
  specification lists; their declarations are not among the sources.
\<close>

datatype Variable = Variable (var_id: nat) (label: "string option")

datatype QueryResultValidator = QueryResultValidator string

datatype BinaryOperator =
    AND | OR | EQUAL | UNEQUAL | LESS_THAN | LESS_THAN_OR_EQUAL | GREATER_THAN
  | GREATER_THAN_OR_EQUAL | IN | ADD | SUBTRACT | MULTIPLY | DIVIDE | MODULO
  | CONTAINS | STARTS_WITH | ENDS_WITH | LIKE | APPEND | PREPEND

datatype UnaryOperator = NOT | JSON_STRINGIFY

datatype BinaryOperatorWithLanguage =
    QUICKSEARCH_STARTS_WITH
  | QUICKSEARCH_CONTAINS_ANY_WORD
  | QUICKSEARCH_CONTAINS_PREFIX
  | QUICKSEARCH_CONTAINS_PHRASE

datatype BasicType = SCALAR | LIST | OBJECT | NULL

datatype Quantifier = QSome | QEvery | QNone

datatype OrderDirection = ASCENDING | DESCENDING

section \<open>The query tree\<close>

text \<open>
  One constructor per node class that the generator and the TTL module mention, with
  the fields that the handlers read (the class declarations themselves are not among
  the sources). An object node is a list of properties, each a name and a value node.
  A field node is \<open>objectNode\<close>, \<open>field\<close> and the optional \<open>path\<close>. A pre-execution entry is
  the query, the optional result variable and the optional result validator.
  A \<^verbatim>\<open>TransformListQueryNode\<close> is \<open>listNode\<close>, \<open>itemVariable\<close>, \<open>filterNode\<close>,
  \<open>orderBy\<close> (clauses of a value node and a direction), \<open>skip\<close>, \<open>maxCount\<close>, \<open>innerNode\<close>.
  A \<^verbatim>\<open>QuantifierFilterNode\<close> is \<open>quantifier\<close>, \<open>listNode\<close>, \<open>itemVariable\<close>, \<open>conditionNode\<close>.
  An edge identifier is a pair of optional id nodes (\<open>fromIDNode\<close>, \<open>toIDNode\<close>); the edge
  filter of a \<^verbatim>\<open>RemoveEdgesQueryNode\<close> is its \<open>fromIDsNode\<close> and \<open>toIDsNode\<close>, both optional.
\<close>

datatype QueryNode =
    LiteralQueryNode JsonValue
  | NullQueryNode
  | RuntimeErrorQueryNode string
  | ConstBoolQueryNode bool
  | ConstIntQueryNode int
  | ObjectQueryNode "(string \<times> QueryNode) list"
  | ListQueryNode "QueryNode list"
  | ConcatListsQueryNode "QueryNode list"
  | VariableQueryNode Variable
  | VariableAssignmentQueryNode Variable QueryNode QueryNode
  | WithPreExecutionQueryNode
      "(QueryNode \<times> Variable option \<times> QueryResultValidator option) list" QueryNode
  | EntityFromIdQueryNode RootEntityType QueryNode
  | FieldQueryNode QueryNode Field "Field list option"
  | FieldPathQueryNode QueryNode "Field list"
  | RootEntityIDQueryNode QueryNode
  | QuickSearchQueryNode RootEntityType Variable QueryNode
  | TransformListQueryNode QueryNode Variable QueryNode
      "(QueryNode \<times> OrderDirection) list" int "int option" QueryNode
  | CountQueryNode QueryNode
  | MergeObjectsQueryNode "QueryNode list"
  | FirstOfListQueryNode QueryNode
  | BinaryOperationQueryNode QueryNode BinaryOperator QueryNode
  | OperatorWithLanguageQueryNode QueryNode BinaryOperatorWithLanguage QueryNode "string option"
  | UnaryOperationQueryNode QueryNode UnaryOperator
  | ConditionalQueryNode QueryNode QueryNode QueryNode
  | TypeCheckQueryNode QueryNode BasicType
  | SafeListQueryNode QueryNode
  | QuantifierFilterNode Quantifier QueryNode Variable QueryNode
  | EntitiesQueryNode RootEntityType
  | FollowEdgeQueryNode RelationSide QueryNode
  | CreateEntityQueryNode RootEntityType QueryNode
  | UpdateEntitiesQueryNode RootEntityType QueryNode Variable "(string \<times> QueryNode) list"
  | DeleteEntitiesQueryNode RootEntityType QueryNode
  | AddEdgesQueryNode Relation "(QueryNode option \<times> QueryNode option) list"
  | RemoveEdgesQueryNode Relation "QueryNode option" "QueryNode option"
  | SetEdgeQueryNode Relation "QueryNode option \<times> QueryNode option"
      "QueryNode option \<times> QueryNode option"

text \<open>
  Modelled from the spec: the constructor of \<^verbatim>\<open>TransformListQueryNode\<close> (the query-tree
  classes are not among the sources). The callers in the sources pass a list node, an
  item variable, a filter node and at most a \<open>maxCount\<close>. The constructor then leaves the
  order unordered, \<open>skip\<close> at 0 (the handler compares it with \<^verbatim>\<open>=== 0\<close>) and \<open>maxCount\<close>
  unset unless given, and takes the item variable itself as inner node (the handler
  compares the inner node with the item variable by identity).
\<close>

definition newTransformListQueryNode ::
    "QueryNode \<Rightarrow> Variable \<Rightarrow> QueryNode \<Rightarrow> int option \<Rightarrow> QueryNode" where
  "newTransformListQueryNode listNode itemVariable filterNode maxCount =
     TransformListQueryNode listNode itemVariable filterNode [] 0 maxCount
       (VariableQueryNode itemVariable)"

text \<open>The comparison \<^verbatim>\<open>node !== itemVariable\<close> is object identity with a variable node.\<close>

fun isSameNode :: "QueryNode \<Rightarrow> Variable \<Rightarrow> bool" where
  "isSameNode (VariableQueryNode w) v = (var_id w = var_id v)"
| "isSameNode _ v = False"

section \<open>AQL fragments\<close>

text \<open>
  An \<^verbatim>\<open>AQLVariable\<close> is an object with an identity and a label; its name in the query text
  is only chosen at serialisation. \<^verbatim>\<open>AQLQueryResultVariable\<close> is the subclass for the
  results of earlier queries of the transaction.
\<close>

datatype AQLVariable =
    AQLVariable nat "string option"
  | AQLQueryResultVariable nat "string option"

fun isQueryResultVariable :: "AQLVariable \<Rightarrow> bool" where
  "isQueryResultVariable (AQLQueryResultVariable i l) = True"
| "isQueryResultVariable (AQLVariable i l) = False"

text \<open>
  Modelled from the spec: the fragment builder (\<^verbatim>\<open>aql.ts\<close> is not among the sources). A
  fragment is kept as the tree of builder calls that made it. A template literal
  \<^verbatim>\<open>aql`a${x}b`\<close> is the compound fragment of its pieces in order: the static text as code
  fragments (empty pieces left out), an interpolated fragment as it is, and any other
  interpolated value as a bound value.
\<close>

datatype AQLFragment =
    AQLCodeFragment string
  | AQLBoundValue JsonValue
  | AQLVariableFragment AQLVariable
  | AQLStringFragment string
  | AQLIntegerFragment int
  | AQLIdentifierFragment string
  | AQLCollectionFragment string
  | AQLCompoundFragment "AQLFragment list"
  | AQLLines "AQLFragment list"
  | AQLIndentation AQLFragment
  | AQLJoin "AQLFragment list" AQLFragment

datatype Error =
    UnknownNode
  | UnboundVariable Variable
  | DoubleIntroduction Variable
  | UnsupportedOperator
  | InvalidIdentifier string
  | OutOfFuel

section \<open>Collaborators that are not among the sources\<close>

text \<open>
  The result of \<^verbatim>\<open>analyzeLikePatternPrefix\<close>, and the functions and settings the
  generator imports from modules that are not among the sources. They are parameters of
  the model: every theorem holds for all of them.
  \<open>extractVariableAssignments\<close> returns the rewritten node and the lifted assignments, each
  as variable node, value node and result node.
\<close>

datatype LikeAnalysis =
  LikeAnalysis (literalPrefix: string) (isSimplePrefixPattern: bool) (isLiteralPattern: bool)

record Env =
  simplifyBooleans :: "QueryNode \<Rightarrow> QueryNode"
  extractVariableAssignments ::
    "QueryNode \<Rightarrow> QueryNode \<times> (Variable \<times> QueryNode \<times> QueryNode) list"
  not_node :: "QueryNode \<Rightarrow> QueryNode"
  analyzeLikePatternPrefix :: "string \<Rightarrow> LikeAnalysis"
  toLowerCase :: "string \<Rightarrow> string"
  toUpperCase :: "string \<Rightarrow> string"
  isSafeIdentifier :: "string \<Rightarrow> bool"
  getCollectionNameForRootEntity :: "RootEntityType \<Rightarrow> string"
  getCollectionNameForRelation :: "Relation \<Rightarrow> string"
  getViewNameForRootEntity :: "RootEntityType \<Rightarrow> string"
  enableExperimentalProjectionIndirection :: bool
  experimentalProjectionIndirectionTypeNames :: "string list option"
  RUNTIME_ERROR_TOKEN :: string

definition IDENTITY_ANALYZER :: string where
  "IDENTITY_ANALYZER = ''identity''"

definition MAX_SAFE_INTEGER :: int where
  "MAX_SAFE_INTEGER = 9007199254740991"

definition decapitalize :: "Env \<Rightarrow> string \<Rightarrow> string" where
  "decapitalize E str = toLowerCase E (take 1 str) @ drop 1 str"

definition isStringCaseInsensitive :: "Env \<Rightarrow> string \<Rightarrow> bool" where
  "isStringCaseInsensitive E str = (toLowerCase E str = toUpperCase E str)"

text \<open>
  Modelled from the spec: \<^verbatim>\<open>aql.identifier\<close> and \<^verbatim>\<open>aql.collection\<close> emit a name verbatim
  when it is a safe identifier and fail the compilation otherwise.
\<close>

definition aql_identifier :: "Env \<Rightarrow> string \<Rightarrow> Error + AQLFragment" where
  "aql_identifier E name =
     (if isSafeIdentifier E name then Inr (AQLIdentifierFragment name)
      else Inl (InvalidIdentifier name))"

definition aql_collection :: "Env \<Rightarrow> string \<Rightarrow> Error + AQLFragment" where
  "aql_collection E name =
     (if isSafeIdentifier E name then Inr (AQLCollectionFragment name)
      else Inl (InvalidIdentifier name))"

section \<open>The store and the query context\<close>

text \<open>
  The sets of accessed collections and the array of pre-execution queries are objects
  that several contexts share by reference and mutate in place. The store maps the
  address of each such object to its content: a JavaScript \<^verbatim>\<open>Set\<close> of strings as the list
  of its elements in insertion order, an array as a list. \<open>nextRef\<close> is the next free
  address and \<open>nextVariable\<close> the identity of the next \<^verbatim>\<open>AQLVariable\<close> object.
  A compound query holds the reference of its array of pre-execution queries and copies
  of the two collection sets.
\<close>

datatype AQLCompoundQuery =
  AQLCompoundQuery nat AQLFragment "AQLVariable option" "QueryResultValidator option"
    "string list" "string list"

record Store =
  sets :: "nat \<Rightarrow> string list"
  arrays :: "nat \<Rightarrow> AQLCompoundQuery list"
  nextRef :: nat
  nextVariable :: nat

record QueryContext =
  variableMap :: "nat \<Rightarrow> AQLVariable option"
  preExecQueries :: nat
  readAccessedCollections :: nat
  writeAccessedCollections :: nat

datatype AccessType = READ | WRITE

type_synonym 'a Compile = "Store \<Rightarrow> Error + ('a \<times> Store)"

type_synonym Processor = "QueryNode \<Rightarrow> QueryContext \<Rightarrow> AQLFragment Compile"

definition returnM :: "'a \<Rightarrow> 'a Compile" where
  "returnM x = (\<lambda>st. Inr (x, st))"

definition throwM :: "Error \<Rightarrow> 'a Compile" where
  "throwM e = (\<lambda>st. Inl e)"

definition bindM :: "'a Compile \<Rightarrow> ('a \<Rightarrow> 'b Compile) \<Rightarrow> 'b Compile" where
  "bindM m f = (\<lambda>st. case m st of Inl e \<Rightarrow> Inl e | Inr (x, st') \<Rightarrow> f x st')"

definition liftE :: "Error + 'a \<Rightarrow> 'a Compile" where
  "liftE r = (\<lambda>st. case r of Inl e \<Rightarrow> Inl e | Inr x \<Rightarrow> Inr (x, st))"

fun mapM :: "('a \<Rightarrow> 'b Compile) \<Rightarrow> 'a list \<Rightarrow> 'b list Compile" where
  "mapM f [] = returnM []"
| "mapM f (x # xs) = bindM (f x) (\<lambda>y. bindM (mapM f xs) (\<lambda>ys. returnM (y # ys)))"

text \<open>\<^verbatim>\<open>new AQLVariable(label)\<close> and \<^verbatim>\<open>aql.variable(label)\<close>: a new object.\<close>

definition newAQLVariable :: "string option \<Rightarrow> AQLVariable Compile" where
  "newAQLVariable l = (\<lambda>st. Inr (AQLVariable (nextVariable st) l,
                                 st\<lparr>nextVariable := Suc (nextVariable st)\<rparr>))"

definition newAQLQueryResultVariable :: "string option \<Rightarrow> AQLVariable Compile" where
  "newAQLQueryResultVariable l = (\<lambda>st. Inr (AQLQueryResultVariable (nextVariable st) l,
                                 st\<lparr>nextVariable := Suc (nextVariable st)\<rparr>))"

definition aql_variable :: "string \<Rightarrow> AQLFragment Compile" where
  "aql_variable l = bindM (newAQLVariable (Some l)) (\<lambda>v. returnM (AQLVariableFragment v))"

text \<open>\<^verbatim>\<open>Set.add\<close> keeps the insertion order and ignores an element that is present.\<close>

definition set_add :: "string list \<Rightarrow> string \<Rightarrow> string list" where
  "set_add s x = (if x \<in> set s then s else s @ [x])"

text \<open>
  \<^verbatim>\<open>new QueryContext()\<close>: an empty variable map, a new empty array and two new empty sets.
\<close>

definition newQueryContext :: "Store \<Rightarrow> QueryContext \<times> Store" where
  "newQueryContext st =
     (let r = nextRef st in
      (\<lparr>variableMap = (\<lambda>k. None), preExecQueries = r,
        readAccessedCollections = Suc r, writeAccessedCollections = Suc (Suc r)\<rparr>,
       st\<lparr>arrays := (arrays st)(r := []),
          sets := (sets st)(Suc r := [], Suc (Suc r) := []),
          nextRef := r + 3\<rparr>))"

definition newPreExecContext :: "QueryContext \<Rightarrow> Store \<Rightarrow> QueryContext \<times> Store" where
  "newPreExecContext this st =
     (let (newContext, st1) = newQueryContext st in
      (newContext\<lparr>
         variableMap := (\<lambda>varNode. case variableMap this varNode of
                            None \<Rightarrow> None
                          | Some aqlVar \<Rightarrow>
                              if isQueryResultVariable aqlVar then Some aqlVar else None),
         readAccessedCollections := readAccessedCollections this,
         writeAccessedCollections := writeAccessedCollections this\<rparr>,
       st1))"

definition newNestedContextWithNewVariable ::
    "QueryContext \<Rightarrow> Variable \<Rightarrow> AQLVariable \<Rightarrow> QueryContext Compile" where
  "newNestedContextWithNewVariable this variableNode aqlVariable =
     (\<lambda>st. if variableMap this (var_id variableNode) \<noteq> None
           then Inl (DoubleIntroduction variableNode)
           else (let (newContext, st1) = newQueryContext st in
                 Inr (newContext\<lparr>
                        variableMap := (variableMap this)(var_id variableNode := Some aqlVariable),
                        preExecQueries := preExecQueries this,
                        readAccessedCollections := readAccessedCollections this,
                        writeAccessedCollections := writeAccessedCollections this\<rparr>,
                      st1)))"

definition introduceVariable :: "QueryContext \<Rightarrow> Variable \<Rightarrow> QueryContext Compile" where
  "introduceVariable this variableNode =
     bindM (newAQLVariable (label variableNode))
       (\<lambda>variable. newNestedContextWithNewVariable this variableNode variable)"

definition addCollectionAccess :: "QueryContext \<Rightarrow> string \<Rightarrow> AccessType \<Rightarrow> Store \<Rightarrow> Store" where
  "addCollectionAccess this collection accessType st =
     (case accessType of
        READ \<Rightarrow> st\<lparr>sets := (sets st)(readAccessedCollections this :=
                      set_add (sets st (readAccessedCollections this)) collection)\<rparr>
      | WRITE \<Rightarrow> st\<lparr>sets := (sets st)(writeAccessedCollections this :=
                      set_add (sets st (writeAccessedCollections this)) collection)\<rparr>)"

definition getVariable :: "QueryContext \<Rightarrow> Variable \<Rightarrow> Error + AQLFragment" where
  "getVariable this variableNode =
     (case variableMap this (var_id variableNode) of
        None \<Rightarrow> Inl (UnboundVariable variableNode)
      | Some variable \<Rightarrow> Inr (AQLCompoundFragment [AQLVariableFragment variable]))"

section \<open>Helpers of the generator\<close>

abbreviation aql :: "AQLFragment list \<Rightarrow> AQLFragment" where
  "aql \<equiv> AQLCompoundFragment"

abbreviation code :: "string \<Rightarrow> AQLFragment" where
  "code \<equiv> AQLCodeFragment"

definition safeJSONKey :: "Env \<Rightarrow> string \<Rightarrow> AQLFragment" where
  "safeJSONKey E key =
     (if isSafeIdentifier E key then aql [AQLStringFragment key]
      else aql [AQLBoundValue (JString key)])"

definition parenthesizeList :: "AQLFragment list \<Rightarrow> AQLFragment" where
  "parenthesizeList content =
     AQLLines [aql [code ''(''], AQLIndentation (AQLLines content), aql [code '')'']]"

definition parenthesizeObject :: "AQLFragment list \<Rightarrow> AQLFragment" where
  "parenthesizeObject content = aql [code ''FIRST'', parenthesizeList content]"

definition getCollectionForType ::
    "Env \<Rightarrow> RootEntityType \<Rightarrow> AccessType \<Rightarrow> QueryContext \<Rightarrow> AQLFragment Compile" where
  "getCollectionForType E type accessType context =
     (\<lambda>st. let name = getCollectionNameForRootEntity E type in
           liftE (aql_collection E name) (addCollectionAccess context name accessType st))"

definition getCollectionForRelation ::
    "Env \<Rightarrow> Relation \<Rightarrow> AccessType \<Rightarrow> QueryContext \<Rightarrow> AQLFragment Compile" where
  "getCollectionForRelation E rel accessType context =
     (\<lambda>st. let name = getCollectionNameForRelation E rel in
           liftE (aql_collection E name) (addCollectionAccess context name accessType st))"

text \<open>
  In \<open>getFieldAccessFragment\<close> the call of \<^verbatim>\<open>aql.identifier\<close> is only reached for a safe
  identifier, where it returns the identifier.
\<close>

definition getFieldAccessFragment :: "Env \<Rightarrow> Field \<Rightarrow> AQLFragment" where
  "getFieldAccessFragment E field =
     (let identifier = field_name field in
      if isSafeIdentifier E identifier then aql [code ''.'', AQLIdentifierFragment identifier]
      else aql [code ''['', AQLBoundValue (JString identifier), code '']''])"

fun getFieldPathAccessFragmentList :: "Env \<Rightarrow> Field list \<Rightarrow> Error + AQLFragment" where
  "getFieldPathAccessFragmentList E [] = Inr (aql [])"
| "getFieldPathAccessFragmentList E (f # rest) =
     (case aql_identifier E (field_name f) of
        Inl e \<Rightarrow> Inl e
      | Inr i \<Rightarrow> (case getFieldPathAccessFragmentList E rest of
                    Inl e \<Rightarrow> Inl e
                  | Inr r \<Rightarrow> Inr (aql [code ''.'', i, r])))"

definition getFieldPathAccessFragment :: "Env \<Rightarrow> Field list option \<Rightarrow> Error + AQLFragment" where
  "getFieldPathAccessFragment E path =
     (case path of None \<Rightarrow> Inr (aql []) | Some p \<Rightarrow> getFieldPathAccessFragmentList E p)"

definition getAQLOperator :: "BinaryOperator \<Rightarrow> AQLFragment option" where
  "getAQLOperator op =
     (case op of
        AND \<Rightarrow> Some (aql [code ''&&''])
      | OR \<Rightarrow> Some (aql [code ''||''])
      | EQUAL \<Rightarrow> Some (aql [code ''==''])
      | UNEQUAL \<Rightarrow> Some (aql [code ''!=''])
      | LESS_THAN \<Rightarrow> Some (aql [code ''<''])
      | LESS_THAN_OR_EQUAL \<Rightarrow> Some (aql [code ''<=''])
      | GREATER_THAN \<Rightarrow> Some (aql [code ''>''])
      | GREATER_THAN_OR_EQUAL \<Rightarrow> Some (aql [code ''>=''])
      | IN \<Rightarrow> Some (aql [code ''IN''])
      | ADD \<Rightarrow> Some (aql [code ''+''])
      | SUBTRACT \<Rightarrow> Some (aql [code ''-''])
      | MULTIPLY \<Rightarrow> Some (aql [code ''*''])
      | DIVIDE \<Rightarrow> Some (aql [code ''/''])
      | MODULO \<Rightarrow> Some (aql [code ''%''])
      | _ \<Rightarrow> None)"

text \<open>\<^verbatim>\<open>String.fromCodePoint(0x10FFFF)\<close>, in UTF-8.\<close>

definition maxChar :: string where
  "maxChar = [CHR 0xF4, CHR 0x8F, CHR 0xBF, CHR 0xBF]"

definition getFastStartsWithQuery :: "AQLFragment \<Rightarrow> string \<Rightarrow> AQLFragment" where
  "getFastStartsWithQuery lhs rhsValue =
     (if rhsValue = [] then aql [code ''IS_STRING('', lhs, code '')'']
      else (let maxStr = rhsValue @ maxChar in
            aql [code ''('', lhs, code '' >= UPPER('', AQLBoundValue (JString rhsValue),
                 code '') && '', lhs, code '' < LOWER('', AQLBoundValue (JString maxStr),
                 code ''))'']))"

definition getEqualsIgnoreCaseQuery :: "Env \<Rightarrow> AQLFragment \<Rightarrow> string \<Rightarrow> AQLFragment" where
  "getEqualsIgnoreCaseQuery E lhs rhsValue =
     (if isStringCaseInsensitive E rhsValue
      then aql [code ''('', lhs, code '' == '', AQLBoundValue (JString rhsValue), code '')'']
      else (let lowerBoundFrag = aql [code ''UPPER('', AQLBoundValue (JString rhsValue), code '')''];
                upperBoundFrag = aql [code ''LOWER('', AQLBoundValue (JString rhsValue), code '')'']
            in aql [code ''('', lhs, code '' >= '', lowerBoundFrag, code '' && '', lhs,
                    code '' <= '', upperBoundFrag, code '')'']))"

text \<open>\<^verbatim>\<open>node instanceof LiteralQueryNode && typeof node.value === 'string'\<close>, with the string.\<close>

fun literalString :: "QueryNode \<Rightarrow> string option" where
  "literalString (LiteralQueryNode (JString s)) = Some s"
| "literalString _ = None"

fun jsonStrings :: "JsonValue list \<Rightarrow> string list option" where
  "jsonStrings [] = Some []"
| "jsonStrings (JString s # vs) = (case jsonStrings vs of None \<Rightarrow> None | Some ss \<Rightarrow> Some (s # ss))"
| "jsonStrings (_ # vs) = None"

text \<open>A literal node whose value is an array of strings only, with the strings.\<close>

fun literalStringArray :: "QueryNode \<Rightarrow> string list option" where
  "literalStringArray (LiteralQueryNode (JArray vs)) = jsonStrings vs"
| "literalStringArray _ = None"

fun isFieldQueryNode :: "QueryNode \<Rightarrow> bool" where
  "isFieldQueryNode (FieldQueryNode obj f p) = True"
| "isFieldQueryNode _ = False"

fun isEntitiesQueryNode :: "QueryNode \<Rightarrow> bool" where
  "isEntitiesQueryNode (EntitiesQueryNode t) = True"
| "isEntitiesQueryNode _ = False"

fun isConstTrue :: "QueryNode \<Rightarrow> bool" where
  "isConstTrue (ConstBoolQueryNode b) = b"
| "isConstTrue _ = False"

definition limitClause :: "int \<Rightarrow> int option \<Rightarrow> AQLFragment" where
  "limitClause skip maxCount =
     (case maxCount of
        Some m \<Rightarrow>
          if skip = 0 then aql [code ''LIMIT '', AQLBoundValue (JNumber m)]
          else aql [code ''LIMIT '', AQLBoundValue (JNumber skip), code '', '',
                    AQLBoundValue (JNumber m)]
      | None \<Rightarrow>
          if skip > 0 then aql [code ''LIMIT '', AQLBoundValue (JNumber skip), code '', '',
                                AQLBoundValue (JNumber MAX_SAFE_INTEGER)]
          else aql [])"

definition useIndirectedProjection ::
    "Env \<Rightarrow> QueryNode \<Rightarrow> QueryNode \<Rightarrow> Variable \<Rightarrow> int option \<Rightarrow> bool" where
  "useIndirectedProjection E listNode innerNode itemVariable maxCount =
     (enableExperimentalProjectionIndirection E
      \<and> (case listNode of
           EntitiesQueryNode t \<Rightarrow>
             (case experimentalProjectionIndirectionTypeNames E of
                None \<Rightarrow> True
              | Some names \<Rightarrow> type_name t \<in> set names)
         | _ \<Rightarrow> False)
      \<and> \<not> isSameNode innerNode itemVariable
      \<and> maxCount \<noteq> None)"

text \<open>
  The loop that the generator runs over the lifted variable assignments, in
  \<open>createAQLCompoundQuery\<close> and in the handler of \<^verbatim>\<open>TransformListQueryNode\<close>: each
  assignment introduces its variable into the running context and becomes a \<^verbatim>\<open>LET\<close> line.
\<close>

fun introduceAssignments ::
    "Processor \<Rightarrow> (Variable \<times> QueryNode \<times> QueryNode) list \<Rightarrow> QueryContext
     \<Rightarrow> (AQLFragment list \<times> QueryContext) Compile" where
  "introduceAssignments pn [] context = returnM ([], context)"
| "introduceAssignments pn ((variableNode, variableValueNode, resultNode) # rest) context =
     bindM (introduceVariable context variableNode) (\<lambda>context1.
     bindM (liftE (getVariable context1 variableNode)) (\<lambda>tmpVar.
     bindM (pn variableValueNode context1) (\<lambda>v.
     bindM (introduceAssignments pn rest context1) (\<lambda>(frags, context2).
     returnM (aql [code ''LET '', tmpVar, code '' = '', v] # frags, context2)))))"

definition createAQLCompoundQuery ::
    "Env \<Rightarrow> Processor \<Rightarrow> QueryNode \<Rightarrow> AQLVariable option \<Rightarrow> QueryResultValidator option
     \<Rightarrow> QueryContext \<Rightarrow> AQLCompoundQuery Compile" where
  "createAQLCompoundQuery E pn node resultVariable resultValidator context =
     (let (node1, variableAssignmentNodes) = extractVariableAssignments E node in
      bindM (introduceAssignments pn variableAssignmentNodes context)
        (\<lambda>(variableAssignments, context1).
      bindM (pn node1 context1) (\<lambda>r.
      (\<lambda>st. Inr (AQLCompoundQuery (preExecQueries context1)
                   (AQLLines (variableAssignments @ [aql [code ''RETURN '', r]]))
                   resultVariable resultValidator
                   (sets st (readAccessedCollections context1))
                   (sets st (writeAccessedCollections context1)),
                 st)))))"

definition array_push :: "nat \<Rightarrow> AQLCompoundQuery \<Rightarrow> unit Compile" where
  "array_push r q = (\<lambda>st. Inr ((), st\<lparr>arrays := (arrays st)(r := arrays st r @ [q])\<rparr>))"

definition addPreExecuteQuery ::
    "Env \<Rightarrow> Processor \<Rightarrow> QueryContext \<Rightarrow> QueryNode \<Rightarrow> Variable option
     \<Rightarrow> QueryResultValidator option \<Rightarrow> QueryContext Compile" where
  "addPreExecuteQuery E pn this preExecQuery resultVariable resultValidator =
     bindM (case resultVariable of
              Some rv \<Rightarrow>
                bindM (newAQLQueryResultVariable (label rv)) (\<lambda>resultVar.
                bindM (newNestedContextWithNewVariable this rv resultVar) (\<lambda>newContext.
                returnM (Some resultVar, newContext)))
            | None \<Rightarrow> returnM (None, this))
       (\<lambda>(resultVar, newContext).
     bindM (\<lambda>st. Inr (newPreExecContext this st)) (\<lambda>preExecContext.
     bindM (createAQLCompoundQuery E pn preExecQuery resultVar resultValidator preExecContext)
       (\<lambda>aqlQuery.
     bindM (array_push (preExecQueries this) aqlQuery) (\<lambda>u.
     returnM newContext))))"

fun addPreExecuteQueries ::
    "Env \<Rightarrow> Processor \<Rightarrow> (QueryNode \<times> Variable option \<times> QueryResultValidator option) list
     \<Rightarrow> QueryContext \<Rightarrow> QueryContext Compile" where
  "addPreExecuteQueries E pn [] currentContext = returnM currentContext"
| "addPreExecuteQueries E pn ((query, resultVariable, resultValidator) # rest) currentContext =
     bindM (addPreExecuteQuery E pn currentContext query resultVariable resultValidator)
       (\<lambda>nextContext. addPreExecuteQueries E pn rest nextContext)"

definition getSimpleFollowEdgeFragment ::
    "Env \<Rightarrow> Processor \<Rightarrow> RelationSide \<Rightarrow> QueryNode \<Rightarrow> QueryContext \<Rightarrow> AQLFragment Compile" where
  "getSimpleFollowEdgeFragment E pn relationSide sourceEntityNode context =
     (let dir = (if isFromSide relationSide then aql [code ''OUTBOUND''] else aql [code ''INBOUND''])
      in bindM (pn sourceEntityNode context) (\<lambda>s.
         bindM (getCollectionForRelation E (relation relationSide) READ context) (\<lambda>c.
         returnM (aql [dir, code ''  '', s, code '' '', c]))))"

definition dirAQL :: "OrderDirection \<Rightarrow> AQLFragment" where
  "dirAQL dir = (if dir = DESCENDING then aql [code '' DESC''] else aql [])"

definition generateSortAQL ::
    "Processor \<Rightarrow> (QueryNode \<times> OrderDirection) list \<Rightarrow> QueryContext \<Rightarrow> AQLFragment Compile" where
  "generateSortAQL pn orderBy context =
     (if orderBy = [] then returnM (aql [])
      else bindM (mapM (\<lambda>(valueNode, direction).
                    bindM (pn valueNode context) (\<lambda>v.
                    returnM (aql [code ''('', v, code '') '', dirAQL direction]))) orderBy)
             (\<lambda>clauses. returnM (aql [code ''SORT '', AQLJoin clauses (aql [code '', ''])])))"

definition getFullIDFromKeyFragment :: "Env \<Rightarrow> AQLFragment \<Rightarrow> RootEntityType \<Rightarrow> AQLFragment" where
  "getFullIDFromKeyFragment E keyFragment rootEntityType =
     aql [code ''CONCAT('',
          AQLBoundValue (JString (getCollectionNameForRootEntity E rootEntityType @ ''/'')),
          code '', '', keyFragment, code '')'']"

definition getFullIDFromKeyNode ::
    "Env \<Rightarrow> Processor \<Rightarrow> QueryNode \<Rightarrow> RootEntityType \<Rightarrow> QueryContext \<Rightarrow> AQLFragment Compile" where
  "getFullIDFromKeyNode E pn node rootEntityType context =
     (case node of
        LiteralQueryNode (JString v) \<Rightarrow>
          returnM (aql [AQLBoundValue
                     (JString (getCollectionNameForRootEntity E rootEntityType @ ''/'' @ v))])
      | RootEntityIDQueryNode objectNode \<Rightarrow>
          bindM (pn objectNode context) (\<lambda>obj. returnM (aql [obj, code ''._id'']))
      | _ \<Rightarrow>
          bindM (pn node context) (\<lambda>k. returnM (getFullIDFromKeyFragment E k rootEntityType)))"

definition getFullIDsFromKeysNode ::
    "Env \<Rightarrow> Processor \<Rightarrow> QueryNode \<Rightarrow> RootEntityType \<Rightarrow> QueryContext \<Rightarrow> AQLFragment Compile" where
  "getFullIDsFromKeysNode E pn idsNode rootEntityType context =
     (case idsNode of
        ListQueryNode itemNodes \<Rightarrow>
          bindM (mapM (\<lambda>idNode. getFullIDFromKeyNode E pn idNode rootEntityType context) itemNodes)
            (\<lambda>idFragments. returnM (aql [code ''['', AQLJoin idFragments (aql [code '', '']),
                                         code '']'']))
      | _ \<Rightarrow>
          (case literalStringArray idsNode of
             Some vals \<Rightarrow>
               (let collName = getCollectionNameForRootEntity E rootEntityType in
                returnM (AQLBoundValue (JArray (map (\<lambda>val. JString (collName @ ''/'' @ val)) vals))))
           | None \<Rightarrow>
               bindM (aql_variable ''id'') (\<lambda>idVar.
               bindM (pn idsNode context) (\<lambda>ids.
               returnM (aql [code ''(FOR '', idVar, code '' IN '', ids, code '' RETURN '',
                             getFullIDFromKeyFragment E idVar rootEntityType, code '')''])))))"

definition formatEdge ::
    "Env \<Rightarrow> Processor \<Rightarrow> Relation \<Rightarrow> QueryNode option \<times> QueryNode option \<Rightarrow> QueryContext
     \<Rightarrow> AQLFragment Compile" where
  "formatEdge E pn rel edge context =
     bindM (case fst edge of
              Some fromIDNode \<Rightarrow>
                bindM (getFullIDFromKeyNode E pn fromIDNode (fromType rel) context)
                  (\<lambda>f. returnM [aql [code ''_from: '', f]])
            | None \<Rightarrow> returnM []) (\<lambda>conditions1.
     bindM (case snd edge of
              Some toIDNode \<Rightarrow>
                bindM (getFullIDFromKeyNode E pn toIDNode (toType rel) context)
                  (\<lambda>t. returnM [aql [code ''_to: '', t]])
            | None \<Rightarrow> returnM []) (\<lambda>conditions2.
     returnM (aql [code ''{'', AQLJoin (conditions1 @ conditions2) (aql [code '', '']),
                   code ''}''])))"

section \<open>The node processors\<close>

text \<open>
  Each processor registered in the dispatch table is a function of the node's fields
  and the context. It reaches the other processors only through \<^verbatim>\<open>processNode\<close>, which is
  the parameter \<open>pn\<close> here; the table is closed into \<open>processNode\<close> below. Effects happen in
  the order in which JavaScript evaluates the expressions of the handler.
\<close>

definition processLiteral :: "JsonValue \<Rightarrow> AQLFragment Compile" where
  "processLiteral v = returnM (AQLBoundValue v)"

definition processNull :: "AQLFragment Compile" where
  "processNull = returnM (aql [code ''null''])"

definition processRuntimeError :: "Env \<Rightarrow> string \<Rightarrow> AQLFragment Compile" where
  "processRuntimeError E message =
     (let runtimeErrorToken = AQLCodeFragment (RUNTIME_ERROR_TOKEN E) in
      returnM (aql [code ''{'', runtimeErrorToken, code '': '', AQLBoundValue (JString message),
                    code ''}'']))"

definition processConstBool :: "bool \<Rightarrow> AQLFragment Compile" where
  "processConstBool b = returnM (if b then aql [code ''true''] else aql [code ''false''])"

definition processConstInt :: "int \<Rightarrow> AQLFragment Compile" where
  "processConstInt i = returnM (AQLIntegerFragment i)"

definition processObject ::
    "Env \<Rightarrow> Processor \<Rightarrow> (string \<times> QueryNode) list \<Rightarrow> QueryContext \<Rightarrow> AQLFragment Compile" where
  "processObject E pn properties context =
     (if properties = [] then returnM (aql [code ''{}''])
      else bindM (mapM (\<lambda>(propertyName, valueNode).
                    bindM (pn valueNode context) (\<lambda>v.
                    returnM (aql [safeJSONKey E propertyName, code '': '', v]))) properties)
             (\<lambda>props. returnM (AQLLines [aql [code ''{''],
                          AQLIndentation (AQLJoin props (aql [code ('','' @ [CHR 0x0A])])),
                          aql [code ''}'']])))"

definition processList :: "Processor \<Rightarrow> QueryNode list \<Rightarrow> QueryContext \<Rightarrow> AQLFragment Compile" where
  "processList pn itemNodes context =
     (if itemNodes = [] then returnM (aql [code ''[]''])
      else bindM (mapM (\<lambda>itemNode. pn itemNode context) itemNodes)
             (\<lambda>items. returnM (AQLLines [aql [code ''[''],
                          AQLIndentation (AQLJoin items (aql [code ('','' @ [CHR 0x0A])])),
                          aql [code '']'']])))"

definition processConcatLists ::
    "Processor \<Rightarrow> QueryNode list \<Rightarrow> QueryContext \<Rightarrow> AQLFragment Compile" where
  "processConcatLists pn listNodes context =
     bindM (mapM (\<lambda>node. pn node context) listNodes) (\<lambda>lists.
     returnM (aql [code ''UNION('', AQLJoin lists (aql [code '', '']), code '')'']))"

definition processVariable :: "Variable \<Rightarrow> QueryContext \<Rightarrow> AQLFragment Compile" where
  "processVariable v context = liftE (getVariable context v)"

definition processVariableAssignment ::
    "Processor \<Rightarrow> Variable \<Rightarrow> QueryNode \<Rightarrow> QueryNode \<Rightarrow> QueryContext \<Rightarrow> AQLFragment Compile" where
  "processVariableAssignment pn variableNode variableValueNode resultNode context =
     bindM (introduceVariable context variableNode) (\<lambda>newContext.
     bindM (liftE (getVariable newContext variableNode)) (\<lambda>tmpVar.
     bindM (pn variableValueNode newContext) (\<lambda>v.
     bindM (pn resultNode newContext) (\<lambda>r.
     returnM (parenthesizeObject [aql [code ''LET '', tmpVar, code '' = '', v],
                                  aql [code ''RETURN '', r]])))))"

definition processWithPreExecution ::
    "Env \<Rightarrow> Processor \<Rightarrow> (QueryNode \<times> Variable option \<times> QueryResultValidator option) list
     \<Rightarrow> QueryNode \<Rightarrow> QueryContext \<Rightarrow> AQLFragment Compile" where
  "processWithPreExecution E pn preExecs resultNode context =
     bindM (addPreExecuteQueries E pn preExecs context) (\<lambda>currentContext.
     bindM (pn resultNode currentContext) (\<lambda>r. returnM (aql [r])))"

definition processEntityFromId ::
    "Env \<Rightarrow> Processor \<Rightarrow> RootEntityType \<Rightarrow> QueryNode \<Rightarrow> QueryContext \<Rightarrow> AQLFragment Compile" where
  "processEntityFromId E pn rootEntityType idNode context =
     bindM (getCollectionForType E rootEntityType READ context) (\<lambda>collection.
     bindM (pn idNode context) (\<lambda>i.
     returnM (aql [code ''DOCUMENT('', collection, code '', '', i, code '')''])))"

definition processField ::
    "Env \<Rightarrow> Processor \<Rightarrow> QueryNode \<Rightarrow> Field \<Rightarrow> Field list option \<Rightarrow> QueryContext
     \<Rightarrow> AQLFragment Compile" where
  "processField E pn objectNode field path context =
     bindM (pn objectNode context) (\<lambda>object.
     bindM (liftE (getFieldPathAccessFragment E path)) (\<lambda>p.
     returnM (aql [object, p, getFieldAccessFragment E field])))"

definition processRootEntityID :: "Processor \<Rightarrow> QueryNode \<Rightarrow> QueryContext \<Rightarrow> AQLFragment Compile" where
  "processRootEntityID pn objectNode context =
     bindM (pn objectNode context) (\<lambda>obj. returnM (aql [obj, code ''._key'']))"

definition processQuickSearch ::
    "Env \<Rightarrow> Processor \<Rightarrow> RootEntityType \<Rightarrow> Variable \<Rightarrow> QueryNode \<Rightarrow> QueryContext
     \<Rightarrow> AQLFragment Compile" where
  "processQuickSearch E pn rootEntityType itemVariable qsFilterNode context =
     bindM (introduceVariable context itemVariable) (\<lambda>itemContext.
     bindM (liftE (getVariable itemContext itemVariable)) (\<lambda>v1.
     bindM (liftE (aql_identifier E (getViewNameForRootEntity E rootEntityType))) (\<lambda>view.
     bindM (pn qsFilterNode itemContext) (\<lambda>f.
     bindM (liftE (getVariable itemContext itemVariable)) (\<lambda>v2.
     returnM (aql [code ''(FOR '', v1, code '' IN '', view, code '' SEARCH '', f,
                   code '' RETURN '', v2, code '')'']))))))"

definition processTransformList ::
    "Env \<Rightarrow> Processor \<Rightarrow> QueryNode \<Rightarrow> Variable \<Rightarrow> QueryNode \<Rightarrow> (QueryNode \<times> OrderDirection) list
     \<Rightarrow> int \<Rightarrow> int option \<Rightarrow> QueryNode \<Rightarrow> QueryContext \<Rightarrow> AQLFragment Compile" where
  "processTransformList E pn listNode itemVariable filterNode orderBy skip maxCount innerNode
       context =
     bindM (introduceVariable context itemVariable) (\<lambda>itemContext.
     bindM (liftE (getVariable itemContext itemVariable)) (\<lambda>itemVar.
     bindM (if useIndirectedProjection E listNode innerNode itemVariable maxCount
            then bindM (introduceVariable context itemVariable) (\<lambda>c.
                 bindM (liftE (getVariable c itemVariable)) (\<lambda>v. returnM (c, v)))
            else returnM (itemContext, itemVar)) (\<lambda>(itemProjectionContext0, itemProjectionVar).
     bindM (case listNode of
              FollowEdgeQueryNode relationSide sourceEntityNode \<Rightarrow>
                bindM (getSimpleFollowEdgeFragment E pn relationSide sourceEntityNode context)
                  (\<lambda>l. returnM (l, aql [code ''FILTER '', itemVar, code '' != null'']))
            | _ \<Rightarrow> bindM (pn listNode context) (\<lambda>l. returnM (l, aql [])))
       (\<lambda>(list, filterDanglingEdges).
     (let filter = simplifyBooleans E filterNode;
          (innerNode1, variableAssignmentNodes) = extractVariableAssignments E innerNode
      in
     bindM (introduceAssignments pn variableAssignmentNodes itemProjectionContext0)
       (\<lambda>(variableAssignments, itemProjectionContext).
     bindM (if isConstTrue filter then returnM (aql [])
            else bindM (pn filter itemContext) (\<lambda>f. returnM (aql [code ''FILTER '', f])))
       (\<lambda>filterFrag.
     bindM (generateSortAQL pn orderBy itemContext) (\<lambda>sortFrag.
     bindM (pn innerNode1 itemProjectionContext) (\<lambda>inner.
     returnM (parenthesizeList
       ([aql [code ''FOR '', itemVar],
         aql [code ''IN '', list],
         filterFrag,
         filterDanglingEdges,
         sortFrag,
         limitClause skip maxCount,
         (if useIndirectedProjection E listNode innerNode itemVariable maxCount
          then aql [code ''LET '', itemProjectionVar, code '' = DOCUMENT('', itemVar,
                    code ''._id)'']
          else aql [])]
        @ variableAssignments
        @ [aql [code ''RETURN '', inner]])))))))))))"

definition processCount :: "Processor \<Rightarrow> QueryNode \<Rightarrow> QueryContext \<Rightarrow> AQLFragment Compile" where
  "processCount pn listNode context =
     (if isFieldQueryNode listNode \<or> isEntitiesQueryNode listNode
      then bindM (pn listNode context) (\<lambda>l. returnM (aql [code ''LENGTH('', l, code '')'']))
      else bindM (aql_variable ''item'') (\<lambda>itemVar.
           bindM (aql_variable ''count'') (\<lambda>countVar.
           bindM (pn listNode context) (\<lambda>l.
           returnM (parenthesizeObject
             [aql [code ''FOR '', itemVar],
              aql [code ''IN '', l],
              aql [code ''COLLECT WITH COUNT INTO '', countVar],
              aql [code ''return '', countVar]])))))"

definition processMergeObjects ::
    "Processor \<Rightarrow> QueryNode list \<Rightarrow> QueryContext \<Rightarrow> AQLFragment Compile" where
  "processMergeObjects pn objectNodes context =
     bindM (mapM (\<lambda>node. pn node context) objectNodes) (\<lambda>objectList.
     returnM (aql [code ''MERGE('', AQLJoin objectList (aql [code '', '']), code '')'']))"

definition processFirstOfList :: "Processor \<Rightarrow> QueryNode \<Rightarrow> QueryContext \<Rightarrow> AQLFragment Compile" where
  "processFirstOfList pn listNode context =
     bindM (pn listNode context) (\<lambda>l. returnM (aql [code ''FIRST('', l, code '')'']))"

definition processBinaryOperation ::
    "Env \<Rightarrow> Processor \<Rightarrow> QueryNode \<Rightarrow> BinaryOperator \<Rightarrow> QueryNode \<Rightarrow> QueryContext
     \<Rightarrow> AQLFragment Compile" where
  \<open>processBinaryOperation E pn lhsNode operator rhsNode context =
     bindM (pn lhsNode context) (\<lambda>lhs.
     bindM (pn rhsNode context) (\<lambda>rhs.
     (case getAQLOperator operator of
        Some op \<Rightarrow> returnM (aql [code ''('', lhs, code '' '', op, code '' '', rhs, code '')''])
      | None \<Rightarrow>
         (case operator of
            CONTAINS \<Rightarrow>
              returnM (aql [code ''('', lhs, code '' LIKE CONCAT("%", '', rhs, code '', "%"))''])
          | STARTS_WITH \<Rightarrow>
              (let slowFrag = aql [code ''(LEFT('', lhs, code '', LENGTH('', rhs, code '')) == '',
                                   rhs, code '')'']
               in case literalString rhsNode of
                    Some v \<Rightarrow>
                      (let fastFrag = getFastStartsWithQuery lhs v in
                       returnM (aql [fastFrag, code '' && '', slowFrag]))
                  | None \<Rightarrow> returnM slowFrag)
          | ENDS_WITH \<Rightarrow>
              returnM (aql [code ''(RIGHT('', lhs, code '', LENGTH('', rhs, code '')) == '', rhs,
                            code '')''])
          | LIKE \<Rightarrow>
              (let slowLikeFrag = aql [code ''LIKE('', lhs, code '', '', rhs, code '', true)'']
               in case literalString rhsNode of
                    Some v \<Rightarrow>
                      (let a = analyzeLikePatternPrefix E v in
                       if isLiteralPattern a
                       then returnM (getEqualsIgnoreCaseQuery E lhs (literalPrefix a))
                       else (let fastFrag = getFastStartsWithQuery lhs (literalPrefix a) in
                             if isSimplePrefixPattern a then returnM fastFrag
                             else returnM (aql [code ''('', fastFrag, code '' && '', slowLikeFrag,
                                                code '')''])))
                  | None \<Rightarrow> returnM slowLikeFrag)
          | APPEND \<Rightarrow> returnM (aql [code ''CONCAT('', lhs, code '', '', rhs, code '')''])
          | PREPEND \<Rightarrow> returnM (aql [code ''CONCAT('', rhs, code '', '', lhs, code '')''])
          | _ \<Rightarrow> throwM UnsupportedOperator))))\<close>

text \<open>
  \<^verbatim>\<open>node.quickSearchLanguage ? `text_${...toLowerCase()}` : IDENTITY_ANALYZER\<close>: an absent
  and an empty language are both falsy. The analyzer is a plain string, so the
  templates interpolate it as a bound value.
\<close>

definition analyzerFor :: "Env \<Rightarrow> string option \<Rightarrow> string" where
  "analyzerFor E quickSearchLanguage =
     (case quickSearchLanguage of
        None \<Rightarrow> IDENTITY_ANALYZER
      | Some l \<Rightarrow> if l = [] then IDENTITY_ANALYZER else ''text_'' @ toLowerCase E l)"

definition processOperatorWithLanguage ::
    "Env \<Rightarrow> Processor \<Rightarrow> QueryNode \<Rightarrow> BinaryOperatorWithLanguage \<Rightarrow> QueryNode \<Rightarrow> string option
     \<Rightarrow> QueryContext \<Rightarrow> AQLFragment Compile" where
  "processOperatorWithLanguage E pn lhsNode operator rhsNode quickSearchLanguage context =
     bindM (pn lhsNode context) (\<lambda>lhs.
     bindM (pn rhsNode context) (\<lambda>rhs.
     (let analyzer = AQLBoundValue (JString (analyzerFor E quickSearchLanguage)) in
      case operator of
        QUICKSEARCH_STARTS_WITH \<Rightarrow>
          returnM (aql [code ''STARTS_WITH('', lhs, code '','', rhs, code '')''])
      | QUICKSEARCH_CONTAINS_ANY_WORD \<Rightarrow>
          returnM (aql [code ''ANALYZER( '', lhs, code '' IN TOKENS('', rhs, code '', '', analyzer,
                        code ''),'', analyzer, code '')''])
      | QUICKSEARCH_CONTAINS_PREFIX \<Rightarrow>
          returnM (aql [code ''ANALYZER( STARTS_WITH( '', lhs, code '', TOKENS('', rhs,
                        code '')[0]), '', analyzer, code ''))''])
      | QUICKSEARCH_CONTAINS_PHRASE \<Rightarrow>
          returnM (aql [code ''ANALYZER( PHRASE( '', lhs, code '', '', rhs, code ''), '', analyzer,
                        code '')'']))))"

definition processUnaryOperation ::
    "Processor \<Rightarrow> QueryNode \<Rightarrow> UnaryOperator \<Rightarrow> QueryContext \<Rightarrow> AQLFragment Compile" where
  "processUnaryOperation pn valueNode operator context =
     (case operator of
        NOT \<Rightarrow> bindM (pn valueNode context) (\<lambda>v. returnM (aql [code ''!('', v, code '')'']))
      | JSON_STRINGIFY \<Rightarrow>
          bindM (pn valueNode context) (\<lambda>v.
          returnM (aql [code ''JSON_STRINGIFY('', v, code '')''])))"

definition processConditional ::
    "Processor \<Rightarrow> QueryNode \<Rightarrow> QueryNode \<Rightarrow> QueryNode \<Rightarrow> QueryContext \<Rightarrow> AQLFragment Compile" where
  "processConditional pn condition expr1Node expr2Node context =
     bindM (pn condition context) (\<lambda>cond.
     bindM (pn expr1Node context) (\<lambda>expr1.
     bindM (pn expr2Node context) (\<lambda>expr2.
     returnM (aql [code ''('', cond, code '' ? '', expr1, code '' : '', expr2, code '')'']))))"

definition processTypeCheck ::
    "Processor \<Rightarrow> QueryNode \<Rightarrow> BasicType \<Rightarrow> QueryContext \<Rightarrow> AQLFragment Compile" where
  "processTypeCheck pn valueNode type context =
     bindM (pn valueNode context) (\<lambda>v.
     (case type of
        SCALAR \<Rightarrow> returnM (aql [code ''(IS_BOOL('', v, code '') || IS_NUMBER('', v,
                                code '') || IS_STRING('', v, code ''))''])
      | LIST \<Rightarrow> returnM (aql [code ''IS_LIST('', v, code '')''])
      | OBJECT \<Rightarrow> returnM (aql [code ''IS_OBJECT('', v, code '')''])
      | NULL \<Rightarrow> returnM (aql [code ''IS_NULL('', v, code '')''])))"

definition processSafeList :: "Processor \<Rightarrow> QueryNode \<Rightarrow> QueryContext \<Rightarrow> AQLFragment Compile" where
  "processSafeList pn sourceNode context =
     (let reducedNode = ConditionalQueryNode (TypeCheckQueryNode sourceNode LIST) sourceNode
                          (ListQueryNode [])
      in pn reducedNode context)"

text \<open>
  The loop of \<open>getQuantifierFilterUsingArrayExpansion\<close> that walks from the left-hand side
  of the condition through the object nodes of field accesses until it meets the item
  variable, collecting the fields from back to front. It gives up at the first node that
  is not a field access.
\<close>

fun collectFields :: "Variable \<Rightarrow> QueryNode \<Rightarrow> Field list \<Rightarrow> Field list option" where
  "collectFields itemVariable (FieldQueryNode objectNode field path) fieldList =
     (if isSameNode objectNode itemVariable then Some (field # fieldList)
      else collectFields itemVariable objectNode (field # fieldList))"
| "collectFields itemVariable _ fieldList = None"

definition getQuantifierFilterUsingArrayExpansion ::
    "Env \<Rightarrow> Processor \<Rightarrow> Quantifier \<Rightarrow> QueryNode \<Rightarrow> QueryNode \<Rightarrow> Variable \<Rightarrow> QueryContext
     \<Rightarrow> AQLFragment option Compile" where
  "getQuantifierFilterUsingArrayExpansion E pn quantifier conditionNode listNode itemVariable
       context =
     (if quantifier \<noteq> QSome then returnM None
      else
       (let listNode1 = (case listNode of SafeListQueryNode sourceNode \<Rightarrow> sourceNode
                         | _ \<Rightarrow> listNode)
        in
        if \<not> isFieldQueryNode listNode1 then returnM None
        else
         (case conditionNode of
            BinaryOperationQueryNode lhsNode operator rhsNode \<Rightarrow>
              if \<not> (case operator of
                       EQUAL \<Rightarrow> True
                     | LIKE \<Rightarrow>
                         (case literalString rhsNode of
                            None \<Rightarrow> False
                          | Some likePattern \<Rightarrow>
                              isLiteralPattern (analyzeLikePatternPrefix E likePattern)
                              \<and> isStringCaseInsensitive E likePattern)
                     | _ \<Rightarrow> False)
              then returnM None
              else
               (case collectFields itemVariable lhsNode [] of
                  None \<Rightarrow> returnM None
                | Some fieldList \<Rightarrow>
                    bindM (pn rhsNode context) (\<lambda>valueFrag.
                    (let fieldAccessFrag = aql (map (getFieldAccessFragment E) fieldList) in
                     bindM (pn listNode1 context) (\<lambda>l.
                     returnM (Some (aql [valueFrag, code '' IN '', l, code ''[*]'',
                                         fieldAccessFrag]))))))
          | _ \<Rightarrow> returnM None)))"

definition processQuantifierFilter ::
    "Env \<Rightarrow> Processor \<Rightarrow> Quantifier \<Rightarrow> QueryNode \<Rightarrow> Variable \<Rightarrow> QueryNode \<Rightarrow> QueryContext
     \<Rightarrow> AQLFragment Compile" where
  "processQuantifierFilter E pn quantifier listNode itemVariable conditionNode context =
     (let conditionNode1 = simplifyBooleans E conditionNode in
      bindM (getQuantifierFilterUsingArrayExpansion E pn quantifier conditionNode1 listNode
               itemVariable context) (\<lambda>fastFragment.
      (case fastFragment of
         Some f \<Rightarrow> returnM f
       | None \<Rightarrow>
          (let (quantifier2, conditionNode2) =
                 (if quantifier = QEvery then (QNone, not_node E conditionNode1)
                  else (quantifier, conditionNode1));
               filteredListNode = newTransformListQueryNode listNode itemVariable conditionNode2 None;
               finalNode = BinaryOperationQueryNode (CountQueryNode filteredListNode)
                             (if quantifier2 = QNone then EQUAL else GREATER_THAN)
                             (LiteralQueryNode (JNumber 0))
           in pn finalNode context))))"

definition processEntities :: "Env \<Rightarrow> RootEntityType \<Rightarrow> QueryContext \<Rightarrow> AQLFragment Compile" where
  "processEntities E rootEntityType context = getCollectionForType E rootEntityType READ context"

definition processFollowEdge ::
    "Env \<Rightarrow> Processor \<Rightarrow> RelationSide \<Rightarrow> QueryNode \<Rightarrow> QueryContext \<Rightarrow> AQLFragment Compile" where
  "processFollowEdge E pn relationSide sourceEntityNode context =
     bindM (aql_variable ''node'') (\<lambda>tmpVar.
     bindM (getSimpleFollowEdgeFragment E pn relationSide sourceEntityNode context) (\<lambda>edges.
     returnM (parenthesizeList
       [aql [code ''FOR '', tmpVar],
        aql [code ''IN '', edges],
        aql [code ''FILTER '', tmpVar, code '' != null''],
        aql [code ''RETURN '', tmpVar]])))"

definition processCreateEntity ::
    "Env \<Rightarrow> Processor \<Rightarrow> RootEntityType \<Rightarrow> QueryNode \<Rightarrow> QueryContext \<Rightarrow> AQLFragment Compile" where
  "processCreateEntity E pn rootEntityType objectNode context =
     bindM (pn objectNode context) (\<lambda>obj.
     bindM (getCollectionForType E rootEntityType WRITE context) (\<lambda>collection.
     returnM (parenthesizeObject
       [aql [code ''INSERT '', obj, code '' IN '', collection],
        aql [code ''RETURN NEW._key'']])))"

definition processUpdateEntities ::
    "Env \<Rightarrow> Processor \<Rightarrow> RootEntityType \<Rightarrow> QueryNode \<Rightarrow> Variable \<Rightarrow> (string \<times> QueryNode) list
     \<Rightarrow> QueryContext \<Rightarrow> AQLFragment Compile" where
  "processUpdateEntities E pn rootEntityType listNode currentEntityVariable updates context =
     bindM (introduceVariable context currentEntityVariable) (\<lambda>newContext.
     bindM (liftE (getVariable newContext currentEntityVariable)) (\<lambda>entityVar.
     bindM (pn listNode context) (\<lambda>l.
     bindM (pn (ObjectQueryNode updates) newContext) (\<lambda>w.
     bindM (getCollectionForType E rootEntityType WRITE context) (\<lambda>collection.
     returnM (parenthesizeList
       [aql [code ''FOR '', entityVar],
        aql [code ''IN '', l],
        aql [code ''UPDATE '', entityVar],
        aql [code ''WITH '', w],
        aql [code ''IN '', collection],
        aql [code ''OPTIONS { mergeObjects: false }''],
        aql [code ''RETURN NEW._key'']]))))))"

definition processDeleteEntities ::
    "Env \<Rightarrow> Processor \<Rightarrow> RootEntityType \<Rightarrow> QueryNode \<Rightarrow> QueryContext \<Rightarrow> AQLFragment Compile" where
  "processDeleteEntities E pn rootEntityType listNode context =
     bindM (aql_variable (decapitalize E (type_name rootEntityType))) (\<lambda>entityVar.
     bindM (pn listNode context) (\<lambda>l.
     bindM (getCollectionForType E rootEntityType WRITE context) (\<lambda>collection.
     returnM (parenthesizeList
       [aql [code ''FOR '', entityVar],
        aql [code ''IN '', l],
        aql [code ''REMOVE '', entityVar],
        aql [code ''IN '', collection],
        aql [code ''RETURN OLD'']]))))"

definition processAddEdges ::
    "Env \<Rightarrow> Processor \<Rightarrow> Relation \<Rightarrow> (QueryNode option \<times> QueryNode option) list \<Rightarrow> QueryContext
     \<Rightarrow> AQLFragment Compile" where
  "processAddEdges E pn rel edges context =
     bindM (aql_variable ''edge'') (\<lambda>edgeVar.
     bindM (mapM (\<lambda>edge. formatEdge E pn rel edge context) edges) (\<lambda>edgeFrags.
     bindM (getCollectionForRelation E rel WRITE context) (\<lambda>collection.
     returnM (parenthesizeList
       [aql [code ''FOR '', edgeVar],
        aql [code ''IN [ '', AQLJoin edgeFrags (aql [code '', '']), code '' ]''],
        aql [code ''UPSERT { _from: '', edgeVar, code ''._from, _to: '', edgeVar, code ''._to }''],
        aql [code ''INSERT '', edgeVar],
        aql [code ''UPDATE {}''],
        aql [code ''IN '', collection]]))))"

definition processRemoveEdges ::
    "Env \<Rightarrow> Processor \<Rightarrow> Relation \<Rightarrow> QueryNode option \<Rightarrow> QueryNode option \<Rightarrow> QueryContext
     \<Rightarrow> AQLFragment Compile" where
  "processRemoveEdges E pn rel fromIDsNode toIDsNode context =
     bindM (aql_variable ''edge'') (\<lambda>edgeVar.
     bindM (aql_variable ''from'') (\<lambda>fromVar.
     bindM (aql_variable ''to'') (\<lambda>toVar.
     (let edgeFilter =
            (if fromIDsNode \<noteq> None \<and> toIDsNode \<noteq> None
             then aql [code ''FILTER '', edgeVar, code ''._from == '', fromVar, code '' && '',
                       edgeVar, code ''._to == '', toVar]
             else if fromIDsNode \<noteq> None
             then aql [code ''FILTER '', edgeVar, code ''._from == '', fromVar]
             else if toIDsNode \<noteq> None
             then aql [code ''FILTER '', edgeVar, code ''._to == '', toVar]
             else aql [])
      in
     bindM (case fromIDsNode of
              Some n \<Rightarrow> bindM (getFullIDsFromKeysNode E pn n (fromType rel) context)
                          (\<lambda>ids. returnM (aql [code ''FOR '', fromVar, code '' IN '', ids]))
            | None \<Rightarrow> returnM (aql [])) (\<lambda>fromFrag.
     bindM (case toIDsNode of
              Some n \<Rightarrow> bindM (getFullIDsFromKeysNode E pn n (toType rel) context)
                          (\<lambda>ids. returnM (aql [code ''FOR '', toVar, code '' IN '', ids]))
            | None \<Rightarrow> returnM (aql [])) (\<lambda>toFrag.
     bindM (getCollectionForRelation E rel READ context) (\<lambda>readCollection.
     bindM (getCollectionForRelation E rel WRITE context) (\<lambda>writeCollection.
     returnM (parenthesizeList
       [fromFrag,
        toFrag,
        aql [code ''FOR '', edgeVar, code '' IN '', readCollection],
        edgeFilter,
        aql [code ''REMOVE '', edgeVar, code '' IN '', writeCollection]])))))))))"

definition processSetEdge ::
    "Env \<Rightarrow> Processor \<Rightarrow> Relation \<Rightarrow> QueryNode option \<times> QueryNode option
     \<Rightarrow> QueryNode option \<times> QueryNode option \<Rightarrow> QueryContext \<Rightarrow> AQLFragment Compile" where
  "processSetEdge E pn rel existingEdge newEdge context =
     bindM (aql_variable ''edge'') (\<lambda>edgeVar.
     bindM (formatEdge E pn rel existingEdge context) (\<lambda>upsert.
     bindM (formatEdge E pn rel newEdge context) (\<lambda>ins.
     bindM (formatEdge E pn rel newEdge context) (\<lambda>upd.
     bindM (getCollectionForRelation E rel WRITE context) (\<lambda>collection.
     returnM (parenthesizeList
       [aql [code ''UPSERT '', upsert],
        aql [code ''INSERT '', ins],
        aql [code ''UPDATE '', upd],
        aql [code ''IN '', collection]]))))))"

section \<open>The dispatch table and \<open>processNode\<close>\<close>

text \<open>
  \<open>processors\<close> is the table filled by the \<^verbatim>\<open>register\<close> calls: the handler of the node's
  class, or the error of \<open>processNode\<close> for a class without a handler (this generator
  registers none for \<^verbatim>\<open>FieldPathQueryNode\<close>).
\<close>

definition processors :: "Env \<Rightarrow> Processor \<Rightarrow> Processor" where
  "processors E pn node context =
     (case node of
        LiteralQueryNode v \<Rightarrow> processLiteral v
      | NullQueryNode \<Rightarrow> processNull
      | RuntimeErrorQueryNode message \<Rightarrow> processRuntimeError E message
      | ConstBoolQueryNode b \<Rightarrow> processConstBool b
      | ConstIntQueryNode i \<Rightarrow> processConstInt i
      | ObjectQueryNode properties \<Rightarrow> processObject E pn properties context
      | ListQueryNode itemNodes \<Rightarrow> processList pn itemNodes context
      | ConcatListsQueryNode listNodes \<Rightarrow> processConcatLists pn listNodes context
      | VariableQueryNode v \<Rightarrow> processVariable v context
      | VariableAssignmentQueryNode v valueNode resultNode \<Rightarrow>
          processVariableAssignment pn v valueNode resultNode context
      | WithPreExecutionQueryNode preExecs resultNode \<Rightarrow>
          processWithPreExecution E pn preExecs resultNode context
      | EntityFromIdQueryNode t idNode \<Rightarrow> processEntityFromId E pn t idNode context
      | FieldQueryNode objectNode field path \<Rightarrow> processField E pn objectNode field path context
      | FieldPathQueryNode objectNode path \<Rightarrow> throwM UnknownNode
      | RootEntityIDQueryNode objectNode \<Rightarrow> processRootEntityID pn objectNode context
      | QuickSearchQueryNode t itemVariable qsFilterNode \<Rightarrow>
          processQuickSearch E pn t itemVariable qsFilterNode context
      | TransformListQueryNode listNode itemVariable filterNode orderBy skip maxCount innerNode \<Rightarrow>
          processTransformList E pn listNode itemVariable filterNode orderBy skip maxCount
            innerNode context
      | CountQueryNode listNode \<Rightarrow> processCount pn listNode context
      | MergeObjectsQueryNode objectNodes \<Rightarrow> processMergeObjects pn objectNodes context
      | FirstOfListQueryNode listNode \<Rightarrow> processFirstOfList pn listNode context
      | BinaryOperationQueryNode lhsNode operator rhsNode \<Rightarrow>
          processBinaryOperation E pn lhsNode operator rhsNode context
      | OperatorWithLanguageQueryNode lhsNode operator rhsNode quickSearchLanguage \<Rightarrow>
          processOperatorWithLanguage E pn lhsNode operator rhsNode quickSearchLanguage context
      | UnaryOperationQueryNode valueNode operator \<Rightarrow>
          processUnaryOperation pn valueNode operator context
      | ConditionalQueryNode condition expr1 expr2 \<Rightarrow>
          processConditional pn condition expr1 expr2 context
      | TypeCheckQueryNode valueNode type \<Rightarrow> processTypeCheck pn valueNode type context
      | SafeListQueryNode sourceNode \<Rightarrow> processSafeList pn sourceNode context
      | QuantifierFilterNode quantifier listNode itemVariable conditionNode \<Rightarrow>
          processQuantifierFilter E pn quantifier listNode itemVariable conditionNode context
      | EntitiesQueryNode t \<Rightarrow> processEntities E t context
      | FollowEdgeQueryNode relationSide sourceEntityNode \<Rightarrow>
          processFollowEdge E pn relationSide sourceEntityNode context
      | CreateEntityQueryNode t objectNode \<Rightarrow> processCreateEntity E pn t objectNode context
      | UpdateEntitiesQueryNode t listNode currentEntityVariable updates \<Rightarrow>
          processUpdateEntities E pn t listNode currentEntityVariable updates context
      | DeleteEntitiesQueryNode t listNode \<Rightarrow> processDeleteEntities E pn t listNode context
      | AddEdgesQueryNode rel edges \<Rightarrow> processAddEdges E pn rel edges context
      | RemoveEdgesQueryNode rel fromIDsNode toIDsNode \<Rightarrow>
          processRemoveEdges E pn rel fromIDsNode toIDsNode context
      | SetEdgeQueryNode rel existingEdge newEdge \<Rightarrow>
          processSetEdge E pn rel existingEdge newEdge context)"

text \<open>
  \<open>processNode\<close> looks the handler up and runs it; the handler calls \<open>processNode\<close> again,
  also on nodes it has built itself, and the helpers that rewrite nodes are parameters.
  The recursion is therefore bounded by a fuel argument: \<open>processNode E n\<close> follows at
  most \<open>n\<close> nested calls and reports \<open>OutOfFuel\<close> beyond. A result found with some fuel
  is the result with any more fuel (\<open>processNode_more_fuel\<close> below).
\<close>

fun processNode :: "Env \<Rightarrow> nat \<Rightarrow> Processor" where
  "processNode E 0 = (\<lambda>node context. throwM OutOfFuel)"
| "processNode E (Suc n) = processors E (processNode E n)"

definition getAQLQuery :: "Env \<Rightarrow> nat \<Rightarrow> QueryNode \<Rightarrow> AQLCompoundQuery Compile" where
  "getAQLQuery E fuel node =
     bindM (newAQLQueryResultVariable (Some ''result'')) (\<lambda>resultVariable.
     bindM (\<lambda>st. Inr (newQueryContext st)) (\<lambda>context.
     createAQLCompoundQuery E (processNode E fuel) node (Some resultVariable) None context))"

text \<open>
  One function in the place of \<open>processNode\<close> extends another when it returns the same
  result wherever the other returns one.
\<close>

definition extends :: "Processor \<Rightarrow> Processor \<Rightarrow> bool" where
  "extends pn pn' = (\<forall>node ctx st r. pn node ctx st = Inr r \<longrightarrow> pn' node ctx st = Inr r)"

section \<open>Time to live\<close>

text \<open>
  The TTL module builds query trees. What it imports from modules that are not among the
  sources is a parameter: the filter value node of a scalar field, the delete-all query
  of a root entity type and the name of the local-date scalar. So is the time library:
  \<open>ZoneId_of\<close> looks a zone up by its id and is \<open>None\<close> where the library throws because it
  has no rules for the id, and \<open>nowMinusDays zone n\<close> is the current time in the zone, \<open>n\<close>
  days earlier, formatted as an ISO instant. \<^verbatim>\<open>ZoneId.UTC\<close> is a constant of the library.
  A new \<^verbatim>\<open>VariableQueryNode\<close> takes its identity from a counter that is passed along.
\<close>

datatype ScalarType = ScalarType (scalar_name: string)

datatype TimeToLiveInput =
  TimeToLiveInput (input_typeName: string) (input_dateField: string) (input_expireAfterDays: int)

datatype TimeToLiveType =
  TimeToLiveType (ttl_rootEntityType: "RootEntityType option") (ttl_path: "Field list option")
    (ttl_fieldType: "ScalarType option") (ttl_expireAfterDays: int) (ttl_input: TimeToLiveInput)

datatype ExecutionOptions = ExecutionOptions (timeToLiveCleanupLimit: "int option")

datatype ZoneId = ZoneId_UTC | ZoneRegion string

datatype TTLError =
  NoValidRootEntityType | NoValidPath | NoValidFieldType | NoValidDateFieldType
  | UnsupportedZoneId string

record TTLEnv =
  getScalarFilterValueNode :: "QueryNode \<Rightarrow> ScalarType \<Rightarrow> QueryNode"
  generateDeleteAllQueryNode :: "RootEntityType \<Rightarrow> QueryNode \<Rightarrow> QueryNode"
  GraphQLLocalDate_name :: string
  ZoneId_of :: "string \<Rightarrow> ZoneId option"
  nowMinusDays :: "ZoneId \<Rightarrow> int \<Rightarrow> string"

definition getTTLFilter ::
    "TTLEnv \<Rightarrow> ScalarType \<Rightarrow> Field list \<Rightarrow> string \<Rightarrow> Variable \<Rightarrow> QueryNode" where
  "getTTLFilter G fieldType path deleteFrom listItemVar =
     (let filterNode = BinaryOperationQueryNode
            (getScalarFilterValueNode G
               (FieldPathQueryNode (VariableQueryNode listItemVar) path) fieldType)
            LESS_THAN
            (LiteralQueryNode (JString deleteFrom));
          nullFilterNode = BinaryOperationQueryNode
            (getScalarFilterValueNode G
               (FieldPathQueryNode (VariableQueryNode listItemVar) path) fieldType)
            GREATER_THAN
            NullQueryNode
      in BinaryOperationQueryNode filterNode AND nullFilterNode)"

text \<open>
  For a local date the current time is taken in the zone \<^verbatim>\<open>ZoneId.of('Etc/GMT+12')\<close>.
  Where the library has no rules for that id, the lookup throws and no date is computed.
\<close>

definition calcDeleteFrom :: "TTLEnv \<Rightarrow> int \<Rightarrow> ScalarType option \<Rightarrow> TTLError + string" where
  "calcDeleteFrom G expireAfterDays fieldType =
     (case fieldType of
        None \<Rightarrow> Inl NoValidDateFieldType
      | Some t \<Rightarrow>
          if scalar_name t = GraphQLLocalDate_name G
          then (case ZoneId_of G ''Etc/GMT+12'' of
                  None \<Rightarrow> Inl (UnsupportedZoneId ''Etc/GMT+12'')
                | Some zone \<Rightarrow> Inr (nowMinusDays G zone expireAfterDays))
          else Inr (nowMinusDays G ZoneId_UTC expireAfterDays))"

definition getQueryNodeForTTLType ::
    "Env \<Rightarrow> TTLEnv \<Rightarrow> TimeToLiveType \<Rightarrow> ExecutionOptions \<Rightarrow> nat \<Rightarrow> TTLError + (QueryNode \<times> nat)" where
  "getQueryNodeForTTLType E G ttlType executionOptions nextId =
     (case ttl_rootEntityType ttlType of
        None \<Rightarrow> Inl NoValidRootEntityType
      | Some rootEntityType \<Rightarrow>
     (case ttl_path ttlType of
        None \<Rightarrow> Inl NoValidPath
      | Some path \<Rightarrow>
     if path = [] then Inl NoValidPath else
     (case ttl_fieldType ttlType of
        None \<Rightarrow> Inl NoValidFieldType
      | Some fieldType \<Rightarrow>
     (case calcDeleteFrom G (ttl_expireAfterDays ttlType) (ttl_fieldType ttlType) of
        Inl e \<Rightarrow> Inl e
      | Inr deleteFrom \<Rightarrow>
     (let listItemVar = Variable nextId (Some (decapitalize E (type_name rootEntityType)));
          listQueryNode = newTransformListQueryNode
            (EntitiesQueryNode rootEntityType)
            listItemVar
            (getTTLFilter G fieldType path deleteFrom listItemVar)
            (timeToLiveCleanupLimit executionOptions)
      in Inr (CountQueryNode (generateDeleteAllQueryNode G rootEntityType listQueryNode),
              Suc nextId))))))"

definition getTTLInfoQueryNode ::
    "TTLEnv \<Rightarrow> TimeToLiveType \<Rightarrow> int \<Rightarrow> nat \<Rightarrow> TTLError + (QueryNode \<times> nat)" where
  "getTTLInfoQueryNode G ttlType overdueDelta nextId =
     (case ttl_rootEntityType ttlType of
        None \<Rightarrow> Inl NoValidRootEntityType
      | Some rootEntityType \<Rightarrow>
     (case ttl_path ttlType of
        None \<Rightarrow> Inl NoValidPath
      | Some path \<Rightarrow>
     if path = [] then Inl NoValidPath else
     (case ttl_fieldType ttlType of
        None \<Rightarrow> Inl NoValidFieldType
      | Some fieldType \<Rightarrow>
     (let expiredVariableNode = Variable nextId None;
          overdueVariableNode = Variable (Suc nextId) None
      in
     (case calcDeleteFrom G (ttl_expireAfterDays ttlType) (ttl_fieldType ttlType) of
        Inl e \<Rightarrow> Inl e
      | Inr expiredFrom \<Rightarrow>
     (case calcDeleteFrom G (ttl_expireAfterDays ttlType + overdueDelta) (ttl_fieldType ttlType) of
        Inl e \<Rightarrow> Inl e
      | Inr overdueFrom \<Rightarrow>
     Inr (ObjectQueryNode
       [(''typeName'', LiteralQueryNode (JString (input_typeName (ttl_input ttlType)))),
        (''path'', LiteralQueryNode (JString (input_dateField (ttl_input ttlType)))),
        (''path'', LiteralQueryNode (JNumber (input_expireAfterDays (ttl_input ttlType)))),
        (''expiredObjectCount'',
           CountQueryNode (newTransformListQueryNode
             (EntitiesQueryNode rootEntityType)
             expiredVariableNode
             (getTTLFilter G fieldType path expiredFrom expiredVariableNode)
             None)),
        (''overdueObjectCount'',
           CountQueryNode (newTransformListQueryNode
             (EntitiesQueryNode rootEntityType)
             overdueVariableNode
             (getTTLFilter G fieldType path overdueFrom overdueVariableNode)
             None))],
       Suc (Suc nextId))))))))"

section \<open>The i18n validator: tracking of already seen keys\<close>

text \<open>
  \<^verbatim>\<open>ModelLocalizationProvider.isExistingAndAdd(search, array)\<close> mutates the array it is
  given and returns a flag. The model returns the flag together with the array after the
  call. \<^verbatim>\<open>array.indexOf(search) >= 0\<close> is membership, \<^verbatim>\<open>array.push\<close> appends at the end.
\<close>

definition isExistingAndAdd :: "string \<Rightarrow> string list \<Rightarrow> bool \<times> string list" where
  "isExistingAndAdd search array =
     (if search \<in> set array then (True, array @ [search])
      else (False, array @ [search]))"

section \<open>Predicates that follow the words of the specification\<close>

text \<open>
  A fragment is wrapped in \<^verbatim>\<open>ANALYZER(...)\<close>: it is a template whose text starts with
  \<^verbatim>\<open>ANALYZER(\<close>.
\<close>

fun isAnalyzerWrapped :: "AQLFragment \<Rightarrow> bool" where
  "isAnalyzerWrapped (AQLCompoundFragment (AQLCodeFragment c # rest)) = (take 9 c = ''ANALYZER('')"
| "isAnalyzerWrapped _ = False"

text \<open>
  A line of a block is a \<^verbatim>\<open>LIMIT\<close> clause: it is a template whose text starts with
  \<^verbatim>\<open>LIMIT\<close> and a blank.
\<close>

fun isLimitLine :: "AQLFragment \<Rightarrow> bool" where
  "isLimitLine (AQLCompoundFragment (AQLCodeFragment c # rest)) = (take 6 c = ''LIMIT '')"
| "isLimitLine _ = False"

text \<open>
  The conditions of the array-expansion fast path in the words of the specification:
  the list node with a wrapping safe list removed, a chain of field accesses that starts
  at the item variable, with its fields from the variable outwards, and the conjunction
  of the conditions.
\<close>

fun unwrapSafeList :: "QueryNode \<Rightarrow> QueryNode" where
  "unwrapSafeList (SafeListQueryNode sourceNode) = sourceNode"
| "unwrapSafeList node = node"

fun isFieldChainFrom :: "Variable \<Rightarrow> QueryNode \<Rightarrow> bool" where
  "isFieldChainFrom v (FieldQueryNode objectNode field path) =
     (isSameNode objectNode v \<or> isFieldChainFrom v objectNode)"
| "isFieldChainFrom v _ = False"

fun fieldsOfChain :: "Variable \<Rightarrow> QueryNode \<Rightarrow> Field list" where
  "fieldsOfChain v (FieldQueryNode objectNode field path) =
     (if isSameNode objectNode v then [field] else fieldsOfChain v objectNode @ [field])"
| "fieldsOfChain v _ = []"

definition arrayExpansionApplies ::
    "Env \<Rightarrow> Quantifier \<Rightarrow> QueryNode \<Rightarrow> QueryNode \<Rightarrow> Variable \<Rightarrow> bool" where
  "arrayExpansionApplies E quantifier conditionNode listNode itemVariable =
     (quantifier = QSome
      \<and> isFieldQueryNode (unwrapSafeList listNode)
      \<and> (case conditionNode of
           BinaryOperationQueryNode lhsNode operator rhsNode \<Rightarrow>
             (operator = EQUAL
              \<or> operator = LIKE
                \<and> (case rhsNode of
                     LiteralQueryNode (JString pattern) \<Rightarrow>
                       isLiteralPattern (analyzeLikePatternPrefix E pattern)
                       \<and> toLowerCase E pattern = toUpperCase E pattern
                   | _ \<Rightarrow> False))
             \<and> isFieldChainFrom itemVariable lhsNode
         | _ \<Rightarrow> False))"

text \<open>
  The words of the claim about the TTL filter. The date field of an entity is the filter
  value node of the field path on the item variable. Whether an entity satisfies a
  filter is decided by the database: its strict comparison of two values is the
  parameter \<open>lt\<close>, and \<open>valueOf\<close> gives the value that a node has on the entity. A literal
  has its own value and the null node the value null; \<^verbatim>\<open>a < b\<close> holds when the value of
  \<open>a\<close> is less than that of \<open>b\<close>, \<^verbatim>\<open>a > b\<close> when the value of \<open>b\<close> is less than that of \<open>a\<close>,
  a conjunction when both sides hold, and any other node when its value is true.
\<close>

definition ttlDateField :: "TTLEnv \<Rightarrow> ScalarType \<Rightarrow> Field list \<Rightarrow> Variable \<Rightarrow> QueryNode" where
  "ttlDateField G fieldType path listItemVar =
     getScalarFilterValueNode G (FieldPathQueryNode (VariableQueryNode listItemVar) path) fieldType"

fun nodeValue :: "(QueryNode \<Rightarrow> JsonValue) \<Rightarrow> QueryNode \<Rightarrow> JsonValue" where
  "nodeValue valueOf (LiteralQueryNode v) = v"
| "nodeValue valueOf NullQueryNode = JNull"
| "nodeValue valueOf node = valueOf node"

fun satisfiesFilter ::
    "(JsonValue \<Rightarrow> JsonValue \<Rightarrow> bool) \<Rightarrow> (QueryNode \<Rightarrow> JsonValue) \<Rightarrow> QueryNode \<Rightarrow> bool" where
  "satisfiesFilter lt valueOf (BinaryOperationQueryNode lhs operator rhs) =
     (if operator = AND
      then satisfiesFilter lt valueOf lhs \<and> satisfiesFilter lt valueOf rhs
      else if operator = LESS_THAN then lt (nodeValue valueOf lhs) (nodeValue valueOf rhs)
      else if operator = GREATER_THAN then lt (nodeValue valueOf rhs) (nodeValue valueOf lhs)
      else valueOf (BinaryOperationQueryNode lhs operator rhs) = JBool True)"
| "satisfiesFilter lt valueOf node = (nodeValue valueOf node = JBool True)"

section \<open>A sample environment\<close>

text \<open>
  One concrete choice of the parameters, used to run the model on examples: ASCII case
  mapping, identifiers of letters, digits and underscores, no boolean simplification, no
  lifted assignments, negation by a \<^verbatim>\<open>NOT\<close> node, and a LIKE analysis that takes
  everything before the first \<^verbatim>\<open>%\<close> or \<^verbatim>\<open>_\<close> as the literal prefix.
\<close>

definition sampleLower :: "char \<Rightarrow> char" where
  "sampleLower c =
     (case map_of (zip ''ABCDEFGHIJKLMNOPQRSTUVWXYZ'' ''abcdefghijklmnopqrstuvwxyz'') c of
        None \<Rightarrow> c | Some d \<Rightarrow> d)"

definition sampleUpper :: "char \<Rightarrow> char" where
  "sampleUpper c =
     (case map_of (zip ''abcdefghijklmnopqrstuvwxyz'' ''ABCDEFGHIJKLMNOPQRSTUVWXYZ'') c of
        None \<Rightarrow> c | Some d \<Rightarrow> d)"

definition sampleSafeIdentifier :: "string \<Rightarrow> bool" where
  "sampleSafeIdentifier str =
     (str \<noteq> [] \<and> list_all (\<lambda>c. c \<in> set
        ''abcdefghijklmnopqrstuvwxyzABCDEFGHIJKLMNOPQRSTUVWXYZ0123456789_'') str)"

definition sampleAnalyzeLikePatternPrefix :: "string \<Rightarrow> LikeAnalysis" where
  "sampleAnalyzeLikePatternPrefix pattern =
     (let prefix = takeWhile (\<lambda>c. c \<noteq> CHR ''%'' \<and> c \<noteq> CHR ''_'') pattern in
      LikeAnalysis prefix (pattern = prefix @ ''%'') (pattern = prefix))"

definition sampleCollectionName :: "RootEntityType \<Rightarrow> string" where
  "sampleCollectionName t = map sampleLower (take 1 (type_name t)) @ drop 1 (type_name t) @ ''s''"

definition sampleEnv :: Env where
  "sampleEnv =
     \<lparr>simplifyBooleans = (\<lambda>node. node),
      extractVariableAssignments = (\<lambda>node. (node, [])),
      not_node = (\<lambda>node. UnaryOperationQueryNode node NOT),
      analyzeLikePatternPrefix = sampleAnalyzeLikePatternPrefix,
      toLowerCase = map sampleLower,
      toUpperCase = map sampleUpper,
      isSafeIdentifier = sampleSafeIdentifier,
      getCollectionNameForRootEntity = sampleCollectionName,
      getCollectionNameForRelation =
        (\<lambda>r. sampleCollectionName (fromType r) @ ''_'' @ field_name (fromField r)),
      getViewNameForRootEntity = (\<lambda>t. ''flex_view_'' @ sampleCollectionName t),
      enableExperimentalProjectionIndirection = False,
      experimentalProjectionIndirectionTypeNames = None,
      RUNTIME_ERROR_TOKEN = ''__cruddl_runtime_error''\<rparr>"

definition emptyStore :: Store where
  "emptyStore = \<lparr>sets = (\<lambda>r. []), arrays = (\<lambda>r. []), nextRef = 0, nextVariable = 0\<rparr>"

text \<open>The context and the store after \<^verbatim>\<open>new QueryContext()\<close> on the empty store.\<close>

definition rootContext :: QueryContext where
  "rootContext = fst (newQueryContext emptyStore)"

definition rootStore :: Store where
  "rootStore = snd (newQueryContext emptyStore)"

text \<open>A context with one transient binding and one query result binding.\<close>

definition sampleItemVariable :: Variable where
  "sampleItemVariable = Variable 1 (Some ''item'')"

definition sampleResultVariable :: Variable where
  "sampleResultVariable = Variable 2 (Some ''key'')"

definition sampleScopeContext :: QueryContext where
  "sampleScopeContext =
     rootContext\<lparr>variableMap := (variableMap rootContext)
       (1 := Some (AQLVariable 0 (Some ''item'')),
        2 := Some (AQLQueryResultVariable 1 (Some ''key'')))\<rparr>"

text \<open>A field access on the transient variable, and the fragment it lowers to.\<close>

definition sampleDescription :: QueryNode where
  "sampleDescription =
     FieldQueryNode (VariableQueryNode sampleItemVariable) (Field ''description'') None"

definition sampleDescriptionFragment :: AQLFragment where
  "sampleDescriptionFragment =
     aql [aql [AQLVariableFragment (AQLVariable 0 (Some ''item''))], aql [],
          aql [code ''.'', AQLIdentifierFragment ''description'']]"

text \<open>
  A list transformation over the deliveries with a filter on the delivery number, lowered
  in the root context with the given \<open>skip\<close> and \<open>maxCount\<close>.
\<close>

definition sampleDelivery :: RootEntityType where
  "sampleDelivery = RootEntityType ''Delivery''"

definition sampleDeliveryNumberFilter :: QueryNode where
  "sampleDeliveryNumberFilter =
     BinaryOperationQueryNode
       (FieldQueryNode (VariableQueryNode sampleItemVariable) (Field ''deliveryNumber'') None)
       EQUAL (LiteralQueryNode (JString ''1000173''))"

definition sampleTransformList :: "int \<Rightarrow> int option \<Rightarrow> AQLFragment Compile" where
  "sampleTransformList skip maxCount =
     processTransformList sampleEnv (processNode sampleEnv (Suc (Suc (Suc 0))))
       (EntitiesQueryNode sampleDelivery) sampleItemVariable sampleDeliveryNumberFilter [] skip
       maxCount (VariableQueryNode sampleItemVariable) rootContext"

text \<open>
  A quantifier filter over the items of the sample delivery: the item variable of the
  quantifier, the list of items with its fragment, the item number of an item, and two
  conditions on it.
\<close>

definition sampleQuantifierVariable :: Variable where
  "sampleQuantifierVariable = Variable 5 (Some ''i'')"

definition sampleItems :: QueryNode where
  "sampleItems = FieldQueryNode (VariableQueryNode sampleItemVariable) (Field ''items'') None"

definition sampleItemsFragment :: AQLFragment where
  "sampleItemsFragment =
     aql [aql [AQLVariableFragment (AQLVariable 0 (Some ''item''))], aql [],
          aql [code ''.'', AQLIdentifierFragment ''items'']]"

definition sampleItemNumber :: QueryNode where
  "sampleItemNumber =
     FieldQueryNode (VariableQueryNode sampleQuantifierVariable) (Field ''itemNumber'') None"

definition sampleItemNumberEquals :: QueryNode where
  "sampleItemNumberEquals =
     BinaryOperationQueryNode sampleItemNumber EQUAL (LiteralQueryNode (JString ''abc''))"

definition sampleItemNumberLike :: QueryNode where
  "sampleItemNumberLike =
     BinaryOperationQueryNode sampleItemNumber LIKE (LiteralQueryNode (JString ''abc''))"

text \<open>A relation from deliveries to handling units and an edge between two literal ids.\<close>

definition sampleRelation :: Relation where
  "sampleRelation = Relation sampleDelivery (Field ''handlingUnits'') (RootEntityType ''HandlingUnit'')"

definition sampleEdge :: "QueryNode option \<times> QueryNode option" where
  "sampleEdge = (Some (LiteralQueryNode (JString ''d1'')), Some (LiteralQueryNode (JString ''h1'')))"

text \<open>
  A sample of the TTL parameters: a field is filtered by its own value (as a date-time
  field is), all entities of a list are deleted by a \<^verbatim>\<open>DeleteEntitiesQueryNode\<close>, the
  clock is fixed, and the time library has no time-zone database, so that of the ids
  used here only the names of UTC are zones. \<open>sampleTTLEnvWithZones\<close> is the same with a
  time-zone database, where every region id is a zone.
\<close>

definition sampleZoneIdOf :: "string \<Rightarrow> ZoneId option" where
  "sampleZoneIdOf zoneId =
     (if zoneId = ''Z'' then Some ZoneId_UTC
      else if zoneId \<in> set [''UTC'', ''GMT'', ''GMT0'', ''UT''] then Some (ZoneRegion zoneId)
      else None)"

definition sampleTTLEnv :: TTLEnv where
  "sampleTTLEnv =
     \<lparr>getScalarFilterValueNode = (\<lambda>node t. node),
      generateDeleteAllQueryNode = (\<lambda>t listNode. DeleteEntitiesQueryNode t listNode),
      GraphQLLocalDate_name = ''LocalDate'',
      ZoneId_of = sampleZoneIdOf,
      nowMinusDays = (\<lambda>zone days. ''2026-10-04T00:00:00Z'')\<rparr>"

definition sampleTTLEnvWithZones :: TTLEnv where
  "sampleTTLEnvWithZones =
     \<lparr>getScalarFilterValueNode = (\<lambda>node t. node),
      generateDeleteAllQueryNode = (\<lambda>t listNode. DeleteEntitiesQueryNode t listNode),
      GraphQLLocalDate_name = ''LocalDate'',
      ZoneId_of = (\<lambda>zoneId. Some (ZoneRegion zoneId)),
      nowMinusDays = (\<lambda>zone days. ''2026-10-03T12:00:00Z'')\<rparr>"

definition sampleTTLType :: TimeToLiveType where
  "sampleTTLType =
     TimeToLiveType (Some sampleDelivery) (Some [Field ''createdAt''])
       (Some (ScalarType ''DateTime'')) 30 (TimeToLiveInput ''Delivery'' ''createdAt'' 30)"

definition sampleLocalDateTTLType :: TimeToLiveType where
  "sampleLocalDateTTLType =
     TimeToLiveType (Some sampleDelivery) (Some [Field ''bestBefore''])
       (Some (ScalarType ''LocalDate'')) 30 (TimeToLiveInput ''Delivery'' ''bestBefore'' 30)"

text \<open>
  A sample of the database's comparison: null is before the booleans, these before the
  numbers, these before the strings, these before the arrays; false is before true,
  numbers are in their order and strings in the order of their characters. Arrays are
  not compared among themselves here. In this order null is less than every string, so
  \<^verbatim>\<open>dateField < deleteFrom\<close> alone holds on an entity whose date field is null.
\<close>

fun typeRank :: "JsonValue \<Rightarrow> nat" where
  "typeRank JNull = 0"
| "typeRank (JBool b) = 1"
| "typeRank (JNumber n) = 2"
| "typeRank (JString s) = 3"
| "typeRank (JArray vs) = 4"

fun stringLess :: "string \<Rightarrow> string \<Rightarrow> bool" where
  "stringLess [] [] = False"
| "stringLess [] (d # ds) = True"
| "stringLess (c # cs) [] = False"
| "stringLess (c # cs) (d # ds) =
     ((of_char c :: nat) < of_char d \<or> (c = d \<and> stringLess cs ds))"

fun sampleLess :: "JsonValue \<Rightarrow> JsonValue \<Rightarrow> bool" where
  "sampleLess (JBool a) (JBool b) = (\<not> a \<and> b)"
| "sampleLess (JNumber a) (JNumber b) = (a < b)"
| "sampleLess (JString a) (JString b) = stringLess a b"
| "sampleLess a b = (typeRank a < typeRank b)"

text \<open>
  Two sample entities, as the values of the nodes on them: on one the date field of the
  sample TTL type is null, on the other it is a date before the date of the sample clock.
\<close>

definition sampleCreatedAt :: "Variable \<Rightarrow> QueryNode" where
  "sampleCreatedAt v = FieldPathQueryNode (VariableQueryNode v) [Field ''createdAt'']"

definition sampleEntityWithoutDate :: "QueryNode \<Rightarrow> JsonValue" where
  "sampleEntityWithoutDate node = JNull"

definition sampleEntityWithOldDate :: "Variable \<Rightarrow> QueryNode \<Rightarrow> JsonValue" where
  "sampleEntityWithOldDate v node =
     (if node = sampleCreatedAt v then JString ''2026-01-15T08:30:00Z'' else JNull)"

section \<open>The dispatch of \<open>processNode\<close>\<close>

text \<open>
  With fuel left, \<open>processNode\<close> runs the handler of the node's class with one unit of fuel
  less for the nested calls. The properties below are stated for the handlers and hold
  for every function in the place of the nested \<open>processNode\<close>.
\<close>

lemma processNode_dispatch:
  "processNode E 0 node ctx st = Inl OutOfFuel"
  "processNode E (Suc n) (VariableQueryNode v) ctx = processVariable v ctx"
  "processNode E (Suc n) (BinaryOperationQueryNode lhsNode operator rhsNode) ctx
     = processBinaryOperation E (processNode E n) lhsNode operator rhsNode ctx"
  "processNode E (Suc n) (OperatorWithLanguageQueryNode lhsNode languageOperator rhsNode language) ctx
     = processOperatorWithLanguage E (processNode E n) lhsNode languageOperator rhsNode language ctx"
  "processNode E (Suc n)
       (TransformListQueryNode listNode itemVariable filterNode orderBy skip maxCount innerNode) ctx
     = processTransformList E (processNode E n) listNode itemVariable filterNode orderBy skip
         maxCount innerNode ctx"
  "processNode E (Suc n) (QuantifierFilterNode quantifier listNode itemVariable conditionNode) ctx
     = processQuantifierFilter E (processNode E n) quantifier listNode itemVariable conditionNode
         ctx"
  "processNode E (Suc n) (AddEdgesQueryNode rel edges) ctx
     = processAddEdges E (processNode E n) rel edges ctx"
  "processNode E (Suc n) (RemoveEdgesQueryNode rel fromIDsNode toIDsNode) ctx
     = processRemoveEdges E (processNode E n) rel fromIDsNode toIDsNode ctx"
  "processNode E (Suc n) (SetEdgeQueryNode rel existingEdge newEdge) ctx
     = processSetEdge E (processNode E n) rel existingEdge newEdge ctx"
  "processNode E (Suc n) (FieldPathQueryNode objectNode path) ctx st = Inl UnknownNode"
  by (simp_all add: processors_def throwM_def)

section \<open>Properties of the i18n validator\<close>

text \<open>
  C8, as the specification states it: on a fresh tracking array the first call with a
  search string returns true. The code returns false there, and true on the second
  call with the same string.
\<close>

theorem isExistingAndAdd_first_call_counterexample:
  "\<not> (fst (isExistingAndAdd ''Skill/hint'' []) = True
      \<and> fst (isExistingAndAdd ''Skill/hint'' (snd (isExistingAndAdd ''Skill/hint'' []))) = False)"
  by (simp add: isExistingAndAdd_def)

text \<open>
  C8, amended: the flag says whether the string was in the array before the call. On an
  array that does not hold the string yet the call returns false; every later call with
  the same string, whatever was appended in between, returns true; and every call
  appends the string at the end of the array.
\<close>

theorem isExistingAndAdd_flag_is_membership:
  "fst (isExistingAndAdd s arr) = (s \<in> set arr)
   \<and> snd (isExistingAndAdd s arr) = arr @ [s]
   \<and> (s \<notin> set arr \<longrightarrow>
        fst (isExistingAndAdd s arr) = False
        \<and> (\<forall>later. fst (isExistingAndAdd s (snd (isExistingAndAdd s arr) @ later)) = True))"
  by (simp add: isExistingAndAdd_def)

theorem isExistingAndAdd_flag_is_membership_witness:
  "''Skill/hint'' \<notin> set [''Skill/plural'']
   \<and> fst (isExistingAndAdd ''Skill/hint'' [''Skill/plural'']) = False
   \<and> snd (isExistingAndAdd ''Skill/hint'' [''Skill/plural'']) = [''Skill/plural'', ''Skill/hint'']
   \<and> fst (isExistingAndAdd ''Skill/hint''
          (snd (isExistingAndAdd ''Skill/hint'' [''Skill/plural'']) @ [''Skill/singular''])) = True"
proof -
  have fresh: "''Skill/hint'' \<notin> set [''Skill/plural'']"
    by simp
  note inst = isExistingAndAdd_flag_is_membership [of "''Skill/hint''" "[''Skill/plural'']"]
  from inst fresh have first: "fst (isExistingAndAdd ''Skill/hint'' [''Skill/plural'']) = False"
    by blast
  from inst have appended: "snd (isExistingAndAdd ''Skill/hint'' [''Skill/plural''])
      = [''Skill/plural'', ''Skill/hint'']"
    by simp
  from inst fresh have "\<forall>later. fst (isExistingAndAdd ''Skill/hint''
      (snd (isExistingAndAdd ''Skill/hint'' [''Skill/plural'']) @ later)) = True"
    by blast
  then have again: "fst (isExistingAndAdd ''Skill/hint''
      (snd (isExistingAndAdd ''Skill/hint'' [''Skill/plural'']) @ [''Skill/singular''])) = True"
    by (rule spec)
  from fresh first appended again show ?thesis
    by blast
qed

section \<open>Properties of the compilation context\<close>

text \<open>
  C6: \<open>getVariable\<close> fails exactly when the variable has no binding in the variable map of
  the context, with the error of an unbound variable, and otherwise returns the fragment
  of the variable bound to it. Introducing a variable fails exactly when its identity is
  already bound, with the error of a double introduction, and otherwise returns a context
  whose variable map is the old one with the one new binding to a fresh variable, and
  which shares the pre-execution queries and both collection sets; the new binding is
  what \<open>getVariable\<close> then returns.
\<close>

theorem variable_lookup_and_introduction:
  "((\<exists>e. getVariable ctx v = Inl e) \<longleftrightarrow> variableMap ctx (var_id v) = None)
   \<and> (variableMap ctx (var_id v) = None \<longrightarrow> getVariable ctx v = Inl (UnboundVariable v))
   \<and> (\<forall>x. variableMap ctx (var_id v) = Some x
          \<longrightarrow> getVariable ctx v = Inr (aql [AQLVariableFragment x]))
   \<and> ((\<exists>e. introduceVariable ctx v st = Inl e) \<longleftrightarrow> variableMap ctx (var_id v) \<noteq> None)
   \<and> (variableMap ctx (var_id v) \<noteq> None
          \<longrightarrow> introduceVariable ctx v st = Inl (DoubleIntroduction v))
   \<and> (\<forall>ctx' st'. introduceVariable ctx v st = Inr (ctx', st') \<longrightarrow>
          variableMap ctx' = (variableMap ctx)(var_id v := Some (AQLVariable (nextVariable st) (label v)))
          \<and> preExecQueries ctx' = preExecQueries ctx
          \<and> readAccessedCollections ctx' = readAccessedCollections ctx
          \<and> writeAccessedCollections ctx' = writeAccessedCollections ctx
          \<and> getVariable ctx' v
              = Inr (aql [AQLVariableFragment (AQLVariable (nextVariable st) (label v))]))"
  by (auto simp: getVariable_def introduceVariable_def newNestedContextWithNewVariable_def
        newAQLVariable_def newQueryContext_def bindM_def Let_def
      split: option.splits)

theorem variable_lookup_and_introduction_witness:
  "variableMap rootContext (var_id (Variable 7 (Some ''delivery''))) = None
   \<and> getVariable rootContext (Variable 7 (Some ''delivery''))
       = Inl (UnboundVariable (Variable 7 (Some ''delivery'')))
   \<and> introduceVariable rootContext (Variable 7 (Some ''delivery'')) rootStore
       = Inr (rootContext\<lparr>variableMap := (variableMap rootContext)(7 := Some (AQLVariable 0 (Some ''delivery'')))\<rparr>,
              rootStore\<lparr>nextVariable := 1, nextRef := 6, arrays := (arrays rootStore)(3 := []), sets := (sets rootStore)(4 := [], 5:= [])\<rparr>)
   \<and> getVariable (rootContext\<lparr>variableMap := (variableMap rootContext)(7 := Some (AQLVariable 0 (Some ''delivery'')))\<rparr>) (Variable 7 (Some ''delivery''))
      = Inr (aql [AQLVariableFragment (AQLVariable 0 (Some ''delivery''))])
   \<and> introduceVariable (rootContext\<lparr>variableMap := (variableMap rootContext)(7 := Some (AQLVariable 0 (Some ''delivery'')))\<rparr>) (Variable 7 (Some ''delivery'')) rootStore
      = Inl (DoubleIntroduction (Variable 7 (Some ''delivery'')))"
proof -
  let ?v = "Variable 7 (Some ''delivery'')"
  let ?c = "rootContext\<lparr>variableMap := (variableMap rootContext)(7 := Some (AQLVariable 0 (Some ''delivery'')))\<rparr>"
  have unbound: "variableMap rootContext (var_id ?v) = None"
    by (simp add: rootContext_def newQueryContext_def emptyStore_def)
  have bound: "variableMap ?c (var_id ?v) = Some (AQLVariable 0 (Some ''delivery''))"
    by simp
  note a = variable_lookup_and_introduction [of rootContext ?v rootStore]
  note b = variable_lookup_and_introduction [of ?c ?v rootStore]
  have intro: "introduceVariable rootContext ?v rootStore
       = Inr (?c, rootStore\<lparr>nextVariable := 1, nextRef := 6, arrays := (arrays rootStore)(3 := []), sets := (sets rootStore)(4 := [], 5:= [])\<rparr>)"
    by (simp add: introduceVariable_def newNestedContextWithNewVariable_def
        newAQLVariable_def newQueryContext_def bindM_def Let_def rootContext_def rootStore_def emptyStore_def)
  from a unbound have 1: "getVariable rootContext ?v = Inl (UnboundVariable ?v)" by blast
  from b bound have 2: "getVariable ?c ?v = Inr (aql [AQLVariableFragment (AQLVariable 0 (Some ''delivery''))])" by blast
  from b bound have 3: "introduceVariable ?c ?v rootStore = Inl (DoubleIntroduction ?v)" by simp
  from unbound 1 intro 2 3 show ?thesis by blast
qed

lemma newPreExecContext_fields:
  "variableMap (fst (newPreExecContext this st)) k
     = (case variableMap this k of None \<Rightarrow> None
        | Some x \<Rightarrow> if isQueryResultVariable x then Some x else None)"
  "readAccessedCollections (fst (newPreExecContext this st)) = readAccessedCollections this"
  "writeAccessedCollections (fst (newPreExecContext this st)) = writeAccessedCollections this"
  by (simp_all add: newPreExecContext_def newQueryContext_def Let_def split_def)

text \<open>
  C5: the context in which a pre-execution query is compiled, \<open>newPreExecContext\<close> of the
  context that adds the query, binds exactly the variables that the parent binds to
  query result variables, and shares the parent's two collection sets. A variable that
  the parent binds to a transient variable is unbound there, so a pre-execution query
  that refers to it fails to compile with the error of an unbound variable.
\<close>

theorem preExec_context_scope:
  "(\<forall>st k x. variableMap (fst (newPreExecContext this st)) k = Some x
        \<longleftrightarrow> variableMap this k = Some x \<and> isQueryResultVariable x)
   \<and> (\<forall>st. readAccessedCollections (fst (newPreExecContext this st))
             = readAccessedCollections this
          \<and> writeAccessedCollections (fst (newPreExecContext this st))
             = writeAccessedCollections this)
   \<and> (\<forall>st v i l. variableMap this (var_id v) = Some (AQLVariable i l)
        \<longrightarrow> getVariable (fst (newPreExecContext this st)) v = Inl (UnboundVariable v))
   \<and> (\<forall>newContext st'. addPreExecuteQuery E pn this preExecQuery resultVariable resultValidator st
          = Inr (newContext, st')
        \<longrightarrow> (\<exists>resultVar st0 aqlQuery st1.
              createAQLCompoundQuery E pn preExecQuery resultVar resultValidator
                (fst (newPreExecContext this st0)) (snd (newPreExecContext this st0))
                = Inr (aqlQuery, st1)
              \<and> st' = st1\<lparr>arrays := (arrays st1)(preExecQueries this :=
                                   arrays st1 (preExecQueries this) @ [aqlQuery])\<rparr>))
   \<and> (\<forall>v i l. variableMap this (var_id v) = Some (AQLVariable i l)
          \<and> extractVariableAssignments E (VariableQueryNode v) = (VariableQueryNode v, [])
        \<longrightarrow> addPreExecuteQuery E (processors E pn) this (VariableQueryNode v) None
              resultValidator st = Inl (UnboundVariable v))"
proof (intro conjI allI impI)
  fix st k x
  show "variableMap (fst (newPreExecContext this st)) k = Some x
        \<longleftrightarrow> variableMap this k = Some x \<and> isQueryResultVariable x"
    by (auto simp: newPreExecContext_fields split: option.splits if_splits)
next
  fix st
  show "readAccessedCollections (fst (newPreExecContext this st)) = readAccessedCollections this"
    by (simp add: newPreExecContext_fields)
next
  fix st
  show "writeAccessedCollections (fst (newPreExecContext this st)) = writeAccessedCollections this"
    by (simp add: newPreExecContext_fields)
next
  fix st v i l
  assume "variableMap this (var_id v) = Some (AQLVariable i l)"
  then show "getVariable (fst (newPreExecContext this st)) v = Inl (UnboundVariable v)"
    by (simp add: getVariable_def newPreExecContext_fields)
next
  fix newContext st'
  assume "addPreExecuteQuery E pn this preExecQuery resultVariable resultValidator st
          = Inr (newContext, st')"
  then show "\<exists>resultVar st0 aqlQuery st1.
              createAQLCompoundQuery E pn preExecQuery resultVar resultValidator
                (fst (newPreExecContext this st0)) (snd (newPreExecContext this st0))
                = Inr (aqlQuery, st1)
              \<and> st' = st1\<lparr>arrays := (arrays st1)(preExecQueries this :=
                                   arrays st1 (preExecQueries this) @ [aqlQuery])\<rparr>"
    apply (cases resultVariable)
     apply (auto simp: addPreExecuteQuery_def bindM_def returnM_def array_push_def
             split: sum.splits prod.splits)
     apply (metis fst_conv snd_conv)+
    done
next
  fix v i l
  assume a: "variableMap this (var_id v) = Some (AQLVariable i l)
          \<and> extractVariableAssignments E (VariableQueryNode v) = (VariableQueryNode v, [])"
  then show "addPreExecuteQuery E (processors E pn) this (VariableQueryNode v) None
              resultValidator st = Inl (UnboundVariable v)"
    by (simp add: addPreExecuteQuery_def bindM_def returnM_def createAQLCompoundQuery_def
          processors_def processVariable_def liftE_def getVariable_def newPreExecContext_fields
          split_def)
qed

theorem preExec_context_scope_witness:
  "variableMap sampleScopeContext (var_id sampleItemVariable) = Some (AQLVariable 0 (Some ''item''))
   \<and> variableMap sampleScopeContext (var_id sampleResultVariable)
       = Some (AQLQueryResultVariable 1 (Some ''key''))
   \<and> variableMap (fst (newPreExecContext sampleScopeContext rootStore)) (var_id sampleResultVariable)
       = Some (AQLQueryResultVariable 1 (Some ''key''))
   \<and> variableMap (fst (newPreExecContext sampleScopeContext rootStore)) (var_id sampleItemVariable)
       \<noteq> Some (AQLVariable 0 (Some ''item''))
   \<and> readAccessedCollections (fst (newPreExecContext sampleScopeContext rootStore))
       = readAccessedCollections sampleScopeContext
   \<and> writeAccessedCollections (fst (newPreExecContext sampleScopeContext rootStore))
       = writeAccessedCollections sampleScopeContext
   \<and> getVariable (fst (newPreExecContext sampleScopeContext rootStore)) sampleItemVariable
       = Inl (UnboundVariable sampleItemVariable)
   \<and> addPreExecuteQuery sampleEnv (processors sampleEnv (processNode sampleEnv 0))
        sampleScopeContext (VariableQueryNode sampleItemVariable) None None rootStore
       = Inl (UnboundVariable sampleItemVariable)
   \<and> (\<exists>st'. addPreExecuteQuery sampleEnv (processors sampleEnv (processNode sampleEnv 0))
        sampleScopeContext (VariableQueryNode sampleResultVariable) None None rootStore
       = Inr (sampleScopeContext, st'))
   \<and> (\<exists>resultVar st0 aqlQuery st1.
         createAQLCompoundQuery sampleEnv (processors sampleEnv (processNode sampleEnv 0))
           (VariableQueryNode sampleResultVariable) resultVar None
           (fst (newPreExecContext sampleScopeContext st0))
           (snd (newPreExecContext sampleScopeContext st0)) = Inr (aqlQuery, st1))"
proof -
  let ?pn = "processors sampleEnv (processNode sampleEnv 0)"
  note scope = preExec_context_scope [of sampleScopeContext sampleEnv "processNode sampleEnv 0"
      "VariableQueryNode sampleResultVariable" None None rootStore]
  have item: "variableMap sampleScopeContext (var_id sampleItemVariable)
      = Some (AQLVariable 0 (Some ''item''))"
    by (simp add: sampleScopeContext_def sampleItemVariable_def)
  have key: "variableMap sampleScopeContext (var_id sampleResultVariable)
      = Some (AQLQueryResultVariable 1 (Some ''key''))"
    by (simp add: sampleScopeContext_def sampleResultVariable_def)
  have no_lift: "extractVariableAssignments sampleEnv (VariableQueryNode sampleItemVariable)
      = (VariableQueryNode sampleItemVariable, [])"
    by (simp add: sampleEnv_def)
  from scope key have 1: "variableMap (fst (newPreExecContext sampleScopeContext rootStore))
      (var_id sampleResultVariable) = Some (AQLQueryResultVariable 1 (Some ''key''))"
    by simp
  from scope have "\<not> (variableMap sampleScopeContext (var_id sampleItemVariable)
        = Some (AQLVariable 0 (Some ''item''))
      \<and> isQueryResultVariable (AQLVariable 0 (Some ''item'')))
    \<longrightarrow> variableMap (fst (newPreExecContext sampleScopeContext rootStore))
      (var_id sampleItemVariable) \<noteq> Some (AQLVariable 0 (Some ''item''))"
    by blast
  then have 2: "variableMap (fst (newPreExecContext sampleScopeContext rootStore))
      (var_id sampleItemVariable) \<noteq> Some (AQLVariable 0 (Some ''item''))"
    by simp
  from scope have 3: "readAccessedCollections (fst (newPreExecContext sampleScopeContext rootStore))
       = readAccessedCollections sampleScopeContext"
    by blast
  from scope have 4: "writeAccessedCollections (fst (newPreExecContext sampleScopeContext rootStore))
       = writeAccessedCollections sampleScopeContext"
    by blast
  from scope item have 5: "getVariable (fst (newPreExecContext sampleScopeContext rootStore))
      sampleItemVariable = Inl (UnboundVariable sampleItemVariable)"
    by blast
  from scope item no_lift have 6: "addPreExecuteQuery sampleEnv ?pn
        sampleScopeContext (VariableQueryNode sampleItemVariable) None None rootStore
       = Inl (UnboundVariable sampleItemVariable)"
    by blast
  have 7: "\<exists>st'. addPreExecuteQuery sampleEnv ?pn
        sampleScopeContext (VariableQueryNode sampleResultVariable) None None rootStore
       = Inr (sampleScopeContext, st')"
    by (simp add: addPreExecuteQuery_def bindM_def returnM_def createAQLCompoundQuery_def
          processors_def processVariable_def liftE_def getVariable_def newPreExecContext_def
          newQueryContext_def array_push_def split_def Let_def sampleEnv_def
          sampleScopeContext_def sampleResultVariable_def)
  have "\<forall>newContext st'. addPreExecuteQuery sampleEnv ?pn sampleScopeContext
            (VariableQueryNode sampleResultVariable) None None rootStore = Inr (newContext, st')
        \<longrightarrow> (\<exists>resultVar st0 aqlQuery st1.
         createAQLCompoundQuery sampleEnv ?pn
           (VariableQueryNode sampleResultVariable) resultVar None
           (fst (newPreExecContext sampleScopeContext st0))
           (snd (newPreExecContext sampleScopeContext st0)) = Inr (aqlQuery, st1))"
    using preExec_context_scope [of sampleScopeContext sampleEnv ?pn
      "VariableQueryNode sampleResultVariable" None None rootStore]
    by blast
  with 7 have 8: "\<exists>resultVar st0 aqlQuery st1.
         createAQLCompoundQuery sampleEnv ?pn
           (VariableQueryNode sampleResultVariable) resultVar None
           (fst (newPreExecContext sampleScopeContext st0))
           (snd (newPreExecContext sampleScopeContext st0)) = Inr (aqlQuery, st1)"
    by blast
  from item key 1 2 3 4 5 6 7 8 show ?thesis
    by blast
qed

section \<open>Properties of the lowering of operators\<close>

text \<open>Sample lowerings, used by the examples below.\<close>

lemma sampleDescription_lowered:
  "processNode sampleEnv (Suc (Suc n)) sampleDescription sampleScopeContext st
     = Inr (sampleDescriptionFragment, st)"
  by (simp add: sampleDescription_def sampleDescriptionFragment_def processors_def
        processField_def processVariable_def bindM_def returnM_def liftE_def getVariable_def
        getFieldPathAccessFragment_def getFieldAccessFragment_def sampleScopeContext_def
        sampleItemVariable_def sampleEnv_def sampleSafeIdentifier_def)

lemma sampleLiteral_lowered:
  "processNode sampleEnv (Suc n) (LiteralQueryNode v) context st = Inr (AQLBoundValue v, st)"
  by (simp add: processors_def processLiteral_def returnM_def)

lemma sampleResult_lowered:
  "processNode sampleEnv (Suc n) (VariableQueryNode sampleResultVariable) sampleScopeContext st
     = Inr (aql [AQLVariableFragment (AQLQueryResultVariable 1 (Some ''key''))], st)"
  by (simp add: processors_def processVariable_def liftE_def getVariable_def
        sampleScopeContext_def sampleResultVariable_def)

lemmas sampleAnalysis =
  sampleEnv_def sampleAnalyzeLikePatternPrefix_def sampleLower_def sampleUpper_def Let_def

lemma literalString_None_iff:
  "literalString node = None \<longleftrightarrow> (\<forall>s. node \<noteq> LiteralQueryNode (JString s))"
  by (cases node rule: literalString.cases) auto

text \<open>
  C1: the lowering of a \<^verbatim>\<open>LIKE\<close> operation whose operands lower to \<open>lhs\<close> and \<open>rhs\<close>.
  If the right-hand side is not a literal string, the result is \<^verbatim>\<open>LIKE(lhs, rhs, true)\<close>.
  If it is a literal string whose pattern the analysis finds entirely literal, the
  result is an equals-ignore-case query on the literal value: plain equality when
  lower-casing and upper-casing the value agree, the range
  \<^verbatim>\<open>lhs >= UPPER(value) && lhs <= LOWER(value)\<close> otherwise. If the pattern is a simple
  prefix pattern, the result is only the fast range query
  \<^verbatim>\<open>lhs >= UPPER(prefix) && lhs < LOWER(prefix + U+10FFFF)\<close>, or \<^verbatim>\<open>IS_STRING(lhs)\<close> for an
  empty prefix. Otherwise it is the conjunction of that fast query over the literal
  prefix with the slow \<^verbatim>\<open>LIKE(lhs, rhs, true)\<close>.
\<close>

theorem like_lowering:
  assumes lhs: "pn lhsNode ctx st = Inr (lhs, st1)"
    and rhs: "pn rhsNode ctx st1 = Inr (rhs, st2)"
  shows "((\<forall>s. rhsNode \<noteq> LiteralQueryNode (JString s)) \<longrightarrow>
            processBinaryOperation E pn lhsNode LIKE rhsNode ctx st
            = Inr (aql [code ''LIKE('', lhs, code '', '', rhs, code '', true)''], st2))
       \<and> (\<forall>pattern. rhsNode = LiteralQueryNode (JString pattern)
              \<and> isLiteralPattern (analyzeLikePatternPrefix E pattern) \<longrightarrow>
            processBinaryOperation E pn lhsNode LIKE rhsNode ctx st
            = Inr (let v = literalPrefix (analyzeLikePatternPrefix E pattern) in
                   if toLowerCase E v = toUpperCase E v
                   then aql [code ''('', lhs, code '' == '', AQLBoundValue (JString v), code '')'']
                   else aql [code ''('', lhs, code '' >= '',
                             aql [code ''UPPER('', AQLBoundValue (JString v), code '')''],
                             code '' && '', lhs, code '' <= '',
                             aql [code ''LOWER('', AQLBoundValue (JString v), code '')''],
                             code '')''],
                   st2))
       \<and> (\<forall>pattern. rhsNode = LiteralQueryNode (JString pattern)
              \<and> \<not> isLiteralPattern (analyzeLikePatternPrefix E pattern)
              \<and> isSimplePrefixPattern (analyzeLikePatternPrefix E pattern) \<longrightarrow>
            processBinaryOperation E pn lhsNode LIKE rhsNode ctx st
            = Inr (let prefix = literalPrefix (analyzeLikePatternPrefix E pattern) in
                   if prefix = [] then aql [code ''IS_STRING('', lhs, code '')'']
                   else aql [code ''('', lhs, code '' >= UPPER('', AQLBoundValue (JString prefix),
                             code '') && '', lhs, code '' < LOWER('',
                             AQLBoundValue (JString (prefix @ [CHR 0xF4, CHR 0x8F, CHR 0xBF, CHR 0xBF])),
                             code ''))''],
                   st2))
       \<and> (\<forall>pattern. rhsNode = LiteralQueryNode (JString pattern)
              \<and> \<not> isLiteralPattern (analyzeLikePatternPrefix E pattern)
              \<and> \<not> isSimplePrefixPattern (analyzeLikePatternPrefix E pattern) \<longrightarrow>
            processBinaryOperation E pn lhsNode LIKE rhsNode ctx st
            = Inr (let prefix = literalPrefix (analyzeLikePatternPrefix E pattern) in
                   aql [code ''('',
                        (if prefix = [] then aql [code ''IS_STRING('', lhs, code '')'']
                         else aql [code ''('', lhs, code '' >= UPPER('',
                                   AQLBoundValue (JString prefix),
                                   code '') && '', lhs, code '' < LOWER('',
                                   AQLBoundValue (JString (prefix @ [CHR 0xF4, CHR 0x8F, CHR 0xBF, CHR 0xBF])),
                                   code ''))'']),
                        code '' && '',
                        aql [code ''LIKE('', lhs, code '', '', rhs, code '', true)''],
                        code '')''],
                   st2))"
proof (intro conjI allI impI)
  assume "\<forall>s. rhsNode \<noteq> LiteralQueryNode (JString s)"
  then have "literalString rhsNode = None"
    by (simp add: literalString_None_iff)
  with lhs rhs show "processBinaryOperation E pn lhsNode LIKE rhsNode ctx st
            = Inr (aql [code ''LIKE('', lhs, code '', '', rhs, code '', true)''], st2)"
    by (simp add: processBinaryOperation_def bindM_def returnM_def getAQLOperator_def)
next
  fix pattern
  assume "rhsNode = LiteralQueryNode (JString pattern)
              \<and> isLiteralPattern (analyzeLikePatternPrefix E pattern)"
  with lhs rhs show "processBinaryOperation E pn lhsNode LIKE rhsNode ctx st
            = Inr (let v = literalPrefix (analyzeLikePatternPrefix E pattern) in
                   if toLowerCase E v = toUpperCase E v
                   then aql [code ''('', lhs, code '' == '', AQLBoundValue (JString v), code '')'']
                   else aql [code ''('', lhs, code '' >= '',
                             aql [code ''UPPER('', AQLBoundValue (JString v), code '')''],
                             code '' && '', lhs, code '' <= '',
                             aql [code ''LOWER('', AQLBoundValue (JString v), code '')''],
                             code '')''],
                   st2)"
    by (simp add: processBinaryOperation_def bindM_def returnM_def getAQLOperator_def
          getEqualsIgnoreCaseQuery_def isStringCaseInsensitive_def Let_def)
next
  fix pattern
  assume "rhsNode = LiteralQueryNode (JString pattern)
              \<and> \<not> isLiteralPattern (analyzeLikePatternPrefix E pattern)
              \<and> isSimplePrefixPattern (analyzeLikePatternPrefix E pattern)"
  with lhs rhs show "processBinaryOperation E pn lhsNode LIKE rhsNode ctx st
            = Inr (let prefix = literalPrefix (analyzeLikePatternPrefix E pattern) in
                   if prefix = [] then aql [code ''IS_STRING('', lhs, code '')'']
                   else aql [code ''('', lhs, code '' >= UPPER('', AQLBoundValue (JString prefix),
                             code '') && '', lhs, code '' < LOWER('',
                             AQLBoundValue (JString (prefix @ [CHR 0xF4, CHR 0x8F, CHR 0xBF, CHR 0xBF])),
                             code ''))''],
                   st2)"
    by (simp add: processBinaryOperation_def bindM_def returnM_def getAQLOperator_def
          getFastStartsWithQuery_def maxChar_def Let_def)
next
  fix pattern
  assume "rhsNode = LiteralQueryNode (JString pattern)
              \<and> \<not> isLiteralPattern (analyzeLikePatternPrefix E pattern)
              \<and> \<not> isSimplePrefixPattern (analyzeLikePatternPrefix E pattern)"
  with lhs rhs show "processBinaryOperation E pn lhsNode LIKE rhsNode ctx st
            = Inr (let prefix = literalPrefix (analyzeLikePatternPrefix E pattern) in
                   aql [code ''('',
                        (if prefix = [] then aql [code ''IS_STRING('', lhs, code '')'']
                         else aql [code ''('', lhs, code '' >= UPPER('',
                                   AQLBoundValue (JString prefix),
                                   code '') && '', lhs, code '' < LOWER('',
                                   AQLBoundValue (JString (prefix @ [CHR 0xF4, CHR 0x8F, CHR 0xBF, CHR 0xBF])),
                                   code ''))'']),
                        code '' && '',
                        aql [code ''LIKE('', lhs, code '', '', rhs, code '', true)''],
                        code '')''],
                   st2)"
    by (simp add: processBinaryOperation_def bindM_def returnM_def getAQLOperator_def
          getFastStartsWithQuery_def maxChar_def Let_def)
qed

theorem like_lowering_witness:
  "processBinaryOperation sampleEnv (processNode sampleEnv (Suc (Suc 0))) sampleDescription LIKE
      (VariableQueryNode sampleResultVariable) sampleScopeContext rootStore
    = Inr (aql [code ''LIKE('', sampleDescriptionFragment, code '', '',
                aql [AQLVariableFragment (AQLQueryResultVariable 1 (Some ''key''))],
                code '', true)''], rootStore)
   \<and> processBinaryOperation sampleEnv (processNode sampleEnv (Suc (Suc 0))) sampleDescription LIKE
      (LiteralQueryNode (JString ''1000173'')) sampleScopeContext rootStore
    = Inr (aql [code ''('', sampleDescriptionFragment, code '' == '',
                AQLBoundValue (JString ''1000173''), code '')''], rootStore)
   \<and> processBinaryOperation sampleEnv (processNode sampleEnv (Suc (Suc 0))) sampleDescription LIKE
      (LiteralQueryNode (JString ''abc'')) sampleScopeContext rootStore
    = Inr (aql [code ''('', sampleDescriptionFragment, code '' >= '',
                aql [code ''UPPER('', AQLBoundValue (JString ''abc''), code '')''],
                code '' && '', sampleDescriptionFragment, code '' <= '',
                aql [code ''LOWER('', AQLBoundValue (JString ''abc''), code '')''],
                code '')''], rootStore)
   \<and> processBinaryOperation sampleEnv (processNode sampleEnv (Suc (Suc 0))) sampleDescription LIKE
      (LiteralQueryNode (JString ''prefix%'')) sampleScopeContext rootStore
    = Inr (aql [code ''('', sampleDescriptionFragment, code '' >= UPPER('',
                AQLBoundValue (JString ''prefix''), code '') && '', sampleDescriptionFragment,
                code '' < LOWER('',
                AQLBoundValue (JString (''prefix'' @ [CHR 0xF4, CHR 0x8F, CHR 0xBF, CHR 0xBF])),
                code ''))''], rootStore)
   \<and> processBinaryOperation sampleEnv (processNode sampleEnv (Suc (Suc 0))) sampleDescription LIKE
      (LiteralQueryNode (JString ''%'')) sampleScopeContext rootStore
    = Inr (aql [code ''IS_STRING('', sampleDescriptionFragment, code '')''], rootStore)
   \<and> processBinaryOperation sampleEnv (processNode sampleEnv (Suc (Suc 0))) sampleDescription LIKE
      (LiteralQueryNode (JString ''a%b'')) sampleScopeContext rootStore
    = Inr (aql [code ''('',
                aql [code ''('', sampleDescriptionFragment, code '' >= UPPER('',
                     AQLBoundValue (JString ''a''), code '') && '', sampleDescriptionFragment,
                     code '' < LOWER('',
                     AQLBoundValue (JString (''a'' @ [CHR 0xF4, CHR 0x8F, CHR 0xBF, CHR 0xBF])),
                     code ''))''],
                code '' && '',
                aql [code ''LIKE('', sampleDescriptionFragment, code '', '',
                     AQLBoundValue (JString ''a%b''), code '', true)''],
                code '')''], rootStore)"
proof -
  let ?pn = "processNode sampleEnv (Suc (Suc 0))"
  have l: "?pn sampleDescription sampleScopeContext rootStore
      = Inr (sampleDescriptionFragment, rootStore)"
    by (rule sampleDescription_lowered)
  have r: "\<And>v. ?pn (LiteralQueryNode v) sampleScopeContext rootStore
      = Inr (AQLBoundValue v, rootStore)"
    by (rule sampleLiteral_lowered)
  have k: "?pn (VariableQueryNode sampleResultVariable) sampleScopeContext rootStore
     = Inr (aql [AQLVariableFragment (AQLQueryResultVariable 1 (Some ''key''))], rootStore)"
    by (rule sampleResult_lowered)
  have 1: "processBinaryOperation sampleEnv ?pn sampleDescription LIKE
      (VariableQueryNode sampleResultVariable) sampleScopeContext rootStore
    = Inr (aql [code ''LIKE('', sampleDescriptionFragment, code '', '',
                aql [AQLVariableFragment (AQLQueryResultVariable 1 (Some ''key''))],
                code '', true)''], rootStore)"
    using like_lowering [where pn = "processNode sampleEnv (Suc (Suc 0))" and lhsNode = sampleDescription
        and ctx = sampleScopeContext and st = rootStore and E = sampleEnv,
        OF l k] by simp
  have 2: "processBinaryOperation sampleEnv ?pn sampleDescription LIKE
      (LiteralQueryNode (JString ''1000173'')) sampleScopeContext rootStore
    = Inr (aql [code ''('', sampleDescriptionFragment, code '' == '',
                AQLBoundValue (JString ''1000173''), code '')''], rootStore)"
    using like_lowering [where pn = "processNode sampleEnv (Suc (Suc 0))" and lhsNode = sampleDescription
        and ctx = sampleScopeContext and st = rootStore and E = sampleEnv,
        OF l r [of "JString ''1000173''"]]
    by (simp add: sampleAnalysis)
  have 3: "processBinaryOperation sampleEnv ?pn sampleDescription LIKE
      (LiteralQueryNode (JString ''abc'')) sampleScopeContext rootStore
    = Inr (aql [code ''('', sampleDescriptionFragment, code '' >= '',
                aql [code ''UPPER('', AQLBoundValue (JString ''abc''), code '')''],
                code '' && '', sampleDescriptionFragment, code '' <= '',
                aql [code ''LOWER('', AQLBoundValue (JString ''abc''), code '')''],
                code '')''], rootStore)"
    using like_lowering [where pn = "processNode sampleEnv (Suc (Suc 0))" and lhsNode = sampleDescription
        and ctx = sampleScopeContext and st = rootStore and E = sampleEnv,
        OF l r [of "JString ''abc''"]]
    by (simp add: sampleAnalysis)
  have 4: "processBinaryOperation sampleEnv ?pn sampleDescription LIKE
      (LiteralQueryNode (JString ''prefix%'')) sampleScopeContext rootStore
    = Inr (aql [code ''('', sampleDescriptionFragment, code '' >= UPPER('',
                AQLBoundValue (JString ''prefix''), code '') && '', sampleDescriptionFragment,
                code '' < LOWER('',
                AQLBoundValue (JString (''prefix'' @ [CHR 0xF4, CHR 0x8F, CHR 0xBF, CHR 0xBF])),
                code ''))''], rootStore)"
    using like_lowering [where pn = "processNode sampleEnv (Suc (Suc 0))" and lhsNode = sampleDescription
        and ctx = sampleScopeContext and st = rootStore and E = sampleEnv,
        OF l r [of "JString ''prefix%''"]]
    by (simp add: sampleAnalysis)
  have 5: "processBinaryOperation sampleEnv ?pn sampleDescription LIKE
      (LiteralQueryNode (JString ''%'')) sampleScopeContext rootStore
    = Inr (aql [code ''IS_STRING('', sampleDescriptionFragment, code '')''], rootStore)"
    using like_lowering [where pn = "processNode sampleEnv (Suc (Suc 0))" and lhsNode = sampleDescription
        and ctx = sampleScopeContext and st = rootStore and E = sampleEnv,
        OF l r [of "JString ''%''"]]
    by (simp add: sampleAnalysis)
  have 6: "processBinaryOperation sampleEnv ?pn sampleDescription LIKE
      (LiteralQueryNode (JString ''a%b'')) sampleScopeContext rootStore
    = Inr (aql [code ''('',
                aql [code ''('', sampleDescriptionFragment, code '' >= UPPER('',
                     AQLBoundValue (JString ''a''), code '') && '', sampleDescriptionFragment,
                     code '' < LOWER('',
                     AQLBoundValue (JString (''a'' @ [CHR 0xF4, CHR 0x8F, CHR 0xBF, CHR 0xBF])),
                     code ''))''],
                code '' && '',
                aql [code ''LIKE('', sampleDescriptionFragment, code '', '',
                     AQLBoundValue (JString ''a%b''), code '', true)''],
                code '')''], rootStore)"
    using like_lowering [where pn = "processNode sampleEnv (Suc (Suc 0))" and lhsNode = sampleDescription
        and ctx = sampleScopeContext and st = rootStore and E = sampleEnv,
        OF l r [of "JString ''a%b''"]]
    by (simp add: sampleAnalysis)
  from 1 2 3 4 5 6 show ?thesis
    by blast
qed

text \<open>
  C7, as the specification states it: every operator with language lowers to a
  predicate wrapped in \<^verbatim>\<open>ANALYZER(...)\<close>. For \<^verbatim>\<open>QUICKSEARCH_STARTS_WITH\<close> the generator
  emits the bare \<^verbatim>\<open>STARTS_WITH(lhs,rhs)\<close>.
\<close>

theorem quicksearch_starts_with_counterexample:
  "processOperatorWithLanguage sampleEnv (processNode sampleEnv (Suc (Suc 0))) sampleDescription
      QUICKSEARCH_STARTS_WITH (LiteralQueryNode (JString ''a'')) (Some ''DE'')
      sampleScopeContext rootStore
    = Inr (aql [code ''STARTS_WITH('', sampleDescriptionFragment, code '','',
                AQLBoundValue (JString ''a''), code '')''], rootStore)
   \<and> \<not> isAnalyzerWrapped (aql [code ''STARTS_WITH('', sampleDescriptionFragment, code '','',
                AQLBoundValue (JString ''a''), code '')''])"
  by (simp add: processOperatorWithLanguage_def bindM_def returnM_def
        sampleDescription_lowered sampleLiteral_lowered del: processNode.simps)

text \<open>
  C7, amended: for the operators \<^verbatim>\<open>QUICKSEARCH_CONTAINS_ANY_WORD\<close>,
  \<^verbatim>\<open>QUICKSEARCH_CONTAINS_PHRASE\<close> and \<^verbatim>\<open>QUICKSEARCH_CONTAINS_PREFIX\<close> the fragment is a search
  predicate that starts with \<^verbatim>\<open>ANALYZER(\<close> and names the analyzer \<^verbatim>\<open>text_\<close> followed by the
  lower-cased language when a non-empty language is given, and \<^verbatim>\<open>identity\<close> when none
  is given. For \<^verbatim>\<open>QUICKSEARCH_STARTS_WITH\<close> the fragment is \<^verbatim>\<open>STARTS_WITH(lhs,rhs)\<close> with no
  \<^verbatim>\<open>ANALYZER\<close> around it and no analyzer named. The text that closes the
  \<^verbatim>\<open>QUICKSEARCH_CONTAINS_PREFIX\<close> fragment is left open.
\<close>

theorem operator_with_language_lowering:
  assumes lhs: "pn lhsNode ctx st = Inr (lhs, st1)"
    and rhs: "pn rhsNode ctx st1 = Inr (rhs, st2)"
  shows "(\<forall>l. l \<noteq> [] \<longrightarrow> analyzerFor E (Some l) = ''text_'' @ toLowerCase E l)
       \<and> analyzerFor E None = ''identity''
       \<and> (operator = QUICKSEARCH_CONTAINS_ANY_WORD \<longrightarrow>
            processOperatorWithLanguage E pn lhsNode operator rhsNode language ctx st
            = Inr (aql [code ''ANALYZER( '', lhs, code '' IN TOKENS('', rhs, code '', '',
                        AQLBoundValue (JString (analyzerFor E language)), code ''),'',
                        AQLBoundValue (JString (analyzerFor E language)), code '')''], st2))
       \<and> (operator = QUICKSEARCH_CONTAINS_PHRASE \<longrightarrow>
            processOperatorWithLanguage E pn lhsNode operator rhsNode language ctx st
            = Inr (aql [code ''ANALYZER( PHRASE( '', lhs, code '', '', rhs, code ''), '',
                        AQLBoundValue (JString (analyzerFor E language)), code '')''], st2))
       \<and> (operator = QUICKSEARCH_CONTAINS_PREFIX \<longrightarrow>
            (\<exists>closing. processOperatorWithLanguage E pn lhsNode operator rhsNode language ctx st
            = Inr (aql [code ''ANALYZER( STARTS_WITH( '', lhs, code '', TOKENS('', rhs,
                        code '')[0]), '', AQLBoundValue (JString (analyzerFor E language)),
                        code closing], st2)))
       \<and> (operator = QUICKSEARCH_STARTS_WITH \<longrightarrow>
            processOperatorWithLanguage E pn lhsNode operator rhsNode language ctx st
            = Inr (aql [code ''STARTS_WITH('', lhs, code '','', rhs, code '')''], st2))"
  using lhs rhs
  by (simp add: processOperatorWithLanguage_def bindM_def returnM_def analyzerFor_def
        IDENTITY_ANALYZER_def Let_def)

theorem operator_with_language_lowering_witness:
  "analyzerFor sampleEnv (Some ''DE'') = ''text_de''
   \<and> processOperatorWithLanguage sampleEnv (processNode sampleEnv (Suc (Suc 0))) sampleDescription
        QUICKSEARCH_CONTAINS_PHRASE (LiteralQueryNode (JString ''a phrase'')) (Some ''DE'')
        sampleScopeContext rootStore
      = Inr (aql [code ''ANALYZER( PHRASE( '', sampleDescriptionFragment, code '', '',
                  AQLBoundValue (JString ''a phrase''), code ''), '',
                  AQLBoundValue (JString ''text_de''), code '')''], rootStore)
   \<and> processOperatorWithLanguage sampleEnv (processNode sampleEnv (Suc (Suc 0))) sampleDescription
        QUICKSEARCH_CONTAINS_ANY_WORD (LiteralQueryNode (JString ''a phrase'')) None
        sampleScopeContext rootStore
      = Inr (aql [code ''ANALYZER( '', sampleDescriptionFragment, code '' IN TOKENS('',
                  AQLBoundValue (JString ''a phrase''), code '', '',
                  AQLBoundValue (JString ''identity''), code ''),'',
                  AQLBoundValue (JString ''identity''), code '')''], rootStore)
   \<and> (\<exists>closing. processOperatorWithLanguage sampleEnv (processNode sampleEnv (Suc (Suc 0)))
        sampleDescription QUICKSEARCH_CONTAINS_PREFIX (LiteralQueryNode (JString ''a'')) (Some ''DE'')
        sampleScopeContext rootStore
      = Inr (aql [code ''ANALYZER( STARTS_WITH( '', sampleDescriptionFragment, code '', TOKENS('',
                  AQLBoundValue (JString ''a''), code '')[0]), '',
                  AQLBoundValue (JString ''text_de''), code closing], rootStore))
   \<and> processOperatorWithLanguage sampleEnv (processNode sampleEnv (Suc (Suc 0))) sampleDescription
        QUICKSEARCH_STARTS_WITH (LiteralQueryNode (JString ''a'')) (Some ''DE'')
        sampleScopeContext rootStore
      = Inr (aql [code ''STARTS_WITH('', sampleDescriptionFragment, code '','',
                  AQLBoundValue (JString ''a''), code '')''], rootStore)"
proof -
  let ?pn = "processNode sampleEnv (Suc (Suc 0))"
  have l: "?pn sampleDescription sampleScopeContext rootStore
      = Inr (sampleDescriptionFragment, rootStore)"
    by (rule sampleDescription_lowered)
  have r: "\<And>v. ?pn (LiteralQueryNode v) sampleScopeContext rootStore
      = Inr (AQLBoundValue v, rootStore)"
    by (rule sampleLiteral_lowered)
  have lower: "toLowerCase sampleEnv ''DE'' = ''de''"
    by (simp add: sampleEnv_def sampleLower_def)
  from operator_with_language_lowering [where pn = ?pn and lhsNode = sampleDescription
      and ctx = sampleScopeContext and st = rootStore and E = sampleEnv
      and operator = QUICKSEARCH_STARTS_WITH and language = "None",
      OF l r [of "JString ''a''"]] lower
  have a: "analyzerFor sampleEnv (Some ''DE'') = ''text_de''"
    by simp
  from operator_with_language_lowering [where pn = ?pn and lhsNode = sampleDescription
      and ctx = sampleScopeContext and st = rootStore and E = sampleEnv
      and operator = QUICKSEARCH_CONTAINS_PHRASE and language = "Some ''DE''",
      OF l r [of "JString ''a phrase''"]] a
  have 1: "processOperatorWithLanguage sampleEnv ?pn sampleDescription
        QUICKSEARCH_CONTAINS_PHRASE (LiteralQueryNode (JString ''a phrase'')) (Some ''DE'')
        sampleScopeContext rootStore
      = Inr (aql [code ''ANALYZER( PHRASE( '', sampleDescriptionFragment, code '', '',
                  AQLBoundValue (JString ''a phrase''), code ''), '',
                  AQLBoundValue (JString ''text_de''), code '')''], rootStore)"
    by simp
  from operator_with_language_lowering [where pn = ?pn and lhsNode = sampleDescription
      and ctx = sampleScopeContext and st = rootStore and E = sampleEnv
      and operator = QUICKSEARCH_CONTAINS_ANY_WORD and language = "None",
      OF l r [of "JString ''a phrase''"]]
  have 2: "processOperatorWithLanguage sampleEnv ?pn sampleDescription
        QUICKSEARCH_CONTAINS_ANY_WORD (LiteralQueryNode (JString ''a phrase'')) None
        sampleScopeContext rootStore
      = Inr (aql [code ''ANALYZER( '', sampleDescriptionFragment, code '' IN TOKENS('',
                  AQLBoundValue (JString ''a phrase''), code '', '',
                  AQLBoundValue (JString ''identity''), code ''),'',
                  AQLBoundValue (JString ''identity''), code '')''], rootStore)"
    by simp
  from operator_with_language_lowering [where pn = ?pn and lhsNode = sampleDescription
      and ctx = sampleScopeContext and st = rootStore and E = sampleEnv
      and operator = QUICKSEARCH_CONTAINS_PREFIX and language = "Some ''DE''",
      OF l r [of "JString ''a''"]] a
  have 3: "\<exists>closing. processOperatorWithLanguage sampleEnv ?pn
        sampleDescription QUICKSEARCH_CONTAINS_PREFIX (LiteralQueryNode (JString ''a'')) (Some ''DE'')
        sampleScopeContext rootStore
      = Inr (aql [code ''ANALYZER( STARTS_WITH( '', sampleDescriptionFragment, code '', TOKENS('',
                  AQLBoundValue (JString ''a''), code '')[0]), '',
                  AQLBoundValue (JString ''text_de''), code closing], rootStore)"
    by simp
  from operator_with_language_lowering [where pn = ?pn and lhsNode = sampleDescription
      and ctx = sampleScopeContext and st = rootStore and E = sampleEnv
      and operator = QUICKSEARCH_STARTS_WITH and language = "Some ''DE''",
      OF l r [of "JString ''a''"]]
  have 4: "processOperatorWithLanguage sampleEnv ?pn sampleDescription
        QUICKSEARCH_STARTS_WITH (LiteralQueryNode (JString ''a'')) (Some ''DE'')
        sampleScopeContext rootStore
      = Inr (aql [code ''STARTS_WITH('', sampleDescriptionFragment, code '','',
                  AQLBoundValue (JString ''a''), code '')''], rootStore)"
    by simp
  from a 1 2 3 4 show ?thesis
    by blast
qed

section \<open>Properties of the lowering of list transformations\<close>

lemma bindM_Inr_elim:
  assumes "bindM m f st = Inr r"
  obtains x st1 where "m st = Inr (x, st1)" and "f x st1 = Inr r"
  using assms by (auto simp: bindM_def split: sum.splits)

lemma returnM_Inr [simp]: "(returnM x st = Inr (y, st')) = (x = y \<and> st = st')"
  by (auto simp: returnM_def)

lemma generateSortAQL_not_limit:
  "generateSortAQL pn orderBy ctx st = Inr (s, st') \<Longrightarrow> \<not> isLimitLine s"
  by (auto simp: generateSortAQL_def split: if_splits elim!: bindM_Inr_elim)

lemma introduceAssignments_not_limit:
  "introduceAssignments pn as ctx st = Inr ((lets, ctx'), st') \<Longrightarrow> \<forall>l \<in> set lets. \<not> isLimitLine l"
proof (induction as arbitrary: ctx st lets ctx' st')
  case Nil
  then show ?case by simp
next
  case (Cons a as)
  obtain v valueNode resultNode where a: "a = (v, valueNode, resultNode)"
    by (cases a) auto
  from Cons.prems show ?case
    unfolding a introduceAssignments.simps
    apply (auto elim!: bindM_Inr_elim)
    using Cons.IH apply blast
    done
qed

lemma listFragment_cases:
  assumes "(case listNode of
              FollowEdgeQueryNode relationSide sourceEntityNode \<Rightarrow>
                bindM (A relationSide sourceEntityNode) (\<lambda>l. returnM (l, D))
            | _ \<Rightarrow> bindM B (\<lambda>l. returnM (l, aql []))) st = Inr ((l, d), st')"
  shows "d = D \<or> d = aql []"
  using assms by (cases listNode) (auto elim!: bindM_Inr_elim)

lemma processTransformList_block:
  assumes "processTransformList E pn listNode itemVariable filterNode orderBy skip maxCount
             innerNode ctx st = Inr (frag, st')"
  shows "\<exists>forLine inLine filterLine danglingLine sortLine projectionLine lets returnLine.
           frag = parenthesizeList
             ([forLine, inLine, filterLine, danglingLine, sortLine, limitClause skip maxCount,
               projectionLine] @ lets @ [returnLine])
           \<and> \<not> isLimitLine forLine \<and> \<not> isLimitLine inLine \<and> \<not> isLimitLine filterLine
           \<and> \<not> isLimitLine danglingLine \<and> \<not> isLimitLine sortLine
           \<and> \<not> isLimitLine projectionLine \<and> (\<forall>l \<in> set lets. \<not> isLimitLine l)
           \<and> \<not> isLimitLine returnLine"
  using assms unfolding processTransformList_def
  apply (elim bindM_Inr_elim)
  apply (auto simp: Let_def split: prod.splits if_splits elim!: bindM_Inr_elim
       dest!: generateSortAQL_not_limit introduceAssignments_not_limit listFragment_cases)
         apply ((intro exI conjI, rule refl, simp_all)[1])+
  done

lemma sampleTransformList_lowered:
  "\<exists>st'. sampleTransformList skip maxCount rootStore
     = Inr (parenthesizeList
              [aql [code ''FOR '', aql [AQLVariableFragment (AQLVariable 0 (Some ''item''))]],
               aql [code ''IN '', AQLCollectionFragment ''deliverys''],
               aql [code ''FILTER '',
                    aql [code ''('',
                         aql [aql [AQLVariableFragment (AQLVariable 0 (Some ''item''))], aql [],
                              aql [code ''.'', AQLIdentifierFragment ''deliveryNumber'']],
                         code '' '', aql [code ''==''], code '' '',
                         AQLBoundValue (JString ''1000173''), code '')'']],
               aql [], aql [], limitClause skip maxCount, aql [],
               aql [code ''RETURN '', aql [AQLVariableFragment (AQLVariable 0 (Some ''item''))]]],
            st')"
  by (simp add: sampleTransformList_def processTransformList_def processors_def
        processBinaryOperation_def processField_def processVariable_def processLiteral_def
        processEntities_def getCollectionForType_def aql_collection_def addCollectionAccess_def
        set_add_def generateSortAQL_def useIndirectedProjection_def
        bindM_def returnM_def liftE_def getVariable_def introduceVariable_def newAQLVariable_def
        newNestedContextWithNewVariable_def newQueryContext_def getAQLOperator_def
        getFieldPathAccessFragment_def getFieldAccessFragment_def Let_def
        sampleEnv_def sampleSafeIdentifier_def sampleCollectionName_def sampleLower_def
        sampleDelivery_def sampleDeliveryNumberFilter_def sampleItemVariable_def
        rootContext_def rootStore_def emptyStore_def)

text \<open>
  C4: the block that a \<^verbatim>\<open>TransformListQueryNode\<close> lowers to is a parenthesized list of
  lines, and the lines of the block that are \<^verbatim>\<open>LIMIT\<close> clauses are exactly the one that
  \<open>skip\<close> and \<open>maxCount\<close> determine: \<^verbatim>\<open>LIMIT maxCount\<close> when \<open>maxCount\<close> is set and \<open>skip\<close> is
  0, \<^verbatim>\<open>LIMIT skip, maxCount\<close> when \<open>maxCount\<close> is set and \<open>skip\<close> is positive,
  \<^verbatim>\<open>LIMIT skip, MAX_SAFE_INTEGER\<close> when \<open>maxCount\<close> is unset and \<open>skip\<close> is positive, and none
  when \<open>maxCount\<close> is unset and \<open>skip\<close> is 0.
\<close>

theorem transformList_limit_clause:
  assumes "processTransformList E pn listNode itemVariable filterNode orderBy skip maxCount
             innerNode ctx st = Inr (frag, st')"
  shows "\<exists>lines. frag = parenthesizeList lines
       \<and> (\<forall>n. maxCount = Some n \<and> skip = 0 \<longrightarrow>
            filter isLimitLine lines = [aql [code ''LIMIT '', AQLBoundValue (JNumber n)]])
       \<and> (\<forall>n. maxCount = Some n \<and> skip > 0 \<longrightarrow>
            filter isLimitLine lines
            = [aql [code ''LIMIT '', AQLBoundValue (JNumber skip), code '', '',
                    AQLBoundValue (JNumber n)]])
       \<and> (maxCount = None \<and> skip > 0 \<longrightarrow>
            filter isLimitLine lines
            = [aql [code ''LIMIT '', AQLBoundValue (JNumber skip), code '', '',
                    AQLBoundValue (JNumber 9007199254740991)]])
       \<and> (maxCount = None \<and> skip = 0 \<longrightarrow> filter isLimitLine lines = [])"
proof -
  from processTransformList_block [OF assms]
  obtain forLine inLine filterLine danglingLine sortLine projectionLine lets returnLine
    where frag: "frag = parenthesizeList
             ([forLine, inLine, filterLine, danglingLine, sortLine, limitClause skip maxCount,
               projectionLine] @ lets @ [returnLine])"
      and others: "\<not> isLimitLine forLine" "\<not> isLimitLine inLine" "\<not> isLimitLine filterLine"
        "\<not> isLimitLine danglingLine" "\<not> isLimitLine sortLine" "\<not> isLimitLine projectionLine"
        "\<forall>l \<in> set lets. \<not> isLimitLine l" "\<not> isLimitLine returnLine"
    by blast
  from others(7) have lets: "filter isLimitLine lets = []"
    by (simp add: filter_empty_conv)
  let ?lines = "[forLine, inLine, filterLine, danglingLine, sortLine, limitClause skip maxCount,
               projectionLine] @ lets @ [returnLine]"
  have only: "filter isLimitLine ?lines
      = (if isLimitLine (limitClause skip maxCount) then [limitClause skip maxCount] else [])"
    using others lets by simp
  show ?thesis
  proof (intro exI conjI allI impI)
    show "frag = parenthesizeList ?lines"
      by (rule frag)
  next
    fix n assume "maxCount = Some n \<and> skip = 0"
    then show "filter isLimitLine ?lines = [aql [code ''LIMIT '', AQLBoundValue (JNumber n)]]"
      unfolding only by (simp add: limitClause_def)
  next
    fix n assume "maxCount = Some n \<and> skip > 0"
    then show "filter isLimitLine ?lines
            = [aql [code ''LIMIT '', AQLBoundValue (JNumber skip), code '', '',
                    AQLBoundValue (JNumber n)]]"
      unfolding only by (simp add: limitClause_def)
  next
    assume "maxCount = None \<and> skip > 0"
    then show "filter isLimitLine ?lines
            = [aql [code ''LIMIT '', AQLBoundValue (JNumber skip), code '', '',
                    AQLBoundValue (JNumber 9007199254740991)]]"
      unfolding only by (simp add: limitClause_def MAX_SAFE_INTEGER_def)
  next
    assume "maxCount = None \<and> skip = 0"
    then show "filter isLimitLine ?lines = []"
      unfolding only by (simp add: limitClause_def)
  qed
qed

theorem transformList_limit_clause_witness:
  "(\<exists>frag st' lines. sampleTransformList 0 (Some 10) rootStore = Inr (frag, st')
       \<and> frag = parenthesizeList lines
       \<and> filter isLimitLine lines = [aql [code ''LIMIT '', AQLBoundValue (JNumber 10)]])
   \<and> (\<exists>frag st' lines. sampleTransformList 20 (Some 10) rootStore = Inr (frag, st')
       \<and> frag = parenthesizeList lines
       \<and> filter isLimitLine lines
          = [aql [code ''LIMIT '', AQLBoundValue (JNumber 20), code '', '',
                  AQLBoundValue (JNumber 10)]])
   \<and> (\<exists>frag st' lines. sampleTransformList 20 None rootStore = Inr (frag, st')
       \<and> frag = parenthesizeList lines
       \<and> filter isLimitLine lines
          = [aql [code ''LIMIT '', AQLBoundValue (JNumber 20), code '', '',
                  AQLBoundValue (JNumber 9007199254740991)]])
   \<and> (\<exists>frag st' lines. sampleTransformList 0 None rootStore = Inr (frag, st')
       \<and> frag = parenthesizeList lines
       \<and> filter isLimitLine lines = [])"
proof -
  have run: "\<And>skip maxCount. \<exists>frag st'. sampleTransformList skip maxCount rootStore = Inr (frag, st')"
    using sampleTransformList_lowered by blast
  have 1: "\<exists>frag st' lines. sampleTransformList 0 (Some 10) rootStore = Inr (frag, st')
       \<and> frag = parenthesizeList lines
       \<and> filter isLimitLine lines = [aql [code ''LIMIT '', AQLBoundValue (JNumber 10)]]"
  proof -
    from run obtain frag st' where r: "sampleTransformList 0 (Some 10) rootStore = Inr (frag, st')"
      by blast
    from transformList_limit_clause [OF r [unfolded sampleTransformList_def]] r
    show ?thesis by auto
  qed
  have 2: "\<exists>frag st' lines. sampleTransformList 20 (Some 10) rootStore = Inr (frag, st')
       \<and> frag = parenthesizeList lines
       \<and> filter isLimitLine lines
          = [aql [code ''LIMIT '', AQLBoundValue (JNumber 20), code '', '',
                  AQLBoundValue (JNumber 10)]]"
  proof -
    from run obtain frag st' where r: "sampleTransformList 20 (Some 10) rootStore = Inr (frag, st')"
      by blast
    from transformList_limit_clause [OF r [unfolded sampleTransformList_def]] r
    show ?thesis by auto
  qed
  have 3: "\<exists>frag st' lines. sampleTransformList 20 None rootStore = Inr (frag, st')
       \<and> frag = parenthesizeList lines
       \<and> filter isLimitLine lines
          = [aql [code ''LIMIT '', AQLBoundValue (JNumber 20), code '', '',
                  AQLBoundValue (JNumber 9007199254740991)]]"
  proof -
    from run obtain frag st' where r: "sampleTransformList 20 None rootStore = Inr (frag, st')"
      by blast
    from transformList_limit_clause [OF r [unfolded sampleTransformList_def]] r
    show ?thesis by auto
  qed
  have 4: "\<exists>frag st' lines. sampleTransformList 0 None rootStore = Inr (frag, st')
       \<and> frag = parenthesizeList lines
       \<and> filter isLimitLine lines = []"
  proof -
    from run obtain frag st' where r: "sampleTransformList 0 None rootStore = Inr (frag, st')"
      by blast
    from transformList_limit_clause [OF r [unfolded sampleTransformList_def]] r
    show ?thesis by auto
  qed
  from 1 2 3 4 show ?thesis
    by blast
qed

section \<open>Properties of the lowering of quantifier filters\<close>

lemma collectFields_chain:
  "collectFields v node acc
     = (if isFieldChainFrom v node then Some (fieldsOfChain v node @ acc) else None)"
  by (induction v node acc rule: collectFields.induct) auto

lemma unwrapSafeList_case:
  "(case listNode of SafeListQueryNode sourceNode \<Rightarrow> sourceNode | _ \<Rightarrow> listNode)
     = unwrapSafeList listNode"
  by (cases listNode) auto

lemma literal_pattern_case:
  "(case rhsNode of LiteralQueryNode (JString pattern) \<Rightarrow> P pattern | _ \<Rightarrow> False)
     = (case literalString rhsNode of None \<Rightarrow> False | Some pattern \<Rightarrow> P pattern)"
  by (cases rhsNode rule: literalString.cases) auto

lemma operator_works_case:
  "(case operator of EQUAL \<Rightarrow> True | LIKE \<Rightarrow> Q | _ \<Rightarrow> False) = (operator = EQUAL \<or> operator = LIKE \<and> Q)"
  by (cases operator) auto

lemma arrayExpansion_not_binary:
  "(\<forall>lhsNode operator rhsNode. conditionNode \<noteq> BinaryOperationQueryNode lhsNode operator rhsNode)
   \<Longrightarrow> getQuantifierFilterUsingArrayExpansion E pn quantifier conditionNode listNode itemVariable
         ctx st = Inr (None, st)
       \<and> \<not> arrayExpansionApplies E quantifier conditionNode listNode itemVariable"
  by (cases conditionNode)
     (auto simp: getQuantifierFilterUsingArrayExpansion_def arrayExpansionApplies_def returnM_def
        Let_def)

lemma arrayExpansion_binary:
  "getQuantifierFilterUsingArrayExpansion E pn quantifier
       (BinaryOperationQueryNode lhsNode operator rhsNode) listNode itemVariable ctx st
     = (if arrayExpansionApplies E quantifier (BinaryOperationQueryNode lhsNode operator rhsNode)
             listNode itemVariable
        then (case pn rhsNode ctx st of
                Inl e \<Rightarrow> Inl e
              | Inr (valueFrag, st1) \<Rightarrow>
                 (case pn (unwrapSafeList listNode) ctx st1 of
                    Inl e \<Rightarrow> Inl e
                  | Inr (l, st2) \<Rightarrow>
                      Inr (Some (aql [valueFrag, code '' IN '', l, code ''[*]'',
                                      aql (map (getFieldAccessFragment E)
                                             (fieldsOfChain itemVariable lhsNode))]), st2)))
        else Inr (None, st))"
  by (simp add: getQuantifierFilterUsingArrayExpansion_def arrayExpansionApplies_def
        unwrapSafeList_case literal_pattern_case operator_works_case collectFields_chain
        isStringCaseInsensitive_def bindM_def returnM_def Let_def
      split: sum.splits option.splits)

lemma sampleItems_lowered:
  "processNode sampleEnv (Suc (Suc n)) sampleItems sampleScopeContext st
     = Inr (sampleItemsFragment, st)"
  by (simp add: sampleItems_def sampleItemsFragment_def processors_def
        processField_def processVariable_def bindM_def returnM_def liftE_def getVariable_def
        getFieldPathAccessFragment_def getFieldAccessFragment_def sampleScopeContext_def
        sampleItemVariable_def sampleEnv_def sampleSafeIdentifier_def)

lemma sampleItemNumber_access:
  "map (getFieldAccessFragment sampleEnv) (fieldsOfChain sampleQuantifierVariable sampleItemNumber)
     = [aql [code ''.'', AQLIdentifierFragment ''itemNumber'']]"
  by (simp add: sampleItemNumber_def sampleQuantifierVariable_def getFieldAccessFragment_def
        sampleEnv_def sampleSafeIdentifier_def)

lemma sample_applies:
  "arrayExpansionApplies sampleEnv QSome
     (BinaryOperationQueryNode sampleItemNumber EQUAL (LiteralQueryNode (JString ''abc'')))
     sampleItems sampleQuantifierVariable"
  "arrayExpansionApplies sampleEnv QSome
     (BinaryOperationQueryNode sampleItemNumber LIKE (LiteralQueryNode (JString ''1000173'')))
     (SafeListQueryNode sampleItems) sampleQuantifierVariable"
  "\<not> arrayExpansionApplies sampleEnv QEvery
     (BinaryOperationQueryNode sampleItemNumber EQUAL (LiteralQueryNode (JString ''abc'')))
     sampleItems sampleQuantifierVariable"
  "\<not> arrayExpansionApplies sampleEnv QSome
     (BinaryOperationQueryNode sampleItemNumber LIKE (LiteralQueryNode (JString ''abc'')))
     sampleItems sampleQuantifierVariable"
  by (simp_all add: arrayExpansionApplies_def sampleItems_def sampleItemNumber_def
        sampleQuantifierVariable_def sampleAnalysis)

text \<open>
  C3: \<open>getQuantifierFilterUsingArrayExpansion\<close> takes the fast path exactly when the
  quantifier is \<open>some\<close>, the list node is a field access, possibly wrapped in a safe list,
  the condition is a binary operation with operator \<^verbatim>\<open>EQUAL\<close>, or with \<^verbatim>\<open>LIKE\<close> and a literal
  string pattern that is entirely literal and has no case-sensitive characters, and the
  left-hand side of the condition is a chain of field accesses that starts at the item
  variable. It then lowers the right-hand side and the list, and the fragment is
  \<^verbatim>\<open>value IN list[*]\<close> followed by the accesses to the fields of the chain: no \<^verbatim>\<open>FOR\<close> loop
  is built. In every other case, so for \<open>every\<close> and \<open>none\<close>, it returns nothing and leaves
  the store as it was.
\<close>

theorem array_expansion_fast_path:
  "(arrayExpansionApplies E quantifier conditionNode listNode itemVariable \<longrightarrow>
      (\<exists>lhsNode operator rhsNode.
         conditionNode = BinaryOperationQueryNode lhsNode operator rhsNode
         \<and> getQuantifierFilterUsingArrayExpansion E pn quantifier conditionNode listNode
             itemVariable ctx st
           = (case pn rhsNode ctx st of
                Inl e \<Rightarrow> Inl e
              | Inr (valueFrag, st1) \<Rightarrow>
                 (case pn (unwrapSafeList listNode) ctx st1 of
                    Inl e \<Rightarrow> Inl e
                  | Inr (l, st2) \<Rightarrow>
                      Inr (Some (aql [valueFrag, code '' IN '', l, code ''[*]'',
                                      aql (map (getFieldAccessFragment E)
                                             (fieldsOfChain itemVariable lhsNode))]), st2)))))
   \<and> (\<not> arrayExpansionApplies E quantifier conditionNode listNode itemVariable \<longrightarrow>
        getQuantifierFilterUsingArrayExpansion E pn quantifier conditionNode listNode
          itemVariable ctx st = Inr (None, st))
   \<and> ((\<exists>st'. getQuantifierFilterUsingArrayExpansion E pn quantifier conditionNode listNode
               itemVariable ctx st = Inr (None, st'))
        \<longleftrightarrow> \<not> arrayExpansionApplies E quantifier conditionNode listNode itemVariable)
   \<and> (quantifier \<noteq> QSome \<longrightarrow>
        getQuantifierFilterUsingArrayExpansion E pn quantifier conditionNode listNode
          itemVariable ctx st = Inr (None, st))"
proof (cases "\<exists>lhsNode operator rhsNode.
    conditionNode = BinaryOperationQueryNode lhsNode operator rhsNode")
  case True
  then obtain lhsNode operator rhsNode
    where c: "conditionNode = BinaryOperationQueryNode lhsNode operator rhsNode"
    by blast
  have q: "quantifier \<noteq> QSome \<Longrightarrow>
      \<not> arrayExpansionApplies E quantifier conditionNode listNode itemVariable"
    by (simp add: arrayExpansionApplies_def)
  show ?thesis
    unfolding c
    using q [unfolded c]
    by (auto simp: arrayExpansion_binary split: sum.splits)
next
  case False
  then have "getQuantifierFilterUsingArrayExpansion E pn quantifier conditionNode listNode
      itemVariable ctx st = Inr (None, st)
    \<and> \<not> arrayExpansionApplies E quantifier conditionNode listNode itemVariable"
    by (intro arrayExpansion_not_binary) blast
  then show ?thesis
    by simp
qed

theorem array_expansion_fast_path_witness:
  "getQuantifierFilterUsingArrayExpansion sampleEnv (processNode sampleEnv (Suc (Suc 0))) QSome
      (BinaryOperationQueryNode sampleItemNumber EQUAL (LiteralQueryNode (JString ''abc'')))
      sampleItems sampleQuantifierVariable sampleScopeContext rootStore
    = Inr (Some (aql [AQLBoundValue (JString ''abc''), code '' IN '', sampleItemsFragment,
                      code ''[*]'', aql [aql [code ''.'', AQLIdentifierFragment ''itemNumber'']]]),
           rootStore)
   \<and> getQuantifierFilterUsingArrayExpansion sampleEnv (processNode sampleEnv (Suc (Suc 0))) QSome
      (BinaryOperationQueryNode sampleItemNumber LIKE (LiteralQueryNode (JString ''1000173'')))
      (SafeListQueryNode sampleItems) sampleQuantifierVariable sampleScopeContext rootStore
    = Inr (Some (aql [AQLBoundValue (JString ''1000173''), code '' IN '', sampleItemsFragment,
                      code ''[*]'', aql [aql [code ''.'', AQLIdentifierFragment ''itemNumber'']]]),
           rootStore)
   \<and> getQuantifierFilterUsingArrayExpansion sampleEnv (processNode sampleEnv (Suc (Suc 0))) QEvery
      (BinaryOperationQueryNode sampleItemNumber EQUAL (LiteralQueryNode (JString ''abc'')))
      sampleItems sampleQuantifierVariable sampleScopeContext rootStore
    = Inr (None, rootStore)
   \<and> getQuantifierFilterUsingArrayExpansion sampleEnv (processNode sampleEnv (Suc (Suc 0))) QSome
      (BinaryOperationQueryNode sampleItemNumber LIKE (LiteralQueryNode (JString ''abc'')))
      sampleItems sampleQuantifierVariable sampleScopeContext rootStore
    = Inr (None, rootStore)"
proof -
  let ?pn = "processNode sampleEnv (Suc (Suc 0))"
  have items: "?pn sampleItems sampleScopeContext rootStore = Inr (sampleItemsFragment, rootStore)"
    by (rule sampleItems_lowered)
  have lit: "\<And>v. ?pn (LiteralQueryNode v) sampleScopeContext rootStore
      = Inr (AQLBoundValue v, rootStore)"
    by (rule sampleLiteral_lowered)
  have 1: "getQuantifierFilterUsingArrayExpansion sampleEnv ?pn QSome
      (BinaryOperationQueryNode sampleItemNumber EQUAL (LiteralQueryNode (JString ''abc'')))
      sampleItems sampleQuantifierVariable sampleScopeContext rootStore
    = Inr (Some (aql [AQLBoundValue (JString ''abc''), code '' IN '', sampleItemsFragment,
                      code ''[*]'', aql [aql [code ''.'', AQLIdentifierFragment ''itemNumber'']]]),
           rootStore)"
    using array_expansion_fast_path [where E = sampleEnv and pn = ?pn and quantifier = QSome
        and conditionNode = "BinaryOperationQueryNode sampleItemNumber EQUAL
          (LiteralQueryNode (JString ''abc''))"
        and listNode = sampleItems and itemVariable = sampleQuantifierVariable
        and ctx = sampleScopeContext and st = rootStore]
      sample_applies(1) items lit sampleItemNumber_access
    by (simp add: sampleItems_def del: processNode.simps)
  have 2: "getQuantifierFilterUsingArrayExpansion sampleEnv ?pn QSome
      (BinaryOperationQueryNode sampleItemNumber LIKE (LiteralQueryNode (JString ''1000173'')))
      (SafeListQueryNode sampleItems) sampleQuantifierVariable sampleScopeContext rootStore
    = Inr (Some (aql [AQLBoundValue (JString ''1000173''), code '' IN '', sampleItemsFragment,
                      code ''[*]'', aql [aql [code ''.'', AQLIdentifierFragment ''itemNumber'']]]),
           rootStore)"
    using array_expansion_fast_path [where E = sampleEnv and pn = ?pn and quantifier = QSome
        and conditionNode = "BinaryOperationQueryNode sampleItemNumber LIKE
          (LiteralQueryNode (JString ''1000173''))"
        and listNode = "SafeListQueryNode sampleItems" and itemVariable = sampleQuantifierVariable
        and ctx = sampleScopeContext and st = rootStore]
      sample_applies(2) items lit sampleItemNumber_access
    by (simp del: processNode.simps)
  have 3: "getQuantifierFilterUsingArrayExpansion sampleEnv ?pn QEvery
      (BinaryOperationQueryNode sampleItemNumber EQUAL (LiteralQueryNode (JString ''abc'')))
      sampleItems sampleQuantifierVariable sampleScopeContext rootStore
    = Inr (None, rootStore)"
    using array_expansion_fast_path [where E = sampleEnv and pn = ?pn and quantifier = QEvery
        and conditionNode = "BinaryOperationQueryNode sampleItemNumber EQUAL
          (LiteralQueryNode (JString ''abc''))"
        and listNode = sampleItems and itemVariable = sampleQuantifierVariable
        and ctx = sampleScopeContext and st = rootStore]
      sample_applies(3)
    by blast
  have 4: "getQuantifierFilterUsingArrayExpansion sampleEnv ?pn QSome
      (BinaryOperationQueryNode sampleItemNumber LIKE (LiteralQueryNode (JString ''abc'')))
      sampleItems sampleQuantifierVariable sampleScopeContext rootStore
    = Inr (None, rootStore)"
    using array_expansion_fast_path [where E = sampleEnv and pn = ?pn and quantifier = QSome
        and conditionNode = "BinaryOperationQueryNode sampleItemNumber LIKE
          (LiteralQueryNode (JString ''abc''))"
        and listNode = sampleItems and itemVariable = sampleQuantifierVariable
        and ctx = sampleScopeContext and st = rootStore]
      sample_applies(4)
    by blast
  from 1 2 3 4 show ?thesis
    by blast
qed

lemma arrayExpansion_skipped:
  assumes "\<not> arrayExpansionApplies E quantifier conditionNode listNode itemVariable"
  shows "getQuantifierFilterUsingArrayExpansion E pn quantifier conditionNode listNode
           itemVariable ctx st = Inr (None, st)"
proof (cases "\<exists>lhsNode operator rhsNode.
    conditionNode = BinaryOperationQueryNode lhsNode operator rhsNode")
  case True
  with assms show ?thesis
    by (auto simp: arrayExpansion_binary)
next
  case False
  then show ?thesis
    using arrayExpansion_not_binary [of conditionNode] by blast
qed

lemma sample_slow:
  "\<not> arrayExpansionApplies sampleEnv QEvery (simplifyBooleans sampleEnv sampleItemNumberEquals)
       sampleItems sampleQuantifierVariable"
  "\<not> arrayExpansionApplies sampleEnv QNone (simplifyBooleans sampleEnv sampleItemNumberEquals)
       sampleItems sampleQuantifierVariable"
  "\<not> arrayExpansionApplies sampleEnv QSome (simplifyBooleans sampleEnv sampleItemNumberLike)
       sampleItems sampleQuantifierVariable"
  by (simp_all add: arrayExpansionApplies_def sampleItems_def sampleItemNumber_def
        sampleItemNumberEquals_def sampleItemNumberLike_def sampleQuantifierVariable_def
        sampleAnalysis)

lemma sample_rewrites:
  "simplifyBooleans sampleEnv node = node"
  "not_node sampleEnv node = UnaryOperationQueryNode node NOT"
  by (simp_all add: sampleEnv_def)

lemma sample_filtered_lowered:
  "\<exists>filtered st2.
     processNode sampleEnv (Suc (Suc (Suc (Suc (Suc 0)))))
       (TransformListQueryNode sampleItems sampleQuantifierVariable
          (UnaryOperationQueryNode sampleItemNumberEquals NOT) [] 0 None
          (VariableQueryNode sampleQuantifierVariable))
       sampleScopeContext (rootStore\<lparr>nextVariable := Suc (Suc (nextVariable rootStore))\<rparr>)
     = Inr (filtered, st2)"
  by (simp add: processTransformList_def processors_def processUnaryOperation_def
        processBinaryOperation_def processField_def processVariable_def processLiteral_def
        generateSortAQL_def useIndirectedProjection_def limitClause_def
        bindM_def returnM_def liftE_def getVariable_def introduceVariable_def newAQLVariable_def
        newNestedContextWithNewVariable_def newQueryContext_def getAQLOperator_def
        getFieldPathAccessFragment_def getFieldAccessFragment_def Let_def
        sampleEnv_def sampleSafeIdentifier_def
        sampleItems_def sampleItemNumber_def sampleItemNumberEquals_def
        sampleQuantifierVariable_def sampleItemVariable_def sampleScopeContext_def
        rootContext_def rootStore_def emptyStore_def)

text \<open>
  C2: when the array-expansion fast path does not apply to the simplified condition, the
  lowering of a quantifier filter is the lowering of the comparison of a count with the
  literal 0: the count of the list filtered by the simplified condition, compared with
  \<^verbatim>\<open>>\<close> for \<open>some\<close> and with \<^verbatim>\<open>==\<close> for \<open>none\<close>; \<open>every\<close> is first turned into \<open>none\<close> with the
  negated condition. Two dispatch steps further, the fragment is the count subquery
  over the lowered filtered list, the operator and the bound value 0.
\<close>

theorem quantifier_count_lowering:
  assumes slow: "\<not> arrayExpansionApplies E quantifier (simplifyBooleans E conditionNode) listNode
                    itemVariable"
  shows "processQuantifierFilter E pn quantifier listNode itemVariable conditionNode ctx st
         = pn (BinaryOperationQueryNode
                 (CountQueryNode
                    (TransformListQueryNode listNode itemVariable
                       (if quantifier = QEvery then not_node E (simplifyBooleans E conditionNode)
                        else simplifyBooleans E conditionNode)
                       [] 0 None (VariableQueryNode itemVariable)))
                 (if quantifier = QSome then GREATER_THAN else EQUAL)
                 (LiteralQueryNode (JNumber 0))) ctx st
       \<and> (\<forall>filtered st2.
            pn (TransformListQueryNode listNode itemVariable
                  (if quantifier = QEvery then not_node E (simplifyBooleans E conditionNode)
                   else simplifyBooleans E conditionNode)
                  [] 0 None (VariableQueryNode itemVariable)) ctx
               (st\<lparr>nextVariable := Suc (Suc (nextVariable st))\<rparr>) = Inr (filtered, st2)
            \<longrightarrow> processQuantifierFilter E (processors E (processors E pn)) quantifier listNode
                  itemVariable conditionNode ctx st
                = Inr (aql [code ''('',
                            parenthesizeObject
                              [aql [code ''FOR '',
                                    AQLVariableFragment (AQLVariable (nextVariable st) (Some ''item''))],
                               aql [code ''IN '', filtered],
                               aql [code ''COLLECT WITH COUNT INTO '',
                                    AQLVariableFragment
                                      (AQLVariable (Suc (nextVariable st)) (Some ''count''))],
                               aql [code ''return '',
                                    AQLVariableFragment
                                      (AQLVariable (Suc (nextVariable st)) (Some ''count''))]],
                            code '' '',
                            aql [code (if quantifier = QSome then ''>'' else ''=='')],
                            code '' '', AQLBoundValue (JNumber 0), code '')''],
                       st2))"
proof (intro conjI allI impI)
  note skipped = arrayExpansion_skipped [OF slow]
  show "processQuantifierFilter E pn quantifier listNode itemVariable conditionNode ctx st
         = pn (BinaryOperationQueryNode
                 (CountQueryNode
                    (TransformListQueryNode listNode itemVariable
                       (if quantifier = QEvery then not_node E (simplifyBooleans E conditionNode)
                        else simplifyBooleans E conditionNode)
                       [] 0 None (VariableQueryNode itemVariable)))
                 (if quantifier = QSome then GREATER_THAN else EQUAL)
                 (LiteralQueryNode (JNumber 0))) ctx st"
    using skipped [of pn ctx st]
    by (cases quantifier)
       (simp_all add: processQuantifierFilter_def bindM_def newTransformListQueryNode_def
          Let_def)
next
  fix filtered st2
  assume f: "pn (TransformListQueryNode listNode itemVariable
                  (if quantifier = QEvery then not_node E (simplifyBooleans E conditionNode)
                   else simplifyBooleans E conditionNode)
                  [] 0 None (VariableQueryNode itemVariable)) ctx
               (st\<lparr>nextVariable := Suc (Suc (nextVariable st))\<rparr>) = Inr (filtered, st2)"
  show "processQuantifierFilter E (processors E (processors E pn)) quantifier listNode
                  itemVariable conditionNode ctx st
                = Inr (aql [code ''('',
                            parenthesizeObject
                              [aql [code ''FOR '',
                                    AQLVariableFragment (AQLVariable (nextVariable st) (Some ''item''))],
                               aql [code ''IN '', filtered],
                               aql [code ''COLLECT WITH COUNT INTO '',
                                    AQLVariableFragment
                                      (AQLVariable (Suc (nextVariable st)) (Some ''count''))],
                               aql [code ''return '',
                                    AQLVariableFragment
                                      (AQLVariable (Suc (nextVariable st)) (Some ''count''))]],
                            code '' '',
                            aql [code (if quantifier = QSome then ''>'' else ''=='')],
                            code '' '', AQLBoundValue (JNumber 0), code '')''],
                       st2)"
    using f arrayExpansion_skipped [OF slow, of "processors E (processors E pn)" ctx st]
    by (cases quantifier)
       (simp_all add: processQuantifierFilter_def bindM_def
          newTransformListQueryNode_def Let_def processors_def processBinaryOperation_def
          processCount_def processLiteral_def aql_variable_def newAQLVariable_def returnM_def
          getAQLOperator_def)
qed

theorem quantifier_count_lowering_witness:
  "processQuantifierFilter sampleEnv (processNode sampleEnv (Suc 0)) QEvery sampleItems
      sampleQuantifierVariable sampleItemNumberEquals sampleScopeContext rootStore
    = processNode sampleEnv (Suc 0)
        (BinaryOperationQueryNode
           (CountQueryNode
              (TransformListQueryNode sampleItems sampleQuantifierVariable
                 (UnaryOperationQueryNode sampleItemNumberEquals NOT) [] 0 None
                 (VariableQueryNode sampleQuantifierVariable)))
           EQUAL (LiteralQueryNode (JNumber 0))) sampleScopeContext rootStore
   \<and> processQuantifierFilter sampleEnv (processNode sampleEnv (Suc 0)) QNone sampleItems
      sampleQuantifierVariable sampleItemNumberEquals sampleScopeContext rootStore
    = processNode sampleEnv (Suc 0)
        (BinaryOperationQueryNode
           (CountQueryNode
              (TransformListQueryNode sampleItems sampleQuantifierVariable
                 sampleItemNumberEquals [] 0 None
                 (VariableQueryNode sampleQuantifierVariable)))
           EQUAL (LiteralQueryNode (JNumber 0))) sampleScopeContext rootStore
   \<and> processQuantifierFilter sampleEnv (processNode sampleEnv (Suc 0)) QSome sampleItems
      sampleQuantifierVariable sampleItemNumberLike sampleScopeContext rootStore
    = processNode sampleEnv (Suc 0)
        (BinaryOperationQueryNode
           (CountQueryNode
              (TransformListQueryNode sampleItems sampleQuantifierVariable
                 sampleItemNumberLike [] 0 None
                 (VariableQueryNode sampleQuantifierVariable)))
           GREATER_THAN (LiteralQueryNode (JNumber 0))) sampleScopeContext rootStore
   \<and> (\<exists>filtered st2.
        processQuantifierFilter sampleEnv
          (processors sampleEnv (processors sampleEnv (processNode sampleEnv (Suc (Suc (Suc (Suc (Suc 0))))))))
          QEvery sampleItems sampleQuantifierVariable sampleItemNumberEquals sampleScopeContext
          rootStore
        = Inr (aql [code ''('',
                    parenthesizeObject
                      [aql [code ''FOR '', AQLVariableFragment (AQLVariable 0 (Some ''item''))],
                       aql [code ''IN '', filtered],
                       aql [code ''COLLECT WITH COUNT INTO '',
                            AQLVariableFragment (AQLVariable 1 (Some ''count''))],
                       aql [code ''return '',
                            AQLVariableFragment (AQLVariable 1 (Some ''count''))]],
                    code '' '', aql [code ''==''], code '' '', AQLBoundValue (JNumber 0),
                    code '')''],
               st2))"
proof -
  let ?pn = "processNode sampleEnv (Suc 0)"
  have 1: "processQuantifierFilter sampleEnv ?pn QEvery sampleItems
      sampleQuantifierVariable sampleItemNumberEquals sampleScopeContext rootStore
    = ?pn
        (BinaryOperationQueryNode
           (CountQueryNode
              (TransformListQueryNode sampleItems sampleQuantifierVariable
                 (UnaryOperationQueryNode sampleItemNumberEquals NOT) [] 0 None
                 (VariableQueryNode sampleQuantifierVariable)))
           EQUAL (LiteralQueryNode (JNumber 0))) sampleScopeContext rootStore"
    using quantifier_count_lowering [OF sample_slow(1), of ?pn sampleScopeContext rootStore]
    by (simp add: sample_rewrites del: processNode.simps)
  have 2: "processQuantifierFilter sampleEnv ?pn QNone sampleItems
      sampleQuantifierVariable sampleItemNumberEquals sampleScopeContext rootStore
    = ?pn
        (BinaryOperationQueryNode
           (CountQueryNode
              (TransformListQueryNode sampleItems sampleQuantifierVariable
                 sampleItemNumberEquals [] 0 None
                 (VariableQueryNode sampleQuantifierVariable)))
           EQUAL (LiteralQueryNode (JNumber 0))) sampleScopeContext rootStore"
    using quantifier_count_lowering [OF sample_slow(2), of ?pn sampleScopeContext rootStore]
    by (simp add: sample_rewrites del: processNode.simps)
  have 3: "processQuantifierFilter sampleEnv ?pn QSome sampleItems
      sampleQuantifierVariable sampleItemNumberLike sampleScopeContext rootStore
    = ?pn
        (BinaryOperationQueryNode
           (CountQueryNode
              (TransformListQueryNode sampleItems sampleQuantifierVariable
                 sampleItemNumberLike [] 0 None
                 (VariableQueryNode sampleQuantifierVariable)))
           GREATER_THAN (LiteralQueryNode (JNumber 0))) sampleScopeContext rootStore"
    using quantifier_count_lowering [OF sample_slow(3), of ?pn sampleScopeContext rootStore]
    by (simp add: sample_rewrites del: processNode.simps)
  let ?pn4 = "processNode sampleEnv (Suc (Suc (Suc (Suc (Suc 0)))))"
  from sample_filtered_lowered obtain filtered st2
    where f: "?pn4
       (TransformListQueryNode sampleItems sampleQuantifierVariable
          (UnaryOperationQueryNode sampleItemNumberEquals NOT) [] 0 None
          (VariableQueryNode sampleQuantifierVariable))
       sampleScopeContext (rootStore\<lparr>nextVariable := Suc (Suc (nextVariable rootStore))\<rparr>)
     = Inr (filtered, st2)"
    by blast
  have n: "nextVariable rootStore = 0"
    by (simp add: rootStore_def newQueryContext_def emptyStore_def)
  have "processQuantifierFilter sampleEnv (processors sampleEnv (processors sampleEnv ?pn4))
          QEvery sampleItems sampleQuantifierVariable sampleItemNumberEquals sampleScopeContext
          rootStore
        = Inr (aql [code ''('',
                    parenthesizeObject
                      [aql [code ''FOR '', AQLVariableFragment (AQLVariable 0 (Some ''item''))],
                       aql [code ''IN '', filtered],
                       aql [code ''COLLECT WITH COUNT INTO '',
                            AQLVariableFragment (AQLVariable 1 (Some ''count''))],
                       aql [code ''return '',
                            AQLVariableFragment (AQLVariable 1 (Some ''count''))]],
                    code '' '', aql [code ''==''], code '' '', AQLBoundValue (JNumber 0),
                    code '')''],
               st2)"
    using quantifier_count_lowering [OF sample_slow(1), of ?pn4 sampleScopeContext rootStore] f n
    by (simp add: sample_rewrites del: processNode.simps)
  then have 4: "\<exists>filtered st2.
        processQuantifierFilter sampleEnv (processors sampleEnv (processors sampleEnv ?pn4))
          QEvery sampleItems sampleQuantifierVariable sampleItemNumberEquals sampleScopeContext
          rootStore
        = Inr (aql [code ''('',
                    parenthesizeObject
                      [aql [code ''FOR '', AQLVariableFragment (AQLVariable 0 (Some ''item''))],
                       aql [code ''IN '', filtered],
                       aql [code ''COLLECT WITH COUNT INTO '',
                            AQLVariableFragment (AQLVariable 1 (Some ''count''))],
                       aql [code ''return '',
                            AQLVariableFragment (AQLVariable 1 (Some ''count''))]],
                    code '' '', aql [code ''==''], code '' '', AQLBoundValue (JNumber 0),
                    code '')''],
               st2)"
    by blast
  from 1 2 3 4 show ?thesis
    by blast
qed

section \<open>Properties of the lowering of edge mutations\<close>

lemma getCollectionForRelation_Inr:
  assumes "getCollectionForRelation E rel accessType ctx st = Inr (c, st')"
  shows "st' = addCollectionAccess ctx (getCollectionNameForRelation E rel) accessType st"
  using assms
  by (auto simp: getCollectionForRelation_def liftE_def Let_def split: sum.splits)

lemma addCollectionAccess_sets:
  "collection \<in> set (sets (addCollectionAccess ctx collection READ st)
      (readAccessedCollections ctx))"
  "collection \<in> set (sets (addCollectionAccess ctx collection WRITE st)
      (writeAccessedCollections ctx))"
  "collection \<in> set (sets st r) \<Longrightarrow>
     collection \<in> set (sets (addCollectionAccess ctx other accessType st) r)"
  "readAccessedCollections ctx \<noteq> writeAccessedCollections ctx \<Longrightarrow>
     sets (addCollectionAccess ctx collection WRITE st) (readAccessedCollections ctx)
       = sets st (readAccessedCollections ctx)"
  "sets (addCollectionAccess ctx collection READ st) (readAccessedCollections ctx)
       = set_add (sets st (readAccessedCollections ctx)) collection"
  by (cases accessType; auto simp: addCollectionAccess_def set_add_def)+

lemma aql_variable_Inr:
  "aql_variable l st = Inr (v, st') \<longleftrightarrow>
     v = AQLVariableFragment (AQLVariable (nextVariable st) (Some l))
     \<and> st' = st\<lparr>nextVariable := Suc (nextVariable st)\<rparr>"
  by (auto simp: aql_variable_def newAQLVariable_def bindM_def returnM_def)

lemma optional_ids_Inr:
  assumes "(case idsNode of
              Some n \<Rightarrow> bindM (getFullIDsFromKeysNode E pn n t ctx) (\<lambda>ids. returnM (F ids))
            | None \<Rightarrow> returnM (aql [])) st = Inr (f, st')"
  shows "idsNode = None \<and> st' = st
         \<or> (\<exists>n ids. idsNode = Some n \<and> getFullIDsFromKeysNode E pn n t ctx st = Inr (ids, st'))"
  using assms by (cases idsNode) (auto elim!: bindM_Inr_elim)

lemmas sampleEdges =
  formatEdge_def getFullIDFromKeyNode_def getFullIDsFromKeysNode_def getCollectionForRelation_def
  aql_collection_def addCollectionAccess_def set_add_def aql_variable_def newAQLVariable_def
  bindM_def returnM_def liftE_def Let_def
  sampleEnv_def sampleSafeIdentifier_def sampleCollectionName_def sampleLower_def
  sampleRelation_def sampleEdge_def sampleDelivery_def
  rootContext_def rootStore_def emptyStore_def newQueryContext_def

lemma sampleRelation_name:
  "getCollectionNameForRelation sampleEnv sampleRelation = ''deliverys_handlingUnits''"
  by (simp add: sampleEdges)

lemma sampleEdge_formatted:
  "\<exists>f. formatEdge sampleEnv pn sampleRelation sampleEdge ctx st = Inr (f, st)"
  by (simp add: formatEdge_def getFullIDFromKeyNode_def bindM_def returnM_def sampleEdge_def)

lemma sampleRemoveEdges_lowered:
  "\<exists>frag st'. processRemoveEdges sampleEnv pn sampleRelation
      (Some (LiteralQueryNode (JArray [JString ''d1'']))) None rootContext rootStore
     = Inr (frag, st')"
  by (simp add: processRemoveEdges_def sampleEdges)

lemma sampleAddEdges_lowered:
  "\<exists>frag st'. processAddEdges sampleEnv pn sampleRelation [sampleEdge] rootContext rootStore
     = Inr (frag, st')"
  by (simp add: processAddEdges_def sampleEdges)

lemma sampleSetEdge_lowered:
  "\<exists>frag st'. processSetEdge sampleEnv pn sampleRelation sampleEdge sampleEdge rootContext rootStore
     = Inr (frag, st')"
  by (simp add: processSetEdge_def sampleEdges)

lemma rootContext_sets:
  "readAccessedCollections rootContext \<noteq> writeAccessedCollections rootContext"
  "sets rootStore (readAccessedCollections rootContext) = []"
  by (simp_all add: rootContext_def rootStore_def emptyStore_def newQueryContext_def)

text \<open>
  C10: when the lowering of a \<^verbatim>\<open>RemoveEdgesQueryNode\<close> returns, the store is the one after
  the lowering of the id nodes with the name of the edge collection of the relation
  added first to the set of read collections and then to the set of written
  collections of the context, so the name is in both. When the lowering of an
  \<^verbatim>\<open>AddEdgesQueryNode\<close> or a \<^verbatim>\<open>SetEdgeQueryNode\<close> returns, the store is the one after the
  formatting of the edges with the name added to the set of written collections only:
  the set of read collections is the one the formatting of the edges left.
\<close>

theorem edge_collection_access:
  "(\<forall>frag st'. processRemoveEdges E pn rel fromIDsNode toIDsNode ctx st = Inr (frag, st') \<longrightarrow>
      (\<exists>st1 st2.
         (fromIDsNode = None \<and> st1 = st\<lparr>nextVariable := Suc (Suc (Suc (nextVariable st)))\<rparr>
          \<or> (\<exists>n ids. fromIDsNode = Some n
                \<and> getFullIDsFromKeysNode E pn n (fromType rel) ctx
                     (st\<lparr>nextVariable := Suc (Suc (Suc (nextVariable st)))\<rparr>) = Inr (ids, st1)))
         \<and> (toIDsNode = None \<and> st2 = st1
            \<or> (\<exists>n ids. toIDsNode = Some n
                  \<and> getFullIDsFromKeysNode E pn n (toType rel) ctx st1 = Inr (ids, st2)))
         \<and> st' = addCollectionAccess ctx (getCollectionNameForRelation E rel) WRITE
                  (addCollectionAccess ctx (getCollectionNameForRelation E rel) READ st2))
      \<and> getCollectionNameForRelation E rel \<in> set (sets st' (readAccessedCollections ctx))
      \<and> getCollectionNameForRelation E rel \<in> set (sets st' (writeAccessedCollections ctx)))
   \<and> (\<forall>frag st'. processAddEdges E pn rel edges ctx st = Inr (frag, st') \<longrightarrow>
      (\<exists>edgeFrags st1.
         mapM (\<lambda>edge. formatEdge E pn rel edge ctx) edges
           (st\<lparr>nextVariable := Suc (nextVariable st)\<rparr>) = Inr (edgeFrags, st1)
         \<and> st' = addCollectionAccess ctx (getCollectionNameForRelation E rel) WRITE st1
         \<and> (readAccessedCollections ctx \<noteq> writeAccessedCollections ctx \<longrightarrow>
              sets st' (readAccessedCollections ctx) = sets st1 (readAccessedCollections ctx)))
      \<and> getCollectionNameForRelation E rel \<in> set (sets st' (writeAccessedCollections ctx)))
   \<and> (\<forall>frag st'. processSetEdge E pn rel existingEdge newEdge ctx st = Inr (frag, st') \<longrightarrow>
      (\<exists>upsert ins upd st1 st2 st3.
         formatEdge E pn rel existingEdge ctx (st\<lparr>nextVariable := Suc (nextVariable st)\<rparr>)
           = Inr (upsert, st1)
         \<and> formatEdge E pn rel newEdge ctx st1 = Inr (ins, st2)
         \<and> formatEdge E pn rel newEdge ctx st2 = Inr (upd, st3)
         \<and> st' = addCollectionAccess ctx (getCollectionNameForRelation E rel) WRITE st3
         \<and> (readAccessedCollections ctx \<noteq> writeAccessedCollections ctx \<longrightarrow>
              sets st' (readAccessedCollections ctx) = sets st3 (readAccessedCollections ctx)))
      \<and> getCollectionNameForRelation E rel \<in> set (sets st' (writeAccessedCollections ctx)))"
proof (intro conjI allI impI)
  fix frag st'
  assume r: "processRemoveEdges E pn rel fromIDsNode toIDsNode ctx st = Inr (frag, st')"
  let ?name = "getCollectionNameForRelation E rel"
  from r obtain f st1 t st2 rc st3 wc
    where f: "(case fromIDsNode of
              Some n \<Rightarrow> bindM (getFullIDsFromKeysNode E pn n (fromType rel) ctx)
                 (\<lambda>ids. returnM (aql [code ''FOR '',
                    AQLVariableFragment (AQLVariable (Suc (nextVariable st)) (Some ''from'')),
                    code '' IN '', ids]))
            | None \<Rightarrow> returnM (aql []))
            (st\<lparr>nextVariable := Suc (Suc (Suc (nextVariable st)))\<rparr>) = Inr (f, st1)"
      and t: "(case toIDsNode of
              Some n \<Rightarrow> bindM (getFullIDsFromKeysNode E pn n (toType rel) ctx)
                 (\<lambda>ids. returnM (aql [code ''FOR '',
                    AQLVariableFragment (AQLVariable (Suc (Suc (nextVariable st))) (Some ''to'')),
                    code '' IN '', ids]))
            | None \<Rightarrow> returnM (aql [])) st1 = Inr (t, st2)"
      and rd: "getCollectionForRelation E rel READ ctx st2 = Inr (rc, st3)"
      and wr: "getCollectionForRelation E rel WRITE ctx st3 = Inr (wc, st')"
    unfolding processRemoveEdges_def
    by (auto simp: aql_variable_Inr Let_def elim!: bindM_Inr_elim)
  from getCollectionForRelation_Inr [OF rd] getCollectionForRelation_Inr [OF wr]
  have st': "st' = addCollectionAccess ctx ?name WRITE (addCollectionAccess ctx ?name READ st2)"
    by simp
  from optional_ids_Inr [OF f] optional_ids_Inr [OF t] st'
  show "\<exists>st1 st2.
         (fromIDsNode = None \<and> st1 = st\<lparr>nextVariable := Suc (Suc (Suc (nextVariable st)))\<rparr>
          \<or> (\<exists>n ids. fromIDsNode = Some n
                \<and> getFullIDsFromKeysNode E pn n (fromType rel) ctx
                     (st\<lparr>nextVariable := Suc (Suc (Suc (nextVariable st)))\<rparr>) = Inr (ids, st1)))
         \<and> (toIDsNode = None \<and> st2 = st1
            \<or> (\<exists>n ids. toIDsNode = Some n
                  \<and> getFullIDsFromKeysNode E pn n (toType rel) ctx st1 = Inr (ids, st2)))
         \<and> st' = addCollectionAccess ctx ?name WRITE (addCollectionAccess ctx ?name READ st2)"
    by blast
  show "?name \<in> set (sets st' (readAccessedCollections ctx))"
    unfolding st' by (intro addCollectionAccess_sets)
  show "?name \<in> set (sets st' (writeAccessedCollections ctx))"
    unfolding st' by (intro addCollectionAccess_sets)
next
  fix frag st'
  assume r: "processAddEdges E pn rel edges ctx st = Inr (frag, st')"
  let ?name = "getCollectionNameForRelation E rel"
  from r obtain edgeFrags st1 wc
    where e: "mapM (\<lambda>edge. formatEdge E pn rel edge ctx) edges
           (st\<lparr>nextVariable := Suc (nextVariable st)\<rparr>) = Inr (edgeFrags, st1)"
      and wr: "getCollectionForRelation E rel WRITE ctx st1 = Inr (wc, st')"
    unfolding processAddEdges_def
    by (auto simp: aql_variable_Inr elim!: bindM_Inr_elim)
  note st' = getCollectionForRelation_Inr [OF wr]
  from e st' show "\<exists>edgeFrags st1.
         mapM (\<lambda>edge. formatEdge E pn rel edge ctx) edges
           (st\<lparr>nextVariable := Suc (nextVariable st)\<rparr>) = Inr (edgeFrags, st1)
         \<and> st' = addCollectionAccess ctx ?name WRITE st1
         \<and> (readAccessedCollections ctx \<noteq> writeAccessedCollections ctx \<longrightarrow>
              sets st' (readAccessedCollections ctx) = sets st1 (readAccessedCollections ctx))"
    by (auto simp: addCollectionAccess_sets)
  show "?name \<in> set (sets st' (writeAccessedCollections ctx))"
    unfolding st' by (intro addCollectionAccess_sets)
next
  fix frag st'
  assume r: "processSetEdge E pn rel existingEdge newEdge ctx st = Inr (frag, st')"
  let ?name = "getCollectionNameForRelation E rel"
  from r obtain upsert ins upd st1 st2 st3 wc
    where u: "formatEdge E pn rel existingEdge ctx (st\<lparr>nextVariable := Suc (nextVariable st)\<rparr>)
           = Inr (upsert, st1)"
      and i: "formatEdge E pn rel newEdge ctx st1 = Inr (ins, st2)"
      and d: "formatEdge E pn rel newEdge ctx st2 = Inr (upd, st3)"
      and wr: "getCollectionForRelation E rel WRITE ctx st3 = Inr (wc, st')"
    unfolding processSetEdge_def
    by (auto simp: aql_variable_Inr elim!: bindM_Inr_elim)
  note st' = getCollectionForRelation_Inr [OF wr]
  from u i d st' show "\<exists>upsert ins upd st1 st2 st3.
         formatEdge E pn rel existingEdge ctx (st\<lparr>nextVariable := Suc (nextVariable st)\<rparr>)
           = Inr (upsert, st1)
         \<and> formatEdge E pn rel newEdge ctx st1 = Inr (ins, st2)
         \<and> formatEdge E pn rel newEdge ctx st2 = Inr (upd, st3)
         \<and> st' = addCollectionAccess ctx ?name WRITE st3
         \<and> (readAccessedCollections ctx \<noteq> writeAccessedCollections ctx \<longrightarrow>
              sets st' (readAccessedCollections ctx) = sets st3 (readAccessedCollections ctx))"
    by (auto simp: addCollectionAccess_sets)
  show "?name \<in> set (sets st' (writeAccessedCollections ctx))"
    unfolding st' by (intro addCollectionAccess_sets)
qed

theorem edge_collection_access_witness:
  "(\<exists>frag st'. processRemoveEdges sampleEnv (processNode sampleEnv (Suc 0)) sampleRelation
        (Some (LiteralQueryNode (JArray [JString ''d1'']))) None rootContext rootStore
       = Inr (frag, st')
      \<and> ''deliverys_handlingUnits'' \<in> set (sets st' (readAccessedCollections rootContext))
      \<and> ''deliverys_handlingUnits'' \<in> set (sets st' (writeAccessedCollections rootContext)))
   \<and> (\<exists>frag st'. processAddEdges sampleEnv (processNode sampleEnv (Suc 0)) sampleRelation
        [sampleEdge] rootContext rootStore = Inr (frag, st')
      \<and> ''deliverys_handlingUnits'' \<in> set (sets st' (writeAccessedCollections rootContext))
      \<and> sets st' (readAccessedCollections rootContext) = [])
   \<and> (\<exists>frag st'. processSetEdge sampleEnv (processNode sampleEnv (Suc 0)) sampleRelation
        sampleEdge sampleEdge rootContext rootStore = Inr (frag, st')
      \<and> ''deliverys_handlingUnits'' \<in> set (sets st' (writeAccessedCollections rootContext))
      \<and> sets st' (readAccessedCollections rootContext) = [])"
proof -
  let ?pn = "processNode sampleEnv (Suc 0)"
  let ?from = "Some (LiteralQueryNode (JArray [JString ''d1'']))"
  note access = edge_collection_access [where E = sampleEnv and pn = ?pn and rel = sampleRelation
      and ctx = rootContext and st = rootStore and fromIDsNode = ?from and toIDsNode = None
      and edges = "[sampleEdge]" and existingEdge = sampleEdge and newEdge = sampleEdge,
      unfolded sampleRelation_name]
  have 1: "\<exists>frag st'. processRemoveEdges sampleEnv ?pn sampleRelation ?from None rootContext
        rootStore = Inr (frag, st')
      \<and> ''deliverys_handlingUnits'' \<in> set (sets st' (readAccessedCollections rootContext))
      \<and> ''deliverys_handlingUnits'' \<in> set (sets st' (writeAccessedCollections rootContext))"
    using access sampleRemoveEdges_lowered [of ?pn] by blast
  have 2: "\<exists>frag st'. processAddEdges sampleEnv ?pn sampleRelation [sampleEdge] rootContext
        rootStore = Inr (frag, st')
      \<and> ''deliverys_handlingUnits'' \<in> set (sets st' (writeAccessedCollections rootContext))
      \<and> sets st' (readAccessedCollections rootContext) = []"
  proof -
    from sampleAddEdges_lowered [of ?pn] obtain frag st'
      where r: "processAddEdges sampleEnv ?pn sampleRelation [sampleEdge] rootContext rootStore
        = Inr (frag, st')"
      by blast
    with access obtain edgeFrags st1
      where e: "mapM (\<lambda>edge. formatEdge sampleEnv ?pn sampleRelation edge rootContext) [sampleEdge]
           (rootStore\<lparr>nextVariable := Suc (nextVariable rootStore)\<rparr>) = Inr (edgeFrags, st1)"
        and rd: "sets st' (readAccessedCollections rootContext)
           = sets st1 (readAccessedCollections rootContext)"
        and wr: "''deliverys_handlingUnits'' \<in> set (sets st' (writeAccessedCollections rootContext))"
      using rootContext_sets(1) by blast
    from sampleEdge_formatted [of ?pn rootContext
        "rootStore\<lparr>nextVariable := Suc (nextVariable rootStore)\<rparr>"] e
    have "st1 = rootStore\<lparr>nextVariable := Suc (nextVariable rootStore)\<rparr>"
      by (auto simp: bindM_def returnM_def simp del: processNode.simps)
    with rd have "sets st' (readAccessedCollections rootContext) = []"
      by (simp add: rootContext_sets(2))
    with r wr show ?thesis
      by blast
  qed
  have 3: "\<exists>frag st'. processSetEdge sampleEnv ?pn sampleRelation sampleEdge sampleEdge rootContext
        rootStore = Inr (frag, st')
      \<and> ''deliverys_handlingUnits'' \<in> set (sets st' (writeAccessedCollections rootContext))
      \<and> sets st' (readAccessedCollections rootContext) = []"
  proof -
    from sampleSetEdge_lowered [of ?pn] obtain frag st'
      where r: "processSetEdge sampleEnv ?pn sampleRelation sampleEdge sampleEdge rootContext
        rootStore = Inr (frag, st')"
      by blast
    with access obtain upsert ins upd st1 st2 st3
      where u: "formatEdge sampleEnv ?pn sampleRelation sampleEdge rootContext
             (rootStore\<lparr>nextVariable := Suc (nextVariable rootStore)\<rparr>) = Inr (upsert, st1)"
        and i: "formatEdge sampleEnv ?pn sampleRelation sampleEdge rootContext st1 = Inr (ins, st2)"
        and d: "formatEdge sampleEnv ?pn sampleRelation sampleEdge rootContext st2 = Inr (upd, st3)"
        and rd: "sets st' (readAccessedCollections rootContext)
           = sets st3 (readAccessedCollections rootContext)"
        and wr: "''deliverys_handlingUnits'' \<in> set (sets st' (writeAccessedCollections rootContext))"
      using rootContext_sets(1) by blast
    from sampleEdge_formatted [of ?pn rootContext] u i d
    have "st3 = rootStore\<lparr>nextVariable := Suc (nextVariable rootStore)\<rparr>"
      by (metis Inr_inject prod.inject)
    with rd have "sets st' (readAccessedCollections rootContext) = []"
      by (simp add: rootContext_sets(2))
    with r wr show ?thesis
      by blast
  qed
  from 1 2 3 show ?thesis
    by blast
qed

section \<open>Properties of the time-to-live queries\<close>

text \<open>
  C9: for a TTL type with root entity type, non-empty path and field type, the filter of
  \<open>getTTLFilter\<close> is the conjunction of \<^verbatim>\<open>dateField < deleteFrom\<close> and \<^verbatim>\<open>dateField > null\<close>,
  where \<open>dateField\<close> is the filter value node of the field path on the item variable.
  An entity satisfies it exactly when the value of its date field is less than
  \<open>deleteFrom\<close> and null is less than that value. The database's comparison is strict, so
  null is not less than null, and an entity whose date field is null does not satisfy
  the filter, whatever \<open>deleteFrom\<close> and the item variable are. The cleanup query, when it
  is built, deletes the entities that satisfy this filter, and both counts of the TTL
  info query count the entities that satisfy it. The queries are built unless the date
  cannot be computed, which happens only for a local-date field when the time library
  does not know the zone \<^verbatim>\<open>Etc/GMT+12\<close>.
\<close>

theorem ttl_filter_excludes_null:
  assumes "ttl_rootEntityType ttlType = Some rootEntityType"
    and "ttl_path ttlType = Some path"
    and "path \<noteq> []"
    and "ttl_fieldType ttlType = Some fieldType"
    and "\<not> lt JNull JNull"
  shows
  "getTTLFilter G fieldType path deleteFrom listItemVar
     = BinaryOperationQueryNode
         (BinaryOperationQueryNode (ttlDateField G fieldType path listItemVar)
            LESS_THAN (LiteralQueryNode (JString deleteFrom)))
         AND
         (BinaryOperationQueryNode (ttlDateField G fieldType path listItemVar)
            GREATER_THAN NullQueryNode)
   \<and> satisfiesFilter lt valueOf (getTTLFilter G fieldType path deleteFrom listItemVar)
       = (lt (nodeValue valueOf (ttlDateField G fieldType path listItemVar)) (JString deleteFrom)
          \<and> lt JNull (nodeValue valueOf (ttlDateField G fieldType path listItemVar)))
   \<and> (nodeValue valueOf (ttlDateField G fieldType path listItemVar) = JNull
        \<longrightarrow> \<not> satisfiesFilter lt valueOf
                (getTTLFilter G fieldType path deleteFrom listItemVar))
   \<and> getQueryNodeForTTLType E G ttlType executionOptions nextId
       = (case calcDeleteFrom G (ttl_expireAfterDays ttlType) (Some fieldType) of
            Inl e \<Rightarrow> Inl e
          | Inr cleanupFrom \<Rightarrow>
              Inr (CountQueryNode
                     (generateDeleteAllQueryNode G rootEntityType
                        (TransformListQueryNode (EntitiesQueryNode rootEntityType)
                           (Variable nextId (Some (decapitalize E (type_name rootEntityType))))
                           (getTTLFilter G fieldType path cleanupFrom
                              (Variable nextId
                                 (Some (decapitalize E (type_name rootEntityType)))))
                           [] 0 (timeToLiveCleanupLimit executionOptions)
                           (VariableQueryNode
                              (Variable nextId
                                 (Some (decapitalize E (type_name rootEntityType))))))),
                   Suc nextId))
   \<and> getTTLInfoQueryNode G ttlType overdueDelta nextId
       = (case calcDeleteFrom G (ttl_expireAfterDays ttlType) (Some fieldType) of
            Inl e \<Rightarrow> Inl e
          | Inr expiredFrom \<Rightarrow>
          (case calcDeleteFrom G (ttl_expireAfterDays ttlType + overdueDelta) (Some fieldType) of
            Inl e \<Rightarrow> Inl e
          | Inr overdueFrom \<Rightarrow>
              Inr (ObjectQueryNode
                     [(''typeName'',
                         LiteralQueryNode (JString (input_typeName (ttl_input ttlType)))),
                      (''path'',
                         LiteralQueryNode (JString (input_dateField (ttl_input ttlType)))),
                      (''path'',
                         LiteralQueryNode (JNumber (input_expireAfterDays (ttl_input ttlType)))),
                      (''expiredObjectCount'',
                         CountQueryNode
                           (TransformListQueryNode (EntitiesQueryNode rootEntityType)
                              (Variable nextId None)
                              (getTTLFilter G fieldType path expiredFrom (Variable nextId None))
                              [] 0 None (VariableQueryNode (Variable nextId None)))),
                      (''overdueObjectCount'',
                         CountQueryNode
                           (TransformListQueryNode (EntitiesQueryNode rootEntityType)
                              (Variable (Suc nextId) None)
                              (getTTLFilter G fieldType path overdueFrom
                                 (Variable (Suc nextId) None))
                              [] 0 None (VariableQueryNode (Variable (Suc nextId) None))))],
                   Suc (Suc nextId))))
   \<and> calcDeleteFrom G days (Some fieldType)
       = (if scalar_name fieldType = GraphQLLocalDate_name G
          then (case ZoneId_of G ''Etc/GMT+12'' of
                  None \<Rightarrow> Inl (UnsupportedZoneId ''Etc/GMT+12'')
                | Some zone \<Rightarrow> Inr (nowMinusDays G zone days))
          else Inr (nowMinusDays G ZoneId_UTC days))"
proof -
  have filter: "getTTLFilter G fieldType path deleteFrom listItemVar
     = BinaryOperationQueryNode
         (BinaryOperationQueryNode (ttlDateField G fieldType path listItemVar)
            LESS_THAN (LiteralQueryNode (JString deleteFrom)))
         AND
         (BinaryOperationQueryNode (ttlDateField G fieldType path listItemVar)
            GREATER_THAN NullQueryNode)"
    by (simp add: getTTLFilter_def ttlDateField_def Let_def)
  have sat: "satisfiesFilter lt valueOf (getTTLFilter G fieldType path deleteFrom listItemVar)
       = (lt (nodeValue valueOf (ttlDateField G fieldType path listItemVar)) (JString deleteFrom)
          \<and> lt JNull (nodeValue valueOf (ttlDateField G fieldType path listItemVar)))"
    by (simp add: filter)
  have excluded: "\<not> satisfiesFilter lt valueOf
                (getTTLFilter G fieldType path deleteFrom listItemVar)"
    if "nodeValue valueOf (ttlDateField G fieldType path listItemVar) = JNull"
    using that assms(5) by (simp add: sat)
  have cleanup: "getQueryNodeForTTLType E G ttlType executionOptions nextId
       = (case calcDeleteFrom G (ttl_expireAfterDays ttlType) (Some fieldType) of
            Inl e \<Rightarrow> Inl e
          | Inr cleanupFrom \<Rightarrow>
              Inr (CountQueryNode
                     (generateDeleteAllQueryNode G rootEntityType
                        (TransformListQueryNode (EntitiesQueryNode rootEntityType)
                           (Variable nextId (Some (decapitalize E (type_name rootEntityType))))
                           (getTTLFilter G fieldType path cleanupFrom
                              (Variable nextId
                                 (Some (decapitalize E (type_name rootEntityType)))))
                           [] 0 (timeToLiveCleanupLimit executionOptions)
                           (VariableQueryNode
                              (Variable nextId
                                 (Some (decapitalize E (type_name rootEntityType))))))),
                   Suc nextId))"
    using assms(1-4)
    by (simp add: getQueryNodeForTTLType_def newTransformListQueryNode_def Let_def
          split: sum.splits)
  have info: "getTTLInfoQueryNode G ttlType overdueDelta nextId
       = (case calcDeleteFrom G (ttl_expireAfterDays ttlType) (Some fieldType) of
            Inl e \<Rightarrow> Inl e
          | Inr expiredFrom \<Rightarrow>
          (case calcDeleteFrom G (ttl_expireAfterDays ttlType + overdueDelta) (Some fieldType) of
            Inl e \<Rightarrow> Inl e
          | Inr overdueFrom \<Rightarrow>
              Inr (ObjectQueryNode
                     [(''typeName'',
                         LiteralQueryNode (JString (input_typeName (ttl_input ttlType)))),
                      (''path'',
                         LiteralQueryNode (JString (input_dateField (ttl_input ttlType)))),
                      (''path'',
                         LiteralQueryNode (JNumber (input_expireAfterDays (ttl_input ttlType)))),
                      (''expiredObjectCount'',
                         CountQueryNode
                           (TransformListQueryNode (EntitiesQueryNode rootEntityType)
                              (Variable nextId None)
                              (getTTLFilter G fieldType path expiredFrom (Variable nextId None))
                              [] 0 None (VariableQueryNode (Variable nextId None)))),
                      (''overdueObjectCount'',
                         CountQueryNode
                           (TransformListQueryNode (EntitiesQueryNode rootEntityType)
                              (Variable (Suc nextId) None)
                              (getTTLFilter G fieldType path overdueFrom
                                 (Variable (Suc nextId) None))
                              [] 0 None (VariableQueryNode (Variable (Suc nextId) None))))],
                   Suc (Suc nextId))))"
    using assms(1-4)
    by (simp add: getTTLInfoQueryNode_def newTransformListQueryNode_def Let_def
          split: sum.splits)
  have date: "calcDeleteFrom G days (Some fieldType)
       = (if scalar_name fieldType = GraphQLLocalDate_name G
          then (case ZoneId_of G ''Etc/GMT+12'' of
                  None \<Rightarrow> Inl (UnsupportedZoneId ''Etc/GMT+12'')
                | Some zone \<Rightarrow> Inr (nowMinusDays G zone days))
          else Inr (nowMinusDays G ZoneId_UTC days))"
    by (simp add: calcDeleteFrom_def)
  from filter sat excluded cleanup info date show ?thesis
    by blast
qed

text \<open>
  The sample TTL type has a date-time field. Its cleanup query is built and filters by
  \<^verbatim>\<open>createdAt < deleteFrom && createdAt > null\<close>; the entity without a date does not satisfy
  the filter, the entity with the old date does, and \<^verbatim>\<open>createdAt < deleteFrom\<close> alone
  would hold on the entity without a date. For the sample type with a local-date field
  no query is built without the time-zone database, and the query is built with it.
\<close>

theorem ttl_filter_excludes_null_witness:
  "getQueryNodeForTTLType sampleEnv sampleTTLEnv sampleTTLType (ExecutionOptions (Some 100)) 0
     = Inr (CountQueryNode
              (DeleteEntitiesQueryNode sampleDelivery
                 (TransformListQueryNode (EntitiesQueryNode sampleDelivery)
                    (Variable 0 (Some ''delivery''))
                    (BinaryOperationQueryNode
                       (BinaryOperationQueryNode
                          (sampleCreatedAt (Variable 0 (Some ''delivery'')))
                          LESS_THAN (LiteralQueryNode (JString ''2026-10-04T00:00:00Z'')))
                       AND
                       (BinaryOperationQueryNode
                          (sampleCreatedAt (Variable 0 (Some ''delivery'')))
                          GREATER_THAN NullQueryNode))
                    [] 0 (Some 100) (VariableQueryNode (Variable 0 (Some ''delivery''))))),
            Suc 0)
   \<and> \<not> satisfiesFilter sampleLess sampleEntityWithoutDate
         (getTTLFilter sampleTTLEnv (ScalarType ''DateTime'') [Field ''createdAt'']
            ''2026-10-04T00:00:00Z'' (Variable 0 (Some ''delivery'')))
   \<and> satisfiesFilter sampleLess (sampleEntityWithOldDate (Variable 0 (Some ''delivery'')))
         (getTTLFilter sampleTTLEnv (ScalarType ''DateTime'') [Field ''createdAt'']
            ''2026-10-04T00:00:00Z'' (Variable 0 (Some ''delivery'')))
   \<and> satisfiesFilter sampleLess sampleEntityWithoutDate
         (BinaryOperationQueryNode
            (sampleCreatedAt (Variable 0 (Some ''delivery'')))
            LESS_THAN (LiteralQueryNode (JString ''2026-10-04T00:00:00Z'')))
   \<and> getQueryNodeForTTLType sampleEnv sampleTTLEnv sampleLocalDateTTLType
         (ExecutionOptions (Some 100)) 0
       = Inl (UnsupportedZoneId ''Etc/GMT+12'')
   \<and> getTTLInfoQueryNode sampleTTLEnv sampleLocalDateTTLType 7 0
       = Inl (UnsupportedZoneId ''Etc/GMT+12'')
   \<and> getQueryNodeForTTLType sampleEnv sampleTTLEnvWithZones sampleLocalDateTTLType
         (ExecutionOptions None) 0
       = Inr (CountQueryNode
                (DeleteEntitiesQueryNode sampleDelivery
                   (TransformListQueryNode (EntitiesQueryNode sampleDelivery)
                      (Variable 0 (Some ''delivery''))
                      (getTTLFilter sampleTTLEnvWithZones (ScalarType ''LocalDate'')
                         [Field ''bestBefore''] ''2026-10-03T12:00:00Z''
                         (Variable 0 (Some ''delivery'')))
                      [] 0 None (VariableQueryNode (Variable 0 (Some ''delivery''))))),
              Suc 0)"
proof -
  have strict: "\<not> sampleLess JNull JNull"
    by simp
  have name: "decapitalize sampleEnv (type_name sampleDelivery) = ''delivery''"
    by (simp add: sampleDelivery_def decapitalize_def sampleEnv_def sampleLower_def)
  have valid: "ttl_rootEntityType sampleTTLType = Some sampleDelivery"
    "ttl_path sampleTTLType = Some [Field ''createdAt'']" "[Field ''createdAt''] \<noteq> []"
    "ttl_fieldType sampleTTLType = Some (ScalarType ''DateTime'')"
    by (simp_all add: sampleTTLType_def)
  have validLocal: "ttl_rootEntityType sampleLocalDateTTLType = Some sampleDelivery"
    "ttl_path sampleLocalDateTTLType = Some [Field ''bestBefore'']" "[Field ''bestBefore''] \<noteq> []"
    "ttl_fieldType sampleLocalDateTTLType = Some (ScalarType ''LocalDate'')"
    by (simp_all add: sampleLocalDateTTLType_def)
  have dateField: "ttlDateField sampleTTLEnv (ScalarType ''DateTime'') [Field ''createdAt'']
        (Variable 0 (Some ''delivery'')) = sampleCreatedAt (Variable 0 (Some ''delivery''))"
    by (simp add: ttlDateField_def sampleTTLEnv_def sampleCreatedAt_def)
  note withoutDate = ttl_filter_excludes_null [where lt = sampleLess and ttlType = sampleTTLType and rootEntityType = sampleDelivery
      and path = "[Field ''createdAt'']" and fieldType = "ScalarType ''DateTime''"
      and G = sampleTTLEnv and E = sampleEnv and valueOf = sampleEntityWithoutDate
      and deleteFrom = "''2026-10-04T00:00:00Z''" and listItemVar = "Variable 0 (Some ''delivery'')"
      and executionOptions = "ExecutionOptions (Some 100)" and nextId = 0 and overdueDelta = 7
      and days = 30, OF valid strict]
  note withOldDate = ttl_filter_excludes_null [where lt = sampleLess and ttlType = sampleTTLType and rootEntityType = sampleDelivery
      and path = "[Field ''createdAt'']" and fieldType = "ScalarType ''DateTime''"
      and G = sampleTTLEnv and E = sampleEnv
      and valueOf = "sampleEntityWithOldDate (Variable 0 (Some ''delivery''))"
      and deleteFrom = "''2026-10-04T00:00:00Z''" and listItemVar = "Variable 0 (Some ''delivery'')"
      and executionOptions = "ExecutionOptions (Some 100)" and nextId = 0 and overdueDelta = 7
      and days = 30, OF valid strict]
  note localDate = ttl_filter_excludes_null [where lt = sampleLess and ttlType = sampleLocalDateTTLType and rootEntityType = sampleDelivery
      and path = "[Field ''bestBefore'']" and fieldType = "ScalarType ''LocalDate''"
      and G = sampleTTLEnv and E = sampleEnv and valueOf = sampleEntityWithoutDate
      and deleteFrom = "''2026-10-04T00:00:00Z''" and listItemVar = "Variable 0 (Some ''delivery'')"
      and executionOptions = "ExecutionOptions (Some 100)" and nextId = 0 and overdueDelta = 7
      and days = 30, OF validLocal strict]
  note localDateWithZones = ttl_filter_excludes_null [where lt = sampleLess and ttlType = sampleLocalDateTTLType and rootEntityType = sampleDelivery
      and path = "[Field ''bestBefore'']" and fieldType = "ScalarType ''LocalDate''"
      and G = sampleTTLEnvWithZones and E = sampleEnv and valueOf = sampleEntityWithoutDate
      and deleteFrom = "''2026-10-03T12:00:00Z''" and listItemVar = "Variable 0 (Some ''delivery'')"
      and executionOptions = "ExecutionOptions None" and nextId = 0 and overdueDelta = 7
      and days = 30, OF validLocal strict]
  have days: "ttl_expireAfterDays sampleTTLType = 30"
    "ttl_expireAfterDays sampleLocalDateTTLType = 30"
    by (simp_all add: sampleTTLType_def sampleLocalDateTTLType_def)
  have date: "calcDeleteFrom sampleTTLEnv 30 (Some (ScalarType ''DateTime''))
      = Inr ''2026-10-04T00:00:00Z''"
    using withoutDate by (simp add: sampleTTLEnv_def)
  have noDate: "calcDeleteFrom sampleTTLEnv 30 (Some (ScalarType ''LocalDate''))
      = Inl (UnsupportedZoneId ''Etc/GMT+12'')"
    using localDate by (simp add: sampleTTLEnv_def sampleZoneIdOf_def)
  have zoneDate: "calcDeleteFrom sampleTTLEnvWithZones 30 (Some (ScalarType ''LocalDate''))
      = Inr ''2026-10-03T12:00:00Z''"
    using localDateWithZones by (simp add: sampleTTLEnvWithZones_def)
  have 1: "getQueryNodeForTTLType sampleEnv sampleTTLEnv sampleTTLType
        (ExecutionOptions (Some 100)) 0
     = Inr (CountQueryNode
              (DeleteEntitiesQueryNode sampleDelivery
                 (TransformListQueryNode (EntitiesQueryNode sampleDelivery)
                    (Variable 0 (Some ''delivery''))
                    (BinaryOperationQueryNode
                       (BinaryOperationQueryNode
                          (sampleCreatedAt (Variable 0 (Some ''delivery'')))
                          LESS_THAN (LiteralQueryNode (JString ''2026-10-04T00:00:00Z'')))
                       AND
                       (BinaryOperationQueryNode
                          (sampleCreatedAt (Variable 0 (Some ''delivery'')))
                          GREATER_THAN NullQueryNode))
                    [] 0 (Some 100) (VariableQueryNode (Variable 0 (Some ''delivery''))))),
            Suc 0)"
    using withoutDate
    by (simp add: days date name dateField) (simp add: sampleTTLEnv_def)
  have 2: "\<not> satisfiesFilter sampleLess sampleEntityWithoutDate
         (getTTLFilter sampleTTLEnv (ScalarType ''DateTime'') [Field ''createdAt'']
            ''2026-10-04T00:00:00Z'' (Variable 0 (Some ''delivery'')))"
    using withoutDate
    by (simp add: dateField sampleCreatedAt_def sampleEntityWithoutDate_def)
  have 3: "satisfiesFilter sampleLess (sampleEntityWithOldDate (Variable 0 (Some ''delivery'')))
         (getTTLFilter sampleTTLEnv (ScalarType ''DateTime'') [Field ''createdAt'']
            ''2026-10-04T00:00:00Z'' (Variable 0 (Some ''delivery'')))"
    using withOldDate
    by (simp add: dateField sampleCreatedAt_def sampleEntityWithOldDate_def)
  have 4: "satisfiesFilter sampleLess sampleEntityWithoutDate
         (BinaryOperationQueryNode
            (sampleCreatedAt (Variable 0 (Some ''delivery'')))
            LESS_THAN (LiteralQueryNode (JString ''2026-10-04T00:00:00Z'')))"
    by (simp add: sampleCreatedAt_def sampleEntityWithoutDate_def)
  have 5: "getQueryNodeForTTLType sampleEnv sampleTTLEnv sampleLocalDateTTLType
         (ExecutionOptions (Some 100)) 0
       = Inl (UnsupportedZoneId ''Etc/GMT+12'')"
    using localDate by (simp add: days noDate)
  have 6: "getTTLInfoQueryNode sampleTTLEnv sampleLocalDateTTLType 7 0
       = Inl (UnsupportedZoneId ''Etc/GMT+12'')"
    using localDate by (simp add: days noDate)
  have 7: "getQueryNodeForTTLType sampleEnv sampleTTLEnvWithZones sampleLocalDateTTLType
         (ExecutionOptions None) 0
       = Inr (CountQueryNode
                (DeleteEntitiesQueryNode sampleDelivery
                   (TransformListQueryNode (EntitiesQueryNode sampleDelivery)
                      (Variable 0 (Some ''delivery''))
                      (getTTLFilter sampleTTLEnvWithZones (ScalarType ''LocalDate'')
                         [Field ''bestBefore''] ''2026-10-03T12:00:00Z''
                         (Variable 0 (Some ''delivery'')))
                      [] 0 None (VariableQueryNode (Variable 0 (Some ''delivery''))))),
              Suc 0)"
    using localDateWithZones
    by (simp add: days zoneDate name) (simp add: sampleTTLEnvWithZones_def)
  from 1 2 3 4 5 6 7 show ?thesis
    by blast
qed

section \<open>Fuel only decides whether a result is found\<close>

text \<open>
  Every handler returns the same result when the function it calls for the nested nodes
  is replaced by one that extends it. So a result of \<open>processNode\<close> stays the same with
  any larger amount of fuel.
\<close>

lemma extendsD: "extends pn pn' \<Longrightarrow> pn node ctx st = Inr r \<Longrightarrow> pn' node ctx st = Inr r"
  unfolding extends_def by blast

lemma bindM_Inr_intro:
  "m st = Inr (x, st1) \<Longrightarrow> f x st1 = Inr r \<Longrightarrow> bindM m f st = Inr r"
  by (simp add: bindM_def)

lemma mapM_extends:
  assumes "\<And>x st r. f x st = Inr r \<Longrightarrow> g x st = Inr r"
  shows "mapM f xs st = Inr r \<Longrightarrow> mapM g xs st = Inr r"
proof (induction xs arbitrary: st r)
  case Nil
  then show ?case by simp
next
  case (Cons x xs)
  from Cons.prems show ?case
    by (auto elim!: bindM_Inr_elim intro!: bindM_Inr_intro dest: assms Cons.IH)
qed

lemma introduceAssignments_extends:
  assumes "extends pn pn'"
  shows "introduceAssignments pn as ctx st = Inr res \<Longrightarrow> introduceAssignments pn' as ctx st = Inr res"
proof (induction as arbitrary: ctx st res)
  case Nil
  then show ?case by simp
next
  case (Cons a as)
  obtain v valueNode resultNode where a: "a = (v, valueNode, resultNode)"
    by (cases a) auto
  from Cons.prems show ?case
    unfolding a introduceAssignments.simps
    by (auto elim!: bindM_Inr_elim intro!: bindM_Inr_intro dest: extendsD [OF assms] Cons.IH)
qed

lemma createAQLCompoundQuery_extends:
  assumes "extends pn pn'"
  shows "createAQLCompoundQuery E pn node resultVariable resultValidator ctx st = Inr res
     \<Longrightarrow> createAQLCompoundQuery E pn' node resultVariable resultValidator ctx st = Inr res"
  unfolding createAQLCompoundQuery_def
  by (auto simp: Let_def split_def elim!: bindM_Inr_elim intro!: bindM_Inr_intro
        dest: extendsD [OF assms] introduceAssignments_extends [OF assms])

lemma addPreExecuteQuery_extends:
  assumes "extends pn pn'"
  shows "addPreExecuteQuery E pn this query resultVariable resultValidator st = Inr res
     \<Longrightarrow> addPreExecuteQuery E pn' this query resultVariable resultValidator st = Inr res"
  unfolding addPreExecuteQuery_def
  by (auto simp: Let_def split_def elim!: bindM_Inr_elim intro!: bindM_Inr_intro
        dest: createAQLCompoundQuery_extends [OF assms] split: option.splits)

lemma addPreExecuteQueries_extends:
  assumes "extends pn pn'"
  shows "addPreExecuteQueries E pn qs ctx st = Inr res
     \<Longrightarrow> addPreExecuteQueries E pn' qs ctx st = Inr res"
proof (induction qs arbitrary: ctx st res)
  case Nil
  then show ?case by simp
next
  case (Cons q qs)
  obtain query resultVariable resultValidator where q: "q = (query, resultVariable, resultValidator)"
    by (cases q) auto
  from Cons.prems show ?case
    unfolding q addPreExecuteQueries.simps
    by (auto elim!: bindM_Inr_elim intro!: bindM_Inr_intro
          dest: addPreExecuteQuery_extends [OF assms] Cons.IH)
qed

lemma processWithPreExecution_extends:
  assumes "extends pn pn'"
  shows "processWithPreExecution E pn preExecs resultNode ctx st = Inr res
     \<Longrightarrow> processWithPreExecution E pn' preExecs resultNode ctx st = Inr res"
  unfolding processWithPreExecution_def
  by (auto elim!: bindM_Inr_elim intro!: bindM_Inr_intro
        dest: extendsD [OF assms] addPreExecuteQueries_extends [OF assms])

lemma getFullIDFromKeyNode_extends:
  assumes "extends pn pn'"
  shows "getFullIDFromKeyNode E pn node t ctx st = Inr res
     \<Longrightarrow> getFullIDFromKeyNode E pn' node t ctx st = Inr res"
  unfolding getFullIDFromKeyNode_def
  by (cases node rule: literalString.cases)
     (auto elim!: bindM_Inr_elim intro!: bindM_Inr_intro dest: extendsD [OF assms])

lemma mapM_pn_extends:
  assumes "extends pn pn'"
  shows "mapM (\<lambda>node. pn node ctx) nodes st = Inr res
     \<Longrightarrow> mapM (\<lambda>node. pn' node ctx) nodes st = Inr res"
  by (erule mapM_extends [rotated]) (rule extendsD [OF assms])

lemma getSimpleFollowEdgeFragment_extends:
  assumes "extends pn pn'"
  shows "getSimpleFollowEdgeFragment E pn relationSide sourceEntityNode ctx st = Inr res
     \<Longrightarrow> getSimpleFollowEdgeFragment E pn' relationSide sourceEntityNode ctx st = Inr res"
  unfolding getSimpleFollowEdgeFragment_def
  by (auto simp: Let_def elim!: bindM_Inr_elim intro!: bindM_Inr_intro
        dest: extendsD [OF assms]  split: if_splits option.splits)

lemma formatEdge_extends:
  assumes "extends pn pn'"
  shows "formatEdge E pn rel edge ctx st = Inr res \<Longrightarrow> formatEdge E pn' rel edge ctx st = Inr res"
  unfolding formatEdge_def
  by (auto simp: Let_def elim!: bindM_Inr_elim intro!: bindM_Inr_intro
        dest: extendsD [OF assms] getFullIDFromKeyNode_extends [OF assms] split: if_splits option.splits)

lemma processVariableAssignment_extends:
  assumes "extends pn pn'"
  shows "processVariableAssignment pn v valueNode resultNode ctx st = Inr res
     \<Longrightarrow> processVariableAssignment pn' v valueNode resultNode ctx st = Inr res"
  unfolding processVariableAssignment_def
  by (auto simp: Let_def elim!: bindM_Inr_elim intro!: bindM_Inr_intro
        dest: extendsD [OF assms]  split: if_splits option.splits)

lemma processEntityFromId_extends:
  assumes "extends pn pn'"
  shows "processEntityFromId E pn t idNode ctx st = Inr res \<Longrightarrow> processEntityFromId E pn' t idNode ctx st = Inr res"
  unfolding processEntityFromId_def
  by (auto simp: Let_def elim!: bindM_Inr_elim intro!: bindM_Inr_intro
        dest: extendsD [OF assms]  split: if_splits option.splits)

lemma processField_extends:
  assumes "extends pn pn'"
  shows "processField E pn objectNode field path ctx st = Inr res
     \<Longrightarrow> processField E pn' objectNode field path ctx st = Inr res"
  unfolding processField_def
  by (auto simp: Let_def elim!: bindM_Inr_elim intro!: bindM_Inr_intro
        dest: extendsD [OF assms]  split: if_splits option.splits)

lemma processRootEntityID_extends:
  assumes "extends pn pn'"
  shows "processRootEntityID pn objectNode ctx st = Inr res \<Longrightarrow> processRootEntityID pn' objectNode ctx st = Inr res"
  unfolding processRootEntityID_def
  by (auto simp: Let_def elim!: bindM_Inr_elim intro!: bindM_Inr_intro
        dest: extendsD [OF assms]  split: if_splits option.splits)

lemma processQuickSearch_extends:
  assumes "extends pn pn'"
  shows "processQuickSearch E pn t itemVariable qsFilterNode ctx st = Inr res
     \<Longrightarrow> processQuickSearch E pn' t itemVariable qsFilterNode ctx st = Inr res"
  unfolding processQuickSearch_def
  by (auto simp: Let_def elim!: bindM_Inr_elim intro!: bindM_Inr_intro
        dest: extendsD [OF assms]  split: if_splits option.splits)

lemma processCount_extends:
  assumes "extends pn pn'"
  shows "processCount pn listNode ctx st = Inr res \<Longrightarrow> processCount pn' listNode ctx st = Inr res"
  unfolding processCount_def
  by (auto simp: Let_def elim!: bindM_Inr_elim intro!: bindM_Inr_intro
        dest: extendsD [OF assms]  split: if_splits option.splits)

lemma processFirstOfList_extends:
  assumes "extends pn pn'"
  shows "processFirstOfList pn listNode ctx st = Inr res \<Longrightarrow> processFirstOfList pn' listNode ctx st = Inr res"
  unfolding processFirstOfList_def
  by (auto simp: Let_def elim!: bindM_Inr_elim intro!: bindM_Inr_intro
        dest: extendsD [OF assms]  split: if_splits option.splits)

lemma processBinaryOperation_extends:
  assumes "extends pn pn'"
  shows "processBinaryOperation E pn lhsNode operator rhsNode ctx st = Inr res
     \<Longrightarrow> processBinaryOperation E pn' lhsNode operator rhsNode ctx st = Inr res"
  unfolding processBinaryOperation_def
  by (auto simp: Let_def elim!: bindM_Inr_elim intro!: bindM_Inr_intro
        dest: extendsD [OF assms]  split: if_splits option.splits)

lemma processOperatorWithLanguage_extends:
  assumes "extends pn pn'"
  shows "processOperatorWithLanguage E pn lhsNode operator rhsNode language ctx st = Inr res
     \<Longrightarrow> processOperatorWithLanguage E pn' lhsNode operator rhsNode language ctx st = Inr res"
  unfolding processOperatorWithLanguage_def
  by (auto simp: Let_def elim!: bindM_Inr_elim intro!: bindM_Inr_intro
        dest: extendsD [OF assms]  split: if_splits option.splits)

lemma processUnaryOperation_extends:
  assumes "extends pn pn'"
  shows "processUnaryOperation pn valueNode operator ctx st = Inr res
     \<Longrightarrow> processUnaryOperation pn' valueNode operator ctx st = Inr res"
  unfolding processUnaryOperation_def
  by (cases operator)
     (auto elim!: bindM_Inr_elim intro!: bindM_Inr_intro dest: extendsD [OF assms])

lemma processConditional_extends:
  assumes "extends pn pn'"
  shows "processConditional pn condition expr1 expr2 ctx st = Inr res
     \<Longrightarrow> processConditional pn' condition expr1 expr2 ctx st = Inr res"
  unfolding processConditional_def
  by (auto simp: Let_def elim!: bindM_Inr_elim intro!: bindM_Inr_intro
        dest: extendsD [OF assms]  split: if_splits option.splits)

lemma processTypeCheck_extends:
  assumes "extends pn pn'"
  shows "processTypeCheck pn valueNode type ctx st = Inr res \<Longrightarrow> processTypeCheck pn' valueNode type ctx st = Inr res"
  unfolding processTypeCheck_def
  by (auto simp: Let_def elim!: bindM_Inr_elim intro!: bindM_Inr_intro
        dest: extendsD [OF assms]  split: if_splits option.splits)

lemma processSafeList_extends:
  assumes "extends pn pn'"
  shows "processSafeList pn sourceNode ctx st = Inr res \<Longrightarrow> processSafeList pn' sourceNode ctx st = Inr res"
  unfolding processSafeList_def
  by (auto simp: Let_def elim!: bindM_Inr_elim intro!: bindM_Inr_intro
        dest: extendsD [OF assms]  split: if_splits option.splits)

lemma processFollowEdge_extends:
  assumes "extends pn pn'"
  shows "processFollowEdge E pn relationSide sourceEntityNode ctx st = Inr res
     \<Longrightarrow> processFollowEdge E pn' relationSide sourceEntityNode ctx st = Inr res"
  unfolding processFollowEdge_def
  by (auto simp: Let_def elim!: bindM_Inr_elim intro!: bindM_Inr_intro
        dest: extendsD [OF assms] getSimpleFollowEdgeFragment_extends [OF assms] split: if_splits option.splits)

lemma processCreateEntity_extends:
  assumes "extends pn pn'"
  shows "processCreateEntity E pn t objectNode ctx st = Inr res
     \<Longrightarrow> processCreateEntity E pn' t objectNode ctx st = Inr res"
  unfolding processCreateEntity_def
  by (auto simp: Let_def elim!: bindM_Inr_elim intro!: bindM_Inr_intro
        dest: extendsD [OF assms]  split: if_splits option.splits)

lemma processUpdateEntities_extends:
  assumes "extends pn pn'"
  shows "processUpdateEntities E pn t listNode currentEntityVariable updates ctx st = Inr res
     \<Longrightarrow> processUpdateEntities E pn' t listNode currentEntityVariable updates ctx st = Inr res"
  unfolding processUpdateEntities_def
  by (auto simp: Let_def elim!: bindM_Inr_elim intro!: bindM_Inr_intro
        dest: extendsD [OF assms]  split: if_splits option.splits)

lemma processDeleteEntities_extends:
  assumes "extends pn pn'"
  shows "processDeleteEntities E pn t listNode ctx st = Inr res
     \<Longrightarrow> processDeleteEntities E pn' t listNode ctx st = Inr res"
  unfolding processDeleteEntities_def
  by (auto simp: Let_def elim!: bindM_Inr_elim intro!: bindM_Inr_intro
        dest: extendsD [OF assms]  split: if_splits option.splits)

lemma processSetEdge_extends:
  assumes "extends pn pn'"
  shows "processSetEdge E pn rel existingEdge newEdge ctx st = Inr res
     \<Longrightarrow> processSetEdge E pn' rel existingEdge newEdge ctx st = Inr res"
  unfolding processSetEdge_def
  by (auto simp: Let_def elim!: bindM_Inr_elim intro!: bindM_Inr_intro
        dest: extendsD [OF assms] formatEdge_extends [OF assms] split: if_splits option.splits)


lemma processList_extends:
  assumes "extends pn pn'"
  shows "processList pn itemNodes ctx st = Inr res \<Longrightarrow> processList pn' itemNodes ctx st = Inr res"
  unfolding processList_def
  by (auto elim!: bindM_Inr_elim intro!: bindM_Inr_intro dest: mapM_pn_extends [OF assms]
        split: if_splits)

lemma processConcatLists_extends:
  assumes "extends pn pn'"
  shows "processConcatLists pn listNodes ctx st = Inr res
     \<Longrightarrow> processConcatLists pn' listNodes ctx st = Inr res"
  unfolding processConcatLists_def
  by (auto elim!: bindM_Inr_elim intro!: bindM_Inr_intro dest: mapM_pn_extends [OF assms])

lemma processMergeObjects_extends:
  assumes "extends pn pn'"
  shows "processMergeObjects pn objectNodes ctx st = Inr res
     \<Longrightarrow> processMergeObjects pn' objectNodes ctx st = Inr res"
  unfolding processMergeObjects_def
  by (auto elim!: bindM_Inr_elim intro!: bindM_Inr_intro dest: mapM_pn_extends [OF assms])

lemma processObject_extends:
  assumes "extends pn pn'"
  shows "processObject E pn properties ctx st = Inr res
     \<Longrightarrow> processObject E pn' properties ctx st = Inr res"
proof -
  have props: "\<And>st r. mapM (\<lambda>(propertyName, valueNode).
                    bindM (pn valueNode ctx) (\<lambda>v.
                    returnM (aql [safeJSONKey E propertyName, code '': '', v]))) properties st = Inr r
      \<Longrightarrow> mapM (\<lambda>(propertyName, valueNode).
                    bindM (pn' valueNode ctx) (\<lambda>v.
                    returnM (aql [safeJSONKey E propertyName, code '': '', v]))) properties st = Inr r"
    by (erule mapM_extends [rotated])
       (auto elim!: bindM_Inr_elim intro!: bindM_Inr_intro dest: extendsD [OF assms])
  show "processObject E pn properties ctx st = Inr res
     \<Longrightarrow> processObject E pn' properties ctx st = Inr res"
    unfolding processObject_def
    by (auto elim!: bindM_Inr_elim intro!: bindM_Inr_intro dest: props split: if_splits)
qed

lemma generateSortAQL_extends:
  assumes "extends pn pn'"
  shows "generateSortAQL pn orderBy ctx st = Inr res \<Longrightarrow> generateSortAQL pn' orderBy ctx st = Inr res"
proof -
  have clauses: "\<And>st r. mapM (\<lambda>(valueNode, direction).
                    bindM (pn valueNode ctx) (\<lambda>v.
                    returnM (aql [code ''('', v, code '') '', dirAQL direction]))) orderBy st = Inr r
      \<Longrightarrow> mapM (\<lambda>(valueNode, direction).
                    bindM (pn' valueNode ctx) (\<lambda>v.
                    returnM (aql [code ''('', v, code '') '', dirAQL direction]))) orderBy st = Inr r"
    by (erule mapM_extends [rotated])
       (auto elim!: bindM_Inr_elim intro!: bindM_Inr_intro dest: extendsD [OF assms])
  show "generateSortAQL pn orderBy ctx st = Inr res \<Longrightarrow> generateSortAQL pn' orderBy ctx st = Inr res"
    unfolding generateSortAQL_def
    by (auto elim!: bindM_Inr_elim intro!: bindM_Inr_intro dest: clauses split: if_splits)
qed

lemma mapM_getFullIDFromKeyNode_extends:
  assumes "extends pn pn'"
  shows "mapM (\<lambda>idNode. getFullIDFromKeyNode E pn idNode t ctx) nodes st = Inr res
     \<Longrightarrow> mapM (\<lambda>idNode. getFullIDFromKeyNode E pn' idNode t ctx) nodes st = Inr res"
  by (erule mapM_extends [rotated]) (rule getFullIDFromKeyNode_extends [OF assms])

lemma getFullIDsFromKeysNode_extends:
  assumes "extends pn pn'"
  shows "getFullIDsFromKeysNode E pn idsNode t ctx st = Inr res
     \<Longrightarrow> getFullIDsFromKeysNode E pn' idsNode t ctx st = Inr res"
  unfolding getFullIDsFromKeysNode_def
  by (cases idsNode)
     (auto elim!: bindM_Inr_elim intro!: bindM_Inr_intro
        dest: extendsD [OF assms] mapM_getFullIDFromKeyNode_extends [OF assms]
        split: option.splits)

lemma mapM_formatEdge_extends:
  assumes "extends pn pn'"
  shows "mapM (\<lambda>edge. formatEdge E pn rel edge ctx) edges st = Inr res
     \<Longrightarrow> mapM (\<lambda>edge. formatEdge E pn' rel edge ctx) edges st = Inr res"
  by (erule mapM_extends [rotated]) (rule formatEdge_extends [OF assms])

lemma processAddEdges_extends:
  assumes "extends pn pn'"
  shows "processAddEdges E pn rel edges ctx st = Inr res
     \<Longrightarrow> processAddEdges E pn' rel edges ctx st = Inr res"
  unfolding processAddEdges_def
  by (auto elim!: bindM_Inr_elim intro!: bindM_Inr_intro
        dest: mapM_formatEdge_extends [OF assms])

lemma processRemoveEdges_extends:
  assumes "extends pn pn'"
  shows "processRemoveEdges E pn rel fromIDsNode toIDsNode ctx st = Inr res
     \<Longrightarrow> processRemoveEdges E pn' rel fromIDsNode toIDsNode ctx st = Inr res"
  unfolding processRemoveEdges_def Let_def
  by (cases fromIDsNode; cases toIDsNode)
     (auto elim!: bindM_Inr_elim intro!: bindM_Inr_intro
        dest: getFullIDsFromKeysNode_extends [OF assms])

lemma processTransformList_extends:
  assumes "extends pn pn'"
  shows "processTransformList E pn listNode itemVariable filterNode orderBy skip maxCount innerNode
           ctx st = Inr res
     \<Longrightarrow> processTransformList E pn' listNode itemVariable filterNode orderBy skip maxCount
           innerNode ctx st = Inr res"
proof -
  have list: "\<And>D st r. (case listNode of
              FollowEdgeQueryNode relationSide sourceEntityNode \<Rightarrow>
                bindM (getSimpleFollowEdgeFragment E pn relationSide sourceEntityNode ctx)
                  (\<lambda>l. returnM (l, D))
            | _ \<Rightarrow> bindM (pn listNode ctx) (\<lambda>l. returnM (l, aql []))) st = Inr r
      \<Longrightarrow> (case listNode of
              FollowEdgeQueryNode relationSide sourceEntityNode \<Rightarrow>
                bindM (getSimpleFollowEdgeFragment E pn' relationSide sourceEntityNode ctx)
                  (\<lambda>l. returnM (l, D))
            | _ \<Rightarrow> bindM (pn' listNode ctx) (\<lambda>l. returnM (l, aql []))) st = Inr r"
    by (cases listNode)
       (auto elim!: bindM_Inr_elim intro!: bindM_Inr_intro
          dest: extendsD [OF assms] getSimpleFollowEdgeFragment_extends [OF assms])
  show "processTransformList E pn listNode itemVariable filterNode orderBy skip maxCount innerNode
           ctx st = Inr res
     \<Longrightarrow> processTransformList E pn' listNode itemVariable filterNode orderBy skip maxCount
           innerNode ctx st = Inr res"
    unfolding processTransformList_def
    by (auto simp: Let_def split_def elim!: bindM_Inr_elim intro!: bindM_Inr_intro
          dest: extendsD [OF assms] list generateSortAQL_extends [OF assms]
            introduceAssignments_extends [OF assms]
          split: if_splits)
qed

lemma getQuantifierFilterUsingArrayExpansion_extends:
  assumes "extends pn pn'"
  shows "getQuantifierFilterUsingArrayExpansion E pn quantifier conditionNode listNode itemVariable
           ctx st = Inr res
     \<Longrightarrow> getQuantifierFilterUsingArrayExpansion E pn' quantifier conditionNode listNode
           itemVariable ctx st = Inr res"
proof (cases "\<exists>lhsNode operator rhsNode.
    conditionNode = BinaryOperationQueryNode lhsNode operator rhsNode")
  case True
  then obtain lhsNode operator rhsNode
    where c: "conditionNode = BinaryOperationQueryNode lhsNode operator rhsNode"
    by blast
  show "getQuantifierFilterUsingArrayExpansion E pn quantifier conditionNode listNode itemVariable
           ctx st = Inr res
     \<Longrightarrow> getQuantifierFilterUsingArrayExpansion E pn' quantifier conditionNode listNode
           itemVariable ctx st = Inr res"
    unfolding c arrayExpansion_binary
    by (auto dest!: extendsD [OF assms] split: if_splits sum.splits)
next
  case False
  then show "getQuantifierFilterUsingArrayExpansion E pn quantifier conditionNode listNode
           itemVariable ctx st = Inr res
     \<Longrightarrow> getQuantifierFilterUsingArrayExpansion E pn' quantifier conditionNode listNode
           itemVariable ctx st = Inr res"
    using arrayExpansion_not_binary [of conditionNode] by simp
qed

lemma processQuantifierFilter_extends:
  assumes "extends pn pn'"
  shows "processQuantifierFilter E pn quantifier listNode itemVariable conditionNode ctx st = Inr res
     \<Longrightarrow> processQuantifierFilter E pn' quantifier listNode itemVariable conditionNode ctx st
           = Inr res"
  unfolding processQuantifierFilter_def
  by (auto simp: Let_def split_def elim!: bindM_Inr_elim intro!: bindM_Inr_intro
        dest: extendsD [OF assms] getQuantifierFilterUsingArrayExpansion_extends [OF assms]
        split: option.splits if_splits)


lemma processors_extends:
  assumes "extends pn pn'"
  shows "extends (processors E pn) (processors E pn')"
  unfolding extends_def
proof (intro allI impI)
  fix node ctx st r
  assume "processors E pn node ctx st = Inr r"
  then show "processors E pn' node ctx st = Inr r"
    unfolding processors_def
    by (cases node)
       (simp_all add: processObject_extends [OF assms] processList_extends [OF assms]
          processConcatLists_extends [OF assms] processVariableAssignment_extends [OF assms]
          processWithPreExecution_extends [OF assms] processEntityFromId_extends [OF assms]
          processField_extends [OF assms] processRootEntityID_extends [OF assms]
          processQuickSearch_extends [OF assms] processTransformList_extends [OF assms]
          processCount_extends [OF assms] processMergeObjects_extends [OF assms]
          processFirstOfList_extends [OF assms] processBinaryOperation_extends [OF assms]
          processOperatorWithLanguage_extends [OF assms] processUnaryOperation_extends [OF assms]
          processConditional_extends [OF assms] processTypeCheck_extends [OF assms]
          processSafeList_extends [OF assms] processQuantifierFilter_extends [OF assms]
          processFollowEdge_extends [OF assms] processCreateEntity_extends [OF assms]
          processUpdateEntities_extends [OF assms] processDeleteEntities_extends [OF assms]
          processAddEdges_extends [OF assms] processRemoveEdges_extends [OF assms]
          processSetEdge_extends [OF assms])
qed

lemma processNode_more_fuel_step: "extends (processNode E n) (processNode E (Suc n))"
proof (induction n)
  case 0
  show ?case
    by (simp add: extends_def throwM_def)
next
  case (Suc n)
  from processors_extends [OF Suc] show ?case
    by simp
qed

lemma processNode_more_fuel:
  "n \<le> m \<Longrightarrow> processNode E n node ctx st = Inr r \<Longrightarrow> processNode E m node ctx st = Inr r"
proof (induction m)
  case 0
  then show ?case by simp
next
  case (Suc m)
  show ?case
  proof (cases "n = Suc m")
    case True
    with Suc.prems show ?thesis by simp
  next
    case False
    with Suc.prems have "n \<le> m" by simp
    from Suc.IH [OF this Suc.prems(2)] show ?thesis
      by (rule extendsD [OF processNode_more_fuel_step])
  qed
qed

end
